theory Spec2Isabelle
  imports Main "HOL-Library.AList" "HOL-Library.Sublist"
begin

section \<open>Python values and exceptions\<close>

text \<open>
  The notebook \<^verbatim>\<open>Using_Qdrant_for_embeddings_search.ipynb\<close> is a sequence of code
  cells that call into libraries (wget, zipfile, pandas, ast, qdrant-client, openai).
  The values that flow between these calls are Python objects. A float is carried as
  mantissa and exponent; the notebook performs no arithmetic on floats (rounding of a
  score happens inside the formatting of a printed line and is recorded symbolically).
\<close>

datatype pyval =
    PyNone
  | PyBool bool
  | PyInt int
  | PyFloat int int
  | PyStr string
  | PyList "pyval list"
  | PyTuple "pyval list"
  | PyDict "(pyval \<times> pyval) list"

text \<open>
  An exception is identified by its class name. \<open>Exn c\<close> is an instance of a class
  deriving from \<^verbatim>\<open>Exception\<close>; \<open>BaseExn c\<close> is an instance of a class deriving from
  \<^verbatim>\<open>BaseException\<close> only (\<^verbatim>\<open>KeyboardInterrupt\<close>, \<^verbatim>\<open>SystemExit\<close>,
  \<^verbatim>\<open>GeneratorExit\<close>). The clause \<^verbatim>\<open>except Exception as e\<close> matches the former only.
\<close>

datatype exn = Exn string | BaseExn string

fun is_Exception :: "exn \<Rightarrow> bool" where
  "is_Exception (Exn c) = True"
| "is_Exception (BaseExn c) = False"

fun py_len :: "pyval \<Rightarrow> exn + int" where
  "py_len (PyStr s) = Inr (int (length s))"
| "py_len (PyList xs) = Inr (int (length xs))"
| "py_len (PyTuple xs) = Inr (int (length xs))"
| "py_len (PyDict kvs) = Inr (int (length kvs))"
| "py_len v = Inl (Exn ''TypeError'')"

definition bindE :: "exn + 'a \<Rightarrow> ('a \<Rightarrow> exn + 'b) \<Rightarrow> exn + 'b" where
  "bindE r f = (case r of Inl e \<Rightarrow> Inl e | Inr x \<Rightarrow> f x)"

primrec mapM :: "('a \<Rightarrow> exn + 'b) \<Rightarrow> 'a list \<Rightarrow> exn + 'b list" where
  "mapM f [] = Inr []"
| "mapM f (x # xs) =
     (case f x of
        Inl e \<Rightarrow> Inl e
      | Inr y \<Rightarrow> (case mapM f xs of Inl e \<Rightarrow> Inl e | Inr ys \<Rightarrow> Inr (y # ys)))"

section \<open>Data frames\<close>

text \<open>
  A row of the frame (a pandas \<^verbatim>\<open>Series\<close> as \<^verbatim>\<open>iterrows\<close> yields it) is an ordered
  list of column label and cell. The frame read by \<^verbatim>\<open>pd.read_csv\<close> has a
  \<^verbatim>\<open>RangeIndex\<close>: the label of a row is its position.
\<close>

type_synonym row = "(string \<times> pyval) list"

record dataframe =
  columns :: "string list"
  rows :: "row list"

definition getitem :: "row \<Rightarrow> string \<Rightarrow> exn + pyval" where
  "getitem v c = (case map_of v c of None \<Rightarrow> Inl (Exn ''KeyError'') | Some x \<Rightarrow> Inr x)"

definition get_column :: "exn \<Rightarrow> dataframe \<Rightarrow> string \<Rightarrow> exn + pyval list" where
  "get_column missing df c =
     (if c \<in> set (columns df) then mapM (\<lambda>v. getitem v c) (rows df) else Inl missing)"

definition set_column :: "dataframe \<Rightarrow> string \<Rightarrow> pyval list \<Rightarrow> dataframe" where
  "set_column df c xs =
     \<lparr>columns = (if c \<in> set (columns df) then columns df else columns df @ [c]),
      rows = map (\<lambda>(v, x). AList.update c x v) (zip (rows df) xs)\<rparr>"

definition head :: "dataframe \<Rightarrow> dataframe" where
  "head df = \<lparr>columns = columns df, rows = take 5 (rows df)\<rparr>"

definition iterrows :: "dataframe \<Rightarrow> (int \<times> row) list" where
  "iterrows df = map (\<lambda>(k, v). (int k, v)) (enumerate 0 (rows df))"

section \<open>Requests, responses and the trace\<close>

datatype distance = COSINE | EUCLID | DOT | MANHATTAN

record vector_params =
  vp_distance :: distance
  vp_size :: int

record point =
  point_id :: int
  vector :: "(string \<times> pyval) list"
  payload :: "(string \<times> pyval) list"

record scored_point =
  sp_id :: int
  sp_score :: pyval
  sp_payload :: "(string \<times> pyval) list option"

datatype shown =
    ShFrame dataframe
  | ShText string
  | ShNames "string list"
  | ShBool bool
  | ShCount int

datatype fmt =
    Lit string
  | ArgInt int
  | ArgVal pyval
  | ArgRow row
  | ArgExn exn
  | ArgRound pyval int

text \<open>
  The trace records, in program order, every call the notebook makes into a library
  or a service, every line it prints and every value a cell displays.
\<close>

datatype event =
    EvShell string
  | EvDownload string
  | EvExtract string string
  | EvReadCsv string
  | EvApply string string
  | EvInfo dataframe
  | EvDisplay shown
  | EvClient string int
  | EvGetCollections
  | EvRecreate string "(string \<times> vector_params) list"
  | EvUpsert string "point list"
  | EvCount string
  | EvEmbed pyval string
  | EvSearch string "string \<times> pyval" int "pyval option"
  | EvPrint "fmt list"

section \<open>The environment\<close>

text \<open>
  Everything outside the notebook is a parameter: the file system, the Qdrant service
  and the embeddings API share a world \<open>'w\<close>; a call takes the world and returns either
  an exception or a result, with the world after the call. \<^verbatim>\<open>literal_eval\<close>,
  \<^verbatim>\<open>str\<close> and the validation done by the constructors \<^verbatim>\<open>VectorParams\<close> and
  \<^verbatim>\<open>PointStruct\<close> are pure.
\<close>

record 'w env =
  shell :: "string \<Rightarrow> 'w \<Rightarrow> 'w"
  download :: "string \<Rightarrow> 'w \<Rightarrow> (exn + string) \<times> 'w"
  extractall :: "string \<Rightarrow> string \<Rightarrow> 'w \<Rightarrow> (exn + unit) \<times> 'w"
  read_csv :: "string \<Rightarrow> 'w \<Rightarrow> (exn + dataframe) \<times> 'w"
  literal_eval :: "pyval \<Rightarrow> exn + pyval"
  py_str :: "pyval \<Rightarrow> string"
  qdrant_client :: "string \<Rightarrow> int \<Rightarrow> 'w \<Rightarrow> (exn + unit) \<times> 'w"
  get_collections :: "'w \<Rightarrow> (exn + string list) \<times> 'w"
  validate_params :: "vector_params \<Rightarrow> exn option"
  recreate_collection :: "string \<Rightarrow> (string \<times> vector_params) list \<Rightarrow> 'w \<Rightarrow> (exn + bool) \<times> 'w"
  validate_point :: "point \<Rightarrow> exn option"
  upsert :: "string \<Rightarrow> point list \<Rightarrow> 'w \<Rightarrow> (exn + unit) \<times> 'w"
  count_points :: "string \<Rightarrow> 'w \<Rightarrow> (exn + int) \<times> 'w"
  embeddings_create :: "pyval \<Rightarrow> string \<Rightarrow> 'w \<Rightarrow> (exn + pyval list) \<times> 'w"
  search :: "string \<Rightarrow> string \<times> pyval \<Rightarrow> int \<Rightarrow> pyval option \<Rightarrow> 'w \<Rightarrow> (exn + scored_point list) \<times> 'w"

section \<open>Programs: state passing with exceptions\<close>

record 'w state =
  world :: 'w
  trace :: "event list"

type_synonym ('w, 'a) prog = "'w state \<Rightarrow> (exn + 'a) \<times> 'w state"

definition ret :: "'a \<Rightarrow> ('w, 'a) prog" where
  "ret x s = (Inr x, s)"

definition lift :: "exn + 'a \<Rightarrow> ('w, 'a) prog" where
  "lift r s = (r, s)"

definition bind :: "('w, 'a) prog \<Rightarrow> ('a \<Rightarrow> ('w, 'b) prog) \<Rightarrow> ('w, 'b) prog" where
  "bind m f s = (case m s of (Inl e, s') \<Rightarrow> (Inl e, s') | (Inr x, s') \<Rightarrow> f x s')"

definition emit :: "event \<Rightarrow> ('w, unit) prog" where
  "emit ev s = (Inr (), s\<lparr>trace := trace s @ [ev]\<rparr>)"

definition call :: "event \<Rightarrow> ('w \<Rightarrow> (exn + 'a) \<times> 'w) \<Rightarrow> ('w, 'a) prog" where
  "call ev f s = (case f (world s) of (r, w') \<Rightarrow> (r, \<lparr>world = w', trace = trace s @ [ev]\<rparr>))"

definition init :: "'w \<Rightarrow> 'w state" where
  "init w = \<lparr>world = w, trace = []\<rparr>"

definition try_except :: "('w, 'a) prog \<Rightarrow> (exn \<Rightarrow> ('w, 'a) prog) \<Rightarrow> ('w, 'a) prog" where
  "try_except body handler s =
     (case body s of
        (Inl e, s') \<Rightarrow> (if is_Exception e then handler e s' else (Inl e, s'))
      | (Inr x, s') \<Rightarrow> (Inr x, s'))"

section \<open>The cells of the notebook\<close>

definition EMBEDDING_MODEL :: string where
  "EMBEDDING_MODEL = ''text-embedding-ada-002''"

definition embeddings_url :: string where
  "embeddings_url =
     ''https://cdn.openai.com/API/examples/data/vector_database_wikipedia_articles_embedded.zip''"

text \<open>\<^verbatim>\<open>!pip install qdrant-client\<close>: a shell escape does not raise.\<close>

definition sh :: "'w env \<Rightarrow> string \<Rightarrow> ('w, unit) prog" where
  "sh env cmd = call (EvShell cmd) (\<lambda>w. (Inr (), shell env cmd w))"

definition cell_install :: "'w env \<Rightarrow> ('w, unit) prog" where
  "cell_install env = sh env ''pip install qdrant-client''"

text \<open>\<^verbatim>\<open>wget.download(embeddings_url)\<close>; the cell displays the file name returned.\<close>

definition cell_download :: "'w env \<Rightarrow> ('w, unit) prog" where
  "cell_download env =
     bind (call (EvDownload embeddings_url) (download env embeddings_url)) (\<lambda>name.
     emit (EvDisplay (ShText name)))"

text \<open>
  \<^verbatim>\<open>with zipfile.ZipFile("vector_database_wikipedia_articles_embedded.zip","r") as zip_ref:
      zip_ref.extractall("../data")\<close>
\<close>

definition cell_extract :: "'w env \<Rightarrow> ('w, unit) prog" where
  "cell_extract env =
     call (EvExtract ''vector_database_wikipedia_articles_embedded.zip'' ''../data'')
       (extractall env ''vector_database_wikipedia_articles_embedded.zip'' ''../data'')"

text \<open>\<^verbatim>\<open>article_df = pd.read_csv('../data/vector_database_wikipedia_articles_embedded.csv')\<close>\<close>

definition cell_read_csv :: "'w env \<Rightarrow> ('w, dataframe) prog" where
  "cell_read_csv env =
     call (EvReadCsv ''../data/vector_database_wikipedia_articles_embedded.csv'')
       (read_csv env ''../data/vector_database_wikipedia_articles_embedded.csv'')"

text \<open>\<^verbatim>\<open>article_df.head()\<close>\<close>

definition cell_head :: "dataframe \<Rightarrow> ('w, unit) prog" where
  "cell_head article_df = emit (EvDisplay (ShFrame (head article_df)))"

text \<open>
  \<^verbatim>\<open>article_df['title_vector'] = article_df.title_vector.apply(literal_eval)
  article_df['content_vector'] = article_df.content_vector.apply(literal_eval)
  article_df['vector_id'] = article_df['vector_id'].apply(str)\<close>

  Attribute access to a missing column raises \<^verbatim>\<open>AttributeError\<close>, subscripting
  \<^verbatim>\<open>KeyError\<close>. \<^verbatim>\<open>apply\<close> calls the function on the cells in row order and the first
  exception ends it.
\<close>

definition apply_column ::
  "exn \<Rightarrow> string \<Rightarrow> string \<Rightarrow> (pyval \<Rightarrow> exn + pyval) \<Rightarrow> dataframe \<Rightarrow> ('w, dataframe) prog" where
  "apply_column missing c fname f df =
     bind (lift (get_column missing df c)) (\<lambda>xs.
     bind (emit (EvApply c fname)) (\<lambda>_.
     bind (lift (mapM f xs)) (\<lambda>ys.
     ret (set_column df c ys))))"

definition cell_parse :: "'w env \<Rightarrow> dataframe \<Rightarrow> ('w, dataframe) prog" where
  "cell_parse env article_df =
     bind (apply_column (Exn ''AttributeError'') ''title_vector'' ''literal_eval''
             (literal_eval env) article_df) (\<lambda>df1.
     bind (apply_column (Exn ''AttributeError'') ''content_vector'' ''literal_eval''
             (literal_eval env) df1) (\<lambda>df2.
     apply_column (Exn ''KeyError'') ''vector_id'' ''str''
             (\<lambda>x. Inr (PyStr (py_str env x))) df2))"

text \<open>\<^verbatim>\<open>article_df.info(show_counts=True)\<close>\<close>

definition cell_info :: "dataframe \<Rightarrow> ('w, unit) prog" where
  "cell_info article_df = emit (EvInfo article_df)"

text \<open>\<^verbatim>\<open>! docker compose up -d\<close>\<close>

definition cell_docker :: "'w env \<Rightarrow> ('w, unit) prog" where
  "cell_docker env = sh env ''docker compose up -d''"

text \<open>\<^verbatim>\<open>qdrant = qdrant_client.QdrantClient(host="localhost", port=6333)\<close>\<close>

definition cell_client :: "'w env \<Rightarrow> ('w, unit) prog" where
  "cell_client env = call (EvClient ''localhost'' 6333) (qdrant_client env ''localhost'' 6333)"

text \<open>\<^verbatim>\<open>qdrant.get_collections()\<close>\<close>

definition cell_get_collections :: "'w env \<Rightarrow> ('w, unit) prog" where
  "cell_get_collections env =
     bind (call EvGetCollections (get_collections env)) (\<lambda>names.
     emit (EvDisplay (ShNames names)))"

text \<open>
  \<^verbatim>\<open>vector_size = len(article_df['content_vector'][0])\<close>: the column is looked up,
  then the row labelled 0, then its length is taken.
\<close>

definition vector_size :: "dataframe \<Rightarrow> exn + int" where
  "vector_size article_df =
     (case get_column (Exn ''KeyError'') article_df ''content_vector'' of
        Inl e \<Rightarrow> Inl e
      | Inr [] \<Rightarrow> Inl (Exn ''KeyError'')
      | Inr (x # xs) \<Rightarrow> py_len x)"

definition VectorParams :: "'w env \<Rightarrow> distance \<Rightarrow> int \<Rightarrow> exn + vector_params" where
  "VectorParams env d n =
     (let p = \<lparr>vp_distance = d, vp_size = n\<rparr>
      in case validate_params env p of Some e \<Rightarrow> Inl e | None \<Rightarrow> Inr p)"

text \<open>
  \<^verbatim>\<open>qdrant.recreate_collection(
      collection_name='Articles',
      vectors_config={
          'title': rest.VectorParams(distance=rest.Distance.COSINE, size=vector_size),
          'content': rest.VectorParams(distance=rest.Distance.COSINE, size=vector_size),
      })\<close>
  The notebook has this cell twice.
\<close>

definition cell_recreate_collection :: "'w env \<Rightarrow> dataframe \<Rightarrow> ('w, unit) prog" where
  "cell_recreate_collection env article_df =
     bind (lift (vector_size article_df)) (\<lambda>n.
     bind (lift (VectorParams env COSINE n)) (\<lambda>pt.
     bind (lift (VectorParams env COSINE n)) (\<lambda>pc.
     bind (call (EvRecreate ''Articles'' [(''title'', pt), (''content'', pc)])
             (recreate_collection env ''Articles'' [(''title'', pt), (''content'', pc)])) (\<lambda>ok.
     emit (EvDisplay (ShBool ok))))))"

text \<open>
  \<^verbatim>\<open>for k, v in tqdm(article_df.iterrows(), desc="Upserting articles", total=len(article_df)):
      try:
          qdrant.upsert(
              collection_name='Articles',
              points=[
                  PointStruct(
                      id=k,
                      vector={'title': v['title_vector'],
                              'content': v['content_vector']},
                      payload={
                          'id': v['id'],
                          'title': v['title'],
                          'url': v['url']
                      }
                  )
              ]
          )
      except Exception as e:
          print(f"Failed to upsert row {k}: {v}")
          print(f"Exception: {e}")\<close>
  \<^verbatim>\<open>tqdm\<close> passes the rows through and draws a progress bar on stderr.
\<close>

definition PointStruct ::
  "'w env \<Rightarrow> int \<Rightarrow> (string \<times> pyval) list \<Rightarrow> (string \<times> pyval) list \<Rightarrow> exn + point" where
  "PointStruct env k vec pl =
     (let p = \<lparr>point_id = k, vector = vec, payload = pl\<rparr>
      in case validate_point env p of Some e \<Rightarrow> Inl e | None \<Rightarrow> Inr p)"

definition build_point :: "'w env \<Rightarrow> int \<Rightarrow> row \<Rightarrow> exn + point" where
  "build_point env k v =
     bindE (getitem v ''title_vector'') (\<lambda>tv.
     bindE (getitem v ''content_vector'') (\<lambda>cv.
     bindE (getitem v ''id'') (\<lambda>i.
     bindE (getitem v ''title'') (\<lambda>t.
     bindE (getitem v ''url'') (\<lambda>u.
     PointStruct env k [(''title'', tv), (''content'', cv)]
       [(''id'', i), (''title'', t), (''url'', u)])))))"

definition upsert_row :: "'w env \<Rightarrow> int \<Rightarrow> row \<Rightarrow> ('w, unit) prog" where
  "upsert_row env k v =
     bind (lift (build_point env k v)) (\<lambda>p.
     call (EvUpsert ''Articles'' [p]) (upsert env ''Articles'' [p]))"

definition report_failure :: "int \<Rightarrow> row \<Rightarrow> exn \<Rightarrow> ('w, unit) prog" where
  "report_failure k v e =
     bind (emit (EvPrint [Lit ''Failed to upsert row '', ArgInt k, Lit '': '', ArgRow v])) (\<lambda>_.
     emit (EvPrint [Lit ''Exception: '', ArgExn e]))"

fun upsert_loop :: "'w env \<Rightarrow> (int \<times> row) list \<Rightarrow> ('w, unit) prog" where
  "upsert_loop env [] = ret ()"
| "upsert_loop env ((k, v) # kvs) =
     bind (try_except (upsert_row env k v) (report_failure k v)) (\<lambda>_.
     upsert_loop env kvs)"

definition cell_upsert :: "'w env \<Rightarrow> dataframe \<Rightarrow> ('w, unit) prog" where
  "cell_upsert env article_df = upsert_loop env (iterrows article_df)"

text \<open>\<^verbatim>\<open>qdrant.count(collection_name='Articles')\<close>\<close>

definition cell_count :: "'w env \<Rightarrow> ('w, unit) prog" where
  "cell_count env =
     bind (call (EvCount ''Articles'') (count_points env ''Articles'')) (\<lambda>n.
     emit (EvDisplay (ShCount n)))"

text \<open>
  \<^verbatim>\<open>def query_qdrant(query, collection_name, vector_name='title', top_k=20):
      embedded_query = openai.embeddings.create(
          input=query,
          model=EMBEDDING_MODEL,
      ).data[0].embedding
      query_results = qdrant.search(
          collection_name=collection_name,
          query_vector=(vector_name, embedded_query),
          limit=top_k,
          query_filter=None
      )
      return query_results\<close>
  An argument left out is \<open>None\<close> here and takes the default of the signature.
\<close>

definition first_embedding :: "pyval list \<Rightarrow> exn + pyval" where
  "first_embedding data = (case data of [] \<Rightarrow> Inl (Exn ''IndexError'') | d # ds \<Rightarrow> Inr d)"

definition vector_name_of :: "string option \<Rightarrow> string" where
  "vector_name_of a = (case a of None \<Rightarrow> ''title'' | Some n \<Rightarrow> n)"

definition top_k_of :: "int option \<Rightarrow> int" where
  "top_k_of a = (case a of None \<Rightarrow> 20 | Some k \<Rightarrow> k)"

definition query_qdrant ::
  "'w env \<Rightarrow> pyval \<Rightarrow> string \<Rightarrow> string option \<Rightarrow> int option \<Rightarrow> ('w, scored_point list) prog" where
  "query_qdrant env query collection_name vector_name_arg top_k_arg =
     (let vector_name = vector_name_of vector_name_arg;
          top_k = top_k_of top_k_arg
      in bind (call (EvEmbed query EMBEDDING_MODEL)
                 (embeddings_create env query EMBEDDING_MODEL)) (\<lambda>data.
         bind (lift (first_embedding data)) (\<lambda>embedded_query.
         call (EvSearch collection_name (vector_name, embedded_query) top_k None)
           (search env collection_name (vector_name, embedded_query) top_k None))))"

text \<open>
  \<^verbatim>\<open>for i, article in enumerate(query_results):
      print(f'{i + 1}. {article.payload["title"]}, URL: {article.payload["url"]} (Score: {round(article.score, 3)})')\<close>
\<close>

definition payload_get :: "scored_point \<Rightarrow> string \<Rightarrow> exn + pyval" where
  "payload_get article c =
     (case sp_payload article of None \<Rightarrow> Inl (Exn ''TypeError'') | Some pl \<Rightarrow> getitem pl c)"

fun print_results :: "nat \<Rightarrow> scored_point list \<Rightarrow> ('w, unit) prog" where
  "print_results i [] = ret ()"
| "print_results i (article # rest) =
     bind (lift (payload_get article ''title'')) (\<lambda>t.
     bind (lift (payload_get article ''url'')) (\<lambda>u.
     bind (emit (EvPrint [ArgInt (int i + 1), Lit ''. '', ArgVal t, Lit '', URL: '', ArgVal u,
                          Lit '' (Score: '', ArgRound (sp_score article) 3, Lit '')''])) (\<lambda>_.
     print_results (Suc i) rest)))"

text \<open>
  \<^verbatim>\<open>query_results = query_qdrant('modern art in Europe', 'Articles', 'title')\<close> and
  \<^verbatim>\<open>query_results = query_qdrant('Famous battles in Scottish history', 'Articles', 'content')\<close>,
  each followed by the printing loop.
\<close>

definition cell_query :: "'w env \<Rightarrow> string \<Rightarrow> string \<Rightarrow> ('w, unit) prog" where
  "cell_query env q vector_name =
     bind (query_qdrant env (PyStr q) ''Articles'' (Some vector_name) None) (\<lambda>query_results.
     print_results 0 query_results)"

text \<open>The notebook run from top to bottom: an exception that leaves a cell ends the run.\<close>

definition notebook :: "'w env \<Rightarrow> ('w, unit) prog" where
  "notebook env =
     bind (cell_install env) (\<lambda>_.
     bind (cell_download env) (\<lambda>_.
     bind (cell_extract env) (\<lambda>_.
     bind (cell_read_csv env) (\<lambda>loaded.
     bind (cell_head loaded) (\<lambda>_.
     bind (cell_parse env loaded) (\<lambda>article_df.
     bind (cell_info article_df) (\<lambda>_.
     bind (cell_docker env) (\<lambda>_.
     bind (cell_client env) (\<lambda>_.
     bind (cell_get_collections env) (\<lambda>_.
     bind (cell_recreate_collection env article_df) (\<lambda>_.
     bind (cell_recreate_collection env article_df) (\<lambda>_.
     bind (cell_upsert env article_df) (\<lambda>_.
     bind (cell_count env) (\<lambda>_.
     bind (cell_query env ''modern art in Europe'' ''title'') (\<lambda>_.
     cell_query env ''Famous battles in Scottish history'' ''content'')))))))))))))))"

section \<open>The schema of the data set\<close>

text \<open>The columns the notebook shows for the loaded data set, in its order.\<close>

definition article_columns :: "string list" where
  "article_columns =
     [''id'', ''url'', ''title'', ''text'', ''title_vector'', ''content_vector'', ''vector_id'']"

fun is_float :: "pyval \<Rightarrow> bool" where
  "is_float (PyFloat m e) = True"
| "is_float v = False"

fun is_float_list :: "pyval \<Rightarrow> bool" where
  "is_float_list (PyList xs) = list_all is_float xs"
| "is_float_list v = False"

fun is_str :: "pyval \<Rightarrow> bool" where
  "is_str (PyStr s) = True"
| "is_str v = False"

text \<open>A cell that holds the text of a list of floats, as \<^verbatim>\<open>literal_eval\<close> reads it.\<close>

definition vector_text :: "'w env \<Rightarrow> row \<Rightarrow> string \<Rightarrow> bool" where
  "vector_text env v c =
     (case getitem v c of
        Inl e \<Rightarrow> False
      | Inr x \<Rightarrow> is_str x \<and> (case literal_eval env x of Inl e \<Rightarrow> False | Inr y \<Rightarrow> is_float_list y))"

text \<open>
  The frame as the notebook shows it after loading: the seven columns, in every row,
  with the text of a list of floats in the two vector columns.
\<close>

definition loaded_schema :: "'w env \<Rightarrow> dataframe \<Rightarrow> bool" where
  "loaded_schema env df =
     (columns df = article_columns \<and>
      list_all (\<lambda>v. map fst v = article_columns \<and>
                     vector_text env v ''title_vector'' \<and> vector_text env v ''content_vector'')
        (rows df))"

text \<open>What the parsing cell makes of one row.\<close>

definition parsed_row :: "'w env \<Rightarrow> row \<Rightarrow> row" where
  "parsed_row env v =
     AList.update ''vector_id'' (PyStr (py_str env (projr (getitem v ''vector_id'')))) 
       (AList.update ''content_vector'' (projr (literal_eval env (projr (getitem v ''content_vector''))))
          (AList.update ''title_vector'' (projr (literal_eval env (projr (getitem v ''title_vector'')))) v))"

section \<open>Properties of traces\<close>

text \<open>
  A triple \<open>hoare I p J\<close>: when the trace satisfies \<open>I\<close> before \<open>p\<close> runs, it satisfies
  \<open>J\<close> afterwards, whether \<open>p\<close> returns or raises.
\<close>

definition hoare :: "(event list \<Rightarrow> bool) \<Rightarrow> ('w, 'a) prog \<Rightarrow> (event list \<Rightarrow> bool) \<Rightarrow> bool" where
  "hoare I p J = (\<forall>s. I (trace s) \<longrightarrow> J (trace (snd (p s))))"

text \<open>An invariant of the form "every event satisfies \<open>Q\<close>".\<close>

definition every :: "(event \<Rightarrow> bool) \<Rightarrow> event list \<Rightarrow> bool" where
  "every Q t = (\<forall>ev\<in>set t. Q ev)"

section \<open>Predicates on events\<close>

text \<open>What the collection-creating cell may send, for a given frame.\<close>

definition recreate_ok :: "dataframe \<Rightarrow> event \<Rightarrow> bool" where
  "recreate_ok df ev =
     (case ev of
        EvRecreate c cfg \<Rightarrow>
          (\<exists>n. vector_size df = Inr n \<and> c = ''Articles'' \<and>
               cfg = [(''title'', \<lparr>vp_distance = COSINE, vp_size = n\<rparr>),
                      (''content'', \<lparr>vp_distance = COSINE, vp_size = n\<rparr>)])
      | _ \<Rightarrow> True)"

text \<open>The contract of the search service on its \<^verbatim>\<open>limit\<close>.\<close>

definition honours_limit :: "'w env \<Rightarrow> bool" where
  "honours_limit env =
     (\<forall>c qv k f w rs. fst (search env c qv k f w) = Inr rs \<longrightarrow> int (length rs) \<le> k)"

section \<open>The upsert loop, pass by pass\<close>

definition failure_lines :: "int \<Rightarrow> row \<Rightarrow> exn \<Rightarrow> event list" where
  "failure_lines k v e =
     [EvPrint [Lit ''Failed to upsert row '', ArgInt k, Lit '': '', ArgRow v],
      EvPrint [Lit ''Exception: '', ArgExn e]]"

fun upsert_request :: "event \<Rightarrow> (string \<times> point list) list" where
  "upsert_request (EvUpsert c ps) = [(c, ps)]"
| "upsert_request ev = []"

definition upsert_requests :: "event list \<Rightarrow> (string \<times> point list) list" where
  "upsert_requests t = concat (map upsert_request t)"

text \<open>The events one pass through the body of the loop adds, and whether the loop goes on.\<close>

definition row_events :: "'w env \<Rightarrow> int \<Rightarrow> row \<Rightarrow> 'w \<Rightarrow> event list" where
  "row_events env k v w =
     (case build_point env k v of
        Inl e \<Rightarrow> (if is_Exception e then failure_lines k v e else [])
      | Inr p \<Rightarrow>
          EvUpsert ''Articles'' [p] #
          (case fst (upsert env ''Articles'' [p] w) of
             Inl e \<Rightarrow> (if is_Exception e then failure_lines k v e else [])
           | Inr u \<Rightarrow> []))"

definition row_world :: "'w env \<Rightarrow> int \<Rightarrow> row \<Rightarrow> 'w \<Rightarrow> 'w" where
  "row_world env k v w =
     (case build_point env k v of
        Inl e \<Rightarrow> w
      | Inr p \<Rightarrow> snd (upsert env ''Articles'' [p] w))"

definition row_escapes :: "'w env \<Rightarrow> int \<Rightarrow> row \<Rightarrow> 'w \<Rightarrow> exn option" where
  "row_escapes env k v w =
     (case build_point env k v of
        Inl e \<Rightarrow> (if is_Exception e then None else Some e)
      | Inr p \<Rightarrow>
          (case fst (upsert env ''Articles'' [p] w) of
             Inl e \<Rightarrow> (if is_Exception e then None else Some e)
           | Inr u \<Rightarrow> None))"

text \<open>Whether a row yields a point, and the request sent for it when it does.\<close>

definition builds :: "'w env \<Rightarrow> int \<times> row \<Rightarrow> bool" where
  "builds env kv = (\<not> isl (build_point env (fst kv) (snd kv)))"

definition row_request :: "'w env \<Rightarrow> int \<times> row \<Rightarrow> string \<times> point list" where
  "row_request env kv = (''Articles'', [projr (build_point env (fst kv) (snd kv))])"

text \<open>What the user is shown, as opposed to what is sent to a library or service.\<close>

fun shown_to_user :: "event \<Rightarrow> bool" where
  "shown_to_user (EvPrint fs) = True"
| "shown_to_user (EvDisplay x) = True"
| "shown_to_user (EvInfo df) = True"
| "shown_to_user ev = False"

definition requests_only :: "event list \<Rightarrow> event list" where
  "requests_only t = filter (\<lambda>ev. \<not> shown_to_user ev) t"

text \<open>Two rows with the same label that differ at most in \<^verbatim>\<open>vector_id\<close>.\<close>

definition same_but_vector_id :: "int \<times> row \<Rightarrow> int \<times> row \<Rightarrow> bool" where
  "same_but_vector_id kv kv' = (fst kv' = fst kv \<and> (\<exists>x. snd kv' = AList.update ''vector_id'' x (snd kv)))"

section \<open>The order of the steps\<close>

text \<open>
  The steps of the notebook, and the step an event belongs to. A printed line that
  starts with a number is a result line of a query; the lines of the failure message
  start with text and belong to no step, like shell commands, displays and the calls
  that only read the state of the service.
\<close>

datatype stage = Download | Extract | Load | Parse | Create | Upsert | Query | PrintResults

fun stage_of :: "event \<Rightarrow> stage option" where
  "stage_of (EvDownload url) = Some Download"
| "stage_of (EvExtract archive dir) = Some Extract"
| "stage_of (EvReadCsv path) = Some Load"
| "stage_of (EvApply c f) = Some Parse"
| "stage_of (EvRecreate c cfg) = Some Create"
| "stage_of (EvUpsert c ps) = Some Upsert"
| "stage_of (EvEmbed q m) = Some Query"
| "stage_of (EvSearch c qv k f) = Some Query"
| "stage_of (EvPrint (ArgInt i # fs)) = Some PrintResults"
| "stage_of ev = None"

definition stages :: "event list \<Rightarrow> stage list" where
  "stages t = List.map_filter stage_of t"

text \<open>
  \<open>remaining ps ks\<close> reads the observed steps \<open>ks\<close> against the order \<open>ps\<close>: a step
  may repeat, steps may be left out, and a step that comes before the current one in
  \<open>ps\<close> is refused. It returns what is left of the order, from the current step on.
\<close>

fun remaining :: "stage list \<Rightarrow> stage list \<Rightarrow> stage list option" where
  "remaining ps [] = Some ps"
| "remaining [] (k # ks) = None"
| "remaining (p # ps) (k # ks) = (if k = p then remaining (p # ps) ks else remaining ps (k # ks))"

definition follows :: "stage list \<Rightarrow> stage list \<Rightarrow> bool" where
  "follows ps ks = (remaining ps ks \<noteq> None)"

text \<open>
  The order as the specification gives it, with loading the CSV in its place between
  extraction and parsing, and the order with the second query after the first results.
\<close>

definition claimed_order :: "stage list" where
  "claimed_order = [Download, Extract, Load, Parse, Create, Upsert, Query, PrintResults]"

definition actual_order :: "stage list" where
  "actual_order = [Download, Extract, Load, Parse, Create, Upsert, Query, PrintResults,
                   Query, PrintResults]"

text \<open>The trace follows \<open>actual_order\<close> and has not gone beyond its \<open>n\<close>-th step.\<close>

definition upto_stage :: "nat \<Rightarrow> event list \<Rightarrow> bool" where
  "upto_stage n t = (\<exists>j\<le>n. remaining actual_order (stages t) = Some (drop j actual_order))"

definition in_stage :: "nat \<Rightarrow> event \<Rightarrow> bool" where
  "in_stage n ev =
     (stage_of ev = None \<or> (n < length actual_order \<and> stage_of ev = Some (actual_order ! n)))"

text \<open>The notebook up to the count of the collection, before the two query cells.\<close>

definition before_queries :: "'w env \<Rightarrow> ('w, unit) prog" where
  "before_queries env =
     bind (cell_install env) (\<lambda>_.
     bind (cell_download env) (\<lambda>_.
     bind (cell_extract env) (\<lambda>_.
     bind (cell_read_csv env) (\<lambda>loaded.
     bind (cell_head loaded) (\<lambda>_.
     bind (cell_parse env loaded) (\<lambda>article_df.
     bind (cell_info article_df) (\<lambda>_.
     bind (cell_docker env) (\<lambda>_.
     bind (cell_client env) (\<lambda>_.
     bind (cell_get_collections env) (\<lambda>_.
     bind (cell_recreate_collection env article_df) (\<lambda>_.
     bind (cell_recreate_collection env article_df) (\<lambda>_.
     bind (cell_upsert env article_df) (\<lambda>_.
     cell_count env)))))))))))))"

text \<open>
  The lines the printing loop writes for a list of results: it stops at the first result
  whose payload, title or url is missing.
\<close>

definition result_line :: "nat \<Rightarrow> scored_point \<Rightarrow> pyval \<Rightarrow> pyval \<Rightarrow> event" where
  "result_line i article t u =
     EvPrint [ArgInt (int i + 1), Lit ''. '', ArgVal t, Lit '', URL: '', ArgVal u,
              Lit '' (Score: '', ArgRound (sp_score article) 3, Lit '')'']"

fun result_lines :: "nat \<Rightarrow> scored_point list \<Rightarrow> event list" where
  "result_lines i [] = []"
| "result_lines i (article # rest) =
     (case payload_get article ''title'' of
        Inl e \<Rightarrow> []
      | Inr t \<Rightarrow>
          (case payload_get article ''url'' of
             Inl e \<Rightarrow> []
           | Inr u \<Rightarrow> result_line i article t u # result_lines (Suc i) rest))"

text \<open>
  The events of one query cell run in the world \<open>w\<close>: the embeddings call; then, if it
  returned an embedding, the search; then, if it returned results, their lines.
\<close>

definition query_events :: "'w env \<Rightarrow> string \<Rightarrow> string \<Rightarrow> 'w \<Rightarrow> event list" where
  "query_events env q vector_name w =
     EvEmbed (PyStr q) EMBEDDING_MODEL #
     (case embeddings_create env (PyStr q) EMBEDDING_MODEL w of
        (Inr (d # ds), w1) \<Rightarrow>
          EvSearch ''Articles'' (vector_name, d) 20 None #
          (case fst (search env ''Articles'' (vector_name, d) 20 None w1) of
             Inl e \<Rightarrow> []
           | Inr rs \<Rightarrow> result_lines 0 rs)
      | (r, w1) \<Rightarrow> [])"

text \<open>
  Sets of sequences of steps: one sequence, any number of times the same step, and a
  sequence of the first set followed by one of the second. \<open>performs p S\<close>: from every
  state, \<open>p\<close> adds to the steps of the trace a sequence of \<open>S\<close> when it returns, and a
  prefix of one when it raises.
\<close>

definition exactly :: "stage list \<Rightarrow> stage list \<Rightarrow> bool" where
  "exactly xs L = (L = xs)"

definition repeated :: "stage \<Rightarrow> stage list \<Rightarrow> bool" where
  "repeated k L = (\<exists>n. L = replicate n k)"

definition then_steps :: "(stage list \<Rightarrow> bool) \<Rightarrow> (stage list \<Rightarrow> bool) \<Rightarrow> stage list \<Rightarrow> bool" where
  "then_steps S T L = (\<exists>a b. L = a @ b \<and> S a \<and> T b)"

definition performs :: "('w, 'a) prog \<Rightarrow> (stage list \<Rightarrow> bool) \<Rightarrow> bool" where
  "performs p S =
     (\<forall>s. \<exists>L ks. S L \<and> stages (trace (snd (p s))) = stages (trace s) @ ks \<and>
              (if isl (fst (p s)) then prefix ks L else ks = L))"

text \<open>
  The steps of a complete run up to the queries, with \<open>n\<close> upserts, and those of a query
  cell that prints \<open>m\<close> lines.
\<close>

definition indexing_steps :: "nat \<Rightarrow> stage list" where
  "indexing_steps n =
     [Download, Extract, Load, Parse, Parse, Parse, Create, Create] @ replicate n Upsert"

definition query_steps :: "nat \<Rightarrow> stage list" where
  "query_steps m = [Query, Query] @ replicate m PrintResults"

section \<open>A small concrete world\<close>

text \<open>
  A frame of two articles with the seven columns the notebook shows for the data set, and
  an environment in which the Qdrant collection is the list of the points stored so far.
\<close>

definition demo_csv :: dataframe where
  "demo_csv =
     \<lparr>columns = article_columns,
      rows =
        [[(''id'', PyInt 1), (''url'', PyStr ''wiki/April''), (''title'', PyStr ''April''),
          (''text'', PyStr ''April is the fourth month''),
          (''title_vector'', PyStr ''[0.5, 0.25]''), (''content_vector'', PyStr ''[0.25, 0.5]''),
          (''vector_id'', PyInt 0)],
         [(''id'', PyInt 2), (''url'', PyStr ''wiki/August''), (''title'', PyStr ''August''),
          (''text'', PyStr ''August is the eighth month''),
          (''title_vector'', PyStr ''[0.25, 0.5]''), (''content_vector'', PyStr ''[0.5, 0.25]''),
          (''vector_id'', PyInt 1)]]\<rparr>"

definition demo_df :: dataframe where
  "demo_df =
     \<lparr>columns = article_columns,
      rows =
        [[(''id'', PyInt 1), (''url'', PyStr ''wiki/April''), (''title'', PyStr ''April''),
          (''text'', PyStr ''April is the fourth month''),
          (''title_vector'', PyList [PyFloat 1 (- 1), PyFloat 1 (- 2)]),
          (''content_vector'', PyList [PyFloat 1 (- 2), PyFloat 1 (- 1)]),
          (''vector_id'', PyStr ''0'')],
         [(''id'', PyInt 2), (''url'', PyStr ''wiki/August''), (''title'', PyStr ''August''),
          (''text'', PyStr ''August is the eighth month''),
          (''title_vector'', PyList [PyFloat 1 (- 2), PyFloat 1 (- 1)]),
          (''content_vector'', PyList [PyFloat 1 (- 1), PyFloat 1 (- 2)]),
          (''vector_id'', PyStr ''1'')]]\<rparr>"

definition demo_literal_eval :: "pyval \<Rightarrow> exn + pyval" where
  "demo_literal_eval x =
     (if x = PyStr ''[0.5, 0.25]'' then Inr (PyList [PyFloat 1 (- 1), PyFloat 1 (- 2)])
      else if x = PyStr ''[0.25, 0.5]'' then Inr (PyList [PyFloat 1 (- 2), PyFloat 1 (- 1)])
      else Inl (Exn ''ValueError''))"

definition demo_str :: "pyval \<Rightarrow> string" where
  "demo_str x = (if x = PyInt 0 then ''0'' else if x = PyInt 1 then ''1'' else ''?'')"

definition demo_hit :: "point \<Rightarrow> scored_point" where
  "demo_hit p = \<lparr>sp_id = point_id p, sp_score = PyFloat 7 (- 3), sp_payload = Some (payload p)\<rparr>"

definition demo_env :: "point list env" where
  "demo_env =
     \<lparr>shell = (\<lambda>cmd w. w),
      download = (\<lambda>url w. (Inr ''vector_database_wikipedia_articles_embedded.zip'', w)),
      extractall = (\<lambda>zip dir w. (Inr (), w)),
      read_csv = (\<lambda>path w. (Inr demo_csv, w)),
      literal_eval = demo_literal_eval,
      py_str = demo_str,
      qdrant_client = (\<lambda>host port w. (Inr (), w)),
      get_collections = (\<lambda>w. (Inr [''Articles''], w)),
      validate_params = (\<lambda>p. if vp_size p \<le> 0 then Some (Exn ''ValidationError'') else None),
      recreate_collection = (\<lambda>c cfg w. (Inr True, [])),
      validate_point = (\<lambda>p. if point_id p < 0 then Some (Exn ''ValidationError'') else None),
      upsert = (\<lambda>c ps w. (Inr (), w @ ps)),
      count_points = (\<lambda>c w. (Inr (int (length w)), w)),
      embeddings_create = (\<lambda>q m w. (Inr [PyList [PyFloat 1 (- 1), PyFloat 1 (- 2)]], w)),
      search = (\<lambda>c qv k f w.
                  if k \<le> 0 then (Inl (Exn ''UnexpectedResponse''), w)
                  else (Inr (take (nat k) (map demo_hit w)), w))\<rparr>"

definition demo_points :: "point list" where
  "demo_points =
     [\<lparr>point_id = 0,
       vector = [(''title'', PyList [PyFloat 1 (- 1), PyFloat 1 (- 2)]),
                 (''content'', PyList [PyFloat 1 (- 2), PyFloat 1 (- 1)])],
       payload = [(''id'', PyInt 1), (''title'', PyStr ''April''), (''url'', PyStr ''wiki/April'')]\<rparr>,
      \<lparr>point_id = 1,
       vector = [(''title'', PyList [PyFloat 1 (- 2), PyFloat 1 (- 1)]),
                 (''content'', PyList [PyFloat 1 (- 1), PyFloat 1 (- 2)])],
       payload = [(''id'', PyInt 2), (''title'', PyStr ''August''), (''url'', PyStr ''wiki/August'')]\<rparr>]"

text \<open>The frame of the small world with title vectors of length 3.\<close>

definition long_titles_df :: dataframe where
  "long_titles_df =
     set_column demo_df ''title_vector''
       [PyList [PyFloat 1 0, PyFloat 1 0, PyFloat 1 0], PyList [PyFloat 1 0, PyFloat 1 0, PyFloat 1 0]]"

text \<open>
  The frame of the small world with \<^verbatim>\<open>url\<close> missing in its second row, and with the
  column \<^verbatim>\<open>url\<close> missing altogether.
\<close>

definition half_df :: dataframe where
  "half_df =
     \<lparr>columns = article_columns,
      rows = [rows demo_df ! 0, AList.delete ''url'' (rows demo_df ! 1)]\<rparr>"

definition no_url_df :: dataframe where
  "no_url_df =
     \<lparr>columns = filter (\<lambda>c. c \<noteq> ''url'') article_columns,
      rows = map (AList.delete ''url'') (rows demo_df)\<rparr>"

text \<open>A variant of the small world in which the upsert is interrupted from the keyboard.\<close>

definition interrupted_env :: "point list env" where
  "interrupted_env = demo_env\<lparr>upsert := (\<lambda>c ps w. (Inl (BaseExn ''KeyboardInterrupt''), w))\<rparr>"

text \<open>
  Frames of one row that make the parsing cell and the creation of the collection fail
  at each of their steps, two search results that cannot be printed, and a variant of
  the small world in which every service call fails: the upsert with an
  \<^verbatim>\<open>Exception\<close> for the point 0 and with an interrupt for any other.
\<close>

definition one_row :: "row \<Rightarrow> dataframe" where
  "one_row v = \<lparr>columns = map fst v, rows = [v]\<rparr>"

definition frame_no_title :: dataframe where
  "frame_no_title = one_row [(''content_vector'', PyStr ''[0.25, 0.5]''), (''vector_id'', PyInt 0)]"

definition frame_bad_title :: dataframe where
  "frame_bad_title =
     one_row [(''title_vector'', PyStr ''foo''), (''content_vector'', PyStr ''[0.25, 0.5]''),
              (''vector_id'', PyInt 0)]"

definition frame_no_content :: dataframe where
  "frame_no_content = one_row [(''title_vector'', PyStr ''[0.5, 0.25]''), (''vector_id'', PyInt 0)]"

definition frame_bad_content :: dataframe where
  "frame_bad_content =
     one_row [(''title_vector'', PyStr ''[0.5, 0.25]''), (''content_vector'', PyStr ''foo''),
              (''vector_id'', PyInt 0)]"

definition frame_no_vector_id :: dataframe where
  "frame_no_vector_id =
     one_row [(''title_vector'', PyStr ''[0.5, 0.25]''), (''content_vector'', PyStr ''[0.25, 0.5]'')]"

definition frame_no_rows :: dataframe where
  "frame_no_rows = \<lparr>columns = article_columns, rows = []\<rparr>"

definition frame_empty_vector :: dataframe where
  "frame_empty_vector = one_row [(''content_vector'', PyList [])]"

definition hit_no_payload :: scored_point where
  "hit_no_payload = \<lparr>sp_id = 0, sp_score = PyFloat 7 (- 3), sp_payload = None\<rparr>"

definition hit_no_url :: scored_point where
  "hit_no_url =
     \<lparr>sp_id = 0, sp_score = PyFloat 7 (- 3), sp_payload = Some [(''title'', PyStr ''April'')]\<rparr>"

definition faulty_env :: "point list env" where
  "faulty_env =
     demo_env
       \<lparr>download := (\<lambda>url w. (Inl (Exn ''HTTPError''), w)),
        extractall := (\<lambda>archive dir w. (Inl (Exn ''FileNotFoundError''), w)),
        read_csv := (\<lambda>path w. (Inl (Exn ''FileNotFoundError''), w)),
        qdrant_client := (\<lambda>host port w. (Inl (Exn ''ValueError''), w)),
        get_collections := (\<lambda>w. (Inl (Exn ''ResponseHandlingException''), w)),
        recreate_collection := (\<lambda>c cfg w. (Inl (Exn ''ResponseHandlingException''), w)),
        upsert := (\<lambda>c ps w.
                     if map point_id ps = [0] then (Inl (Exn ''UnexpectedResponse''), w)
                     else (Inl (BaseExn ''KeyboardInterrupt''), w)),
        count_points := (\<lambda>c w. (Inl (Exn ''ResponseHandlingException''), w)),
        embeddings_create := (\<lambda>q m w.
                     if q = PyStr ''boom'' then (Inl (Exn ''APIConnectionError''), w)
                     else if q = PyStr [] then (Inr [], w)
                     else (Inr [PyList [PyFloat 1 (- 1), PyFloat 1 (- 2)]], w)),
        search := (\<lambda>c qv k f w.
                     if fst qv = ''content'' then (Inr [hit_no_payload], w)
                     else (Inl (Exn ''UnexpectedResponse''), w))\<rparr>"

text \<open>A variant of the small world in which the service refuses every upsert.\<close>

definition refusing_env :: "point list env" where
  "refusing_env = demo_env\<lparr>upsert := (\<lambda>c ps w. (Inl (Exn ''UnexpectedResponse''), w))\<rparr>"

section \<open>Basic facts about programs\<close>

lemma bind_ret [simp]: "bind (ret x) f = f x"
  by (rule ext) (simp add: bind_def ret_def)

lemma bind_lift_Inr [simp]: "bind (lift (Inr x)) f = f x"
  by (rule ext) (simp add: bind_def lift_def)

lemma bind_lift_Inl [simp]: "bind (lift (Inl e)) f s = (Inl e, s)"
  by (simp add: bind_def lift_def)

lemma bind_emit [simp]: "bind (emit ev) f s = f () (s\<lparr>trace := trace s @ [ev]\<rparr>)"
  by (simp add: bind_def emit_def)

lemma bind_raises: "fst (m s) = Inl e \<Longrightarrow> bind m f s = (Inl e, snd (m s))"
  by (cases "m s") (simp add: bind_def)

lemma bind_returns: "fst (m s) = Inr x \<Longrightarrow> bind m f s = f x (snd (m s))"
  by (cases "m s") (simp add: bind_def)

lemma hoare_ret: "(\<And>t. I t \<Longrightarrow> J t) \<Longrightarrow> hoare I (ret x) J"
  by (simp add: hoare_def ret_def)

lemma hoare_lift: "(\<And>t. I t \<Longrightarrow> J t) \<Longrightarrow> hoare I (lift r) J"
  by (simp add: hoare_def lift_def)

lemma hoare_emit: "(\<And>t. I t \<Longrightarrow> J (t @ [ev])) \<Longrightarrow> hoare I (emit ev) J"
  by (simp add: hoare_def emit_def)

lemma hoare_call: "(\<And>t. I t \<Longrightarrow> J (t @ [ev])) \<Longrightarrow> hoare I (call ev f) J"
  by (simp add: hoare_def call_def split: prod.splits)

lemma hoare_bind:
  assumes "hoare I m K" and "\<And>x. hoare K (f x) J" and "\<And>t. K t \<Longrightarrow> J t"
  shows "hoare I (bind m f) J"
  using assms unfolding hoare_def bind_def
  by (auto split: prod.splits sum.splits)

lemma hoare_try:
  assumes "hoare I m K" and "\<And>e. hoare K (h e) J" and "\<And>t. K t \<Longrightarrow> J t"
  shows "hoare I (try_except m h) J"
  using assms unfolding hoare_def try_except_def
  by (auto split: prod.splits sum.splits)

lemma hoare_weaken:
  "hoare I p J \<Longrightarrow> (\<And>t. I' t \<Longrightarrow> I t) \<Longrightarrow> (\<And>t. J t \<Longrightarrow> J' t) \<Longrightarrow> hoare I' p J'"
  by (simp add: hoare_def)

lemma hoareD: "hoare I p J \<Longrightarrow> I (trace s) \<Longrightarrow> J (trace (snd (p s)))"
  by (simp add: hoare_def)

lemma every_Nil [simp]: "every Q []"
  by (simp add: every_def)

lemma every_snoc [simp]: "every Q (t @ [ev]) = (every Q t \<and> Q ev)"
  by (auto simp: every_def)

lemma every_ret: "hoare (every Q) (ret x) (every Q)"
  by (rule hoare_ret)

lemma every_lift: "hoare (every Q) (lift r) (every Q)"
  by (rule hoare_lift)

lemma every_emit: "Q ev \<Longrightarrow> hoare (every Q) (emit ev) (every Q)"
  by (rule hoare_emit) simp

lemma every_call: "Q ev \<Longrightarrow> hoare (every Q) (call ev f) (every Q)"
  by (rule hoare_call) simp

lemma every_bind:
  "hoare (every Q) m (every Q) \<Longrightarrow> (\<And>x. hoare (every Q) (f x) (every Q)) \<Longrightarrow>
   hoare (every Q) (bind m f) (every Q)"
  by (rule hoare_bind)

lemma every_try:
  "hoare (every Q) m (every Q) \<Longrightarrow> (\<And>e. hoare (every Q) (h e) (every Q)) \<Longrightarrow>
   hoare (every Q) (try_except m h) (every Q)"
  by (rule hoare_try)

lemmas prog_defs = bind_def lift_def ret_def emit_def call_def try_except_def init_def bindE_def

lemmas frame_defs = get_column_def set_column_def getitem_def iterrows_def head_def

lemmas demo_defs = demo_env_def demo_csv_def demo_df_def article_columns_def
  demo_literal_eval_def demo_str_def demo_hit_def demo_points_def

section \<open>Rows and columns\<close>

lemma getitem_update_other: "c \<noteq> c' \<Longrightarrow> getitem (AList.update c x v) c' = getitem v c'"
  by (simp add: getitem_def update_conv')

lemma getitem_update_same: "getitem (AList.update c x v) c = Inr x"
  by (simp add: getitem_def update_conv')

lemma mapM_map: "mapM f (map g xs) = mapM (\<lambda>x. f (g x)) xs"
  by (induction xs) (simp_all split: sum.splits)

lemma mapM_zip_fst:
  "length ys = length xs \<Longrightarrow> mapM (\<lambda>p. f (fst p)) (zip xs ys) = mapM f xs"
  by (induction xs ys rule: list_induct2') (simp_all split: sum.splits)

lemma get_column_set_column_other:
  assumes "c \<noteq> c'" and "length ys = length (rows df)"
  shows "get_column m (set_column df c ys) c' = get_column m df c'"
proof -
  have "mapM (\<lambda>v. getitem v c') (map (\<lambda>(v, x). AList.update c x v) (zip (rows df) ys))
        = mapM (\<lambda>p. getitem (fst p) c') (zip (rows df) ys)"
    using assms(1) by (simp add: mapM_map case_prod_unfold getitem_update_other)
  also have "\<dots> = mapM (\<lambda>v. getitem v c') (rows df)"
    using assms(2) by (rule mapM_zip_fst)
  finally show ?thesis
    using assms(1) by (auto simp: get_column_def set_column_def)
qed

section \<open>Creating the collection\<close>

lemma vector_size_ignores_title:
  "length ys = length (rows df) \<Longrightarrow>
   vector_size (set_column df ''title_vector'' ys) = vector_size df"
  by (simp add: vector_size_def get_column_set_column_other)

lemma VectorParams_Inr: "VectorParams env d n = Inr p \<Longrightarrow> p = \<lparr>vp_distance = d, vp_size = n\<rparr>"
  by (auto simp: VectorParams_def Let_def split: option.splits)

lemma recreate_every:
  "hoare (every (recreate_ok df)) (cell_recreate_collection env df) (every (recreate_ok df))"
proof (cases "vector_size df")
  case (Inl e)
  then show ?thesis
    by (simp add: cell_recreate_collection_def hoare_def)
next
  case n: (Inr n)
  show ?thesis
  proof (cases "VectorParams env COSINE n")
    case (Inl e)
    with n show ?thesis
      by (simp add: cell_recreate_collection_def hoare_def)
  next
    case (Inr p)
    then have p: "p = \<lparr>vp_distance = COSINE, vp_size = n\<rparr>"
      by (rule VectorParams_Inr)
    have "hoare (every (recreate_ok df))
            (bind (call (EvRecreate ''Articles'' [(''title'', p), (''content'', p)])
                     (recreate_collection env ''Articles'' [(''title'', p), (''content'', p)]))
               (\<lambda>ok. emit (EvDisplay (ShBool ok))))
            (every (recreate_ok df))"
      by (intro every_bind every_call every_emit) (simp_all add: recreate_ok_def n p)
    with n Inr show ?thesis
      by (simp add: cell_recreate_collection_def)
  qed
qed

lemma vector_size_first_row:
  "vector_size df = Inr n \<Longrightarrow>
   \<exists>v vs x. rows df = v # vs \<and> getitem v ''content_vector'' = Inr x \<and> py_len x = Inr n"
  by (cases "rows df")
     (auto simp: vector_size_def get_column_def split: if_splits sum.splits list.splits)

text \<open>
  C7. A request to create the collection is for \<^verbatim>\<open>'Articles'\<close> and configures
  \<^verbatim>\<open>'title'\<close> and \<^verbatim>\<open>'content'\<close> with the cosine distance and one and the same size,
  the length of the content vector of the first row. The title vectors play no part:
  the cell behaves the same whatever the column \<^verbatim>\<open>title_vector\<close> holds, so a title
  vector of another length than the first content vector does not have the size
  configured for \<^verbatim>\<open>'title'\<close>.
\<close>

theorem collection_size_from_first_content_vector:
  assumes "EvRecreate c cfg \<in> set (trace (snd (cell_recreate_collection env df (init w))))"
  shows "\<exists>v vs x n. rows df = v # vs \<and> getitem v ''content_vector'' = Inr x \<and> py_len x = Inr n \<and>
           c = ''Articles'' \<and>
           cfg = [(''title'', \<lparr>vp_distance = COSINE, vp_size = n\<rparr>),
                  (''content'', \<lparr>vp_distance = COSINE, vp_size = n\<rparr>)] \<and>
           (\<forall>ys. length ys = length (rows df) \<longrightarrow>
              cell_recreate_collection env (set_column df ''title_vector'' ys) =
              cell_recreate_collection env df) \<and>
           (\<forall>u\<in>set (rows df). \<forall>tv m.
              getitem u ''title_vector'' = Inr tv \<and> py_len tv = Inr m \<and> m \<noteq> n \<longrightarrow>
              (\<forall>p. map_of cfg ''title'' = Some p \<longrightarrow> vp_size p \<noteq> m))"
proof -
  have "every (recreate_ok df) (trace (snd (cell_recreate_collection env df (init w))))"
    by (rule hoareD [OF recreate_every]) (simp add: init_def)
  with assms have "recreate_ok df (EvRecreate c cfg)"
    by (simp add: every_def)
  then obtain n where n: "vector_size df = Inr n" "c = ''Articles''"
    "cfg = [(''title'', \<lparr>vp_distance = COSINE, vp_size = n\<rparr>),
            (''content'', \<lparr>vp_distance = COSINE, vp_size = n\<rparr>)]"
    by (auto simp: recreate_ok_def)
  from vector_size_first_row [OF n(1)] obtain v vs x where
    "rows df = v # vs" "getitem v ''content_vector'' = Inr x" "py_len x = Inr n"
    by blast
  moreover have "\<forall>ys. length ys = length (rows df) \<longrightarrow>
              cell_recreate_collection env (set_column df ''title_vector'' ys) =
              cell_recreate_collection env df"
    by (simp add: cell_recreate_collection_def vector_size_ignores_title)
  ultimately show ?thesis
    using n by auto
qed

section \<open>Searching\<close>

lemma query_qdrant_unfold:
  "query_qdrant env q cn vn_arg k_arg s =
     (case embeddings_create env q EMBEDDING_MODEL (world s) of
        (Inl e, w1) \<Rightarrow> (Inl e, \<lparr>world = w1, trace = trace s @ [EvEmbed q EMBEDDING_MODEL]\<rparr>)
      | (Inr [], w1) \<Rightarrow>
          (Inl (Exn ''IndexError''), \<lparr>world = w1, trace = trace s @ [EvEmbed q EMBEDDING_MODEL]\<rparr>)
      | (Inr (d # ds), w1) \<Rightarrow>
          (case search env cn (vector_name_of vn_arg, d) (top_k_of k_arg) None w1 of
             (r, w2) \<Rightarrow>
               (r, \<lparr>world = w2,
                    trace = trace s @ [EvEmbed q EMBEDDING_MODEL,
                      EvSearch cn (vector_name_of vn_arg, d) (top_k_of k_arg) None]\<rparr>)))"
  by (simp add: query_qdrant_def first_embedding_def
        bind_def call_def lift_def Let_def split: prod.splits sum.splits list.splits)

text \<open>
  C9. A search request sent by \<^verbatim>\<open>query_qdrant\<close> is for the collection given, has
  \<^verbatim>\<open>limit\<close> equal to \<^verbatim>\<open>top_k\<close> (20 when left out) and no filter, and its query vector is
  the first embedding of the embeddings response, named by \<^verbatim>\<open>vector_name\<close>
  (\<^verbatim>\<open>'title'\<close> when left out). What \<^verbatim>\<open>query_qdrant\<close> returns is the answer of that
  search, unchanged; when the service returns no more hits than the limit it is given,
  the result has at most \<^verbatim>\<open>top_k\<close> elements.
\<close>

theorem query_qdrant_search_request:
  shows "(EvSearch c qv lim flt \<in> set (trace (snd (query_qdrant env q cn vn_arg k_arg (init w)))) \<longrightarrow>
            (\<exists>d ds. fst (embeddings_create env q EMBEDDING_MODEL w) = Inr (d # ds) \<and>
               c = cn \<and> qv = (vector_name_of vn_arg, d) \<and> lim = top_k_of k_arg \<and> flt = None)) \<and>
         (fst (query_qdrant env q cn vn_arg k_arg (init w)) = Inr results \<longrightarrow>
            (\<exists>d ds w1. embeddings_create env q EMBEDDING_MODEL w = (Inr (d # ds), w1) \<and>
               fst (search env cn (vector_name_of vn_arg, d) (top_k_of k_arg) None w1) = Inr results) \<and>
            (honours_limit env \<longrightarrow> int (length results) \<le> top_k_of k_arg)) \<and>
         top_k_of None = 20 \<and> top_k_of (Some k) = k \<and>
         vector_name_of None = ''title'' \<and> vector_name_of (Some n) = n"
proof (intro conjI impI)
  assume "EvSearch c qv lim flt \<in> set (trace (snd (query_qdrant env q cn vn_arg k_arg (init w))))"
  then show "\<exists>d ds. fst (embeddings_create env q EMBEDDING_MODEL w) = Inr (d # ds) \<and>
               c = cn \<and> qv = (vector_name_of vn_arg, d) \<and> lim = top_k_of k_arg \<and> flt = None"
    by (auto simp: query_qdrant_unfold init_def split: prod.splits sum.splits list.splits)
next
  assume r: "fst (query_qdrant env q cn vn_arg k_arg (init w)) = Inr results"
  then show ex: "\<exists>d ds w1. embeddings_create env q EMBEDDING_MODEL w = (Inr (d # ds), w1) \<and>
               fst (search env cn (vector_name_of vn_arg, d) (top_k_of k_arg) None w1) = Inr results"
    by (auto simp: query_qdrant_unfold init_def split: prod.splits sum.splits list.splits)
  assume "honours_limit env"
  with ex show "int (length results) \<le> top_k_of k_arg"
    unfolding honours_limit_def by blast
qed (simp_all add: top_k_of_def vector_name_of_def)

text \<open>C9, at a concrete input. With two points stored, the default query returns both, fewer than 20.\<close>

theorem query_qdrant_search_request_witness:
  "EvSearch ''Articles'' (''title'', PyList [PyFloat 1 (- 1), PyFloat 1 (- 2)]) 20 None
     \<in> set (trace (snd (query_qdrant demo_env (PyStr ''modern art in Europe'') ''Articles'' None None
                            (init demo_points)))) \<and>
   fst (query_qdrant demo_env (PyStr ''modern art in Europe'') ''Articles'' None None (init demo_points))
     = Inr (map demo_hit demo_points) \<and>
   honours_limit demo_env \<and>
   int (length (map demo_hit demo_points)) \<le> top_k_of None"
proof -
  have a: "EvSearch ''Articles'' (''title'', PyList [PyFloat 1 (- 1), PyFloat 1 (- 2)]) 20 None
     \<in> set (trace (snd (query_qdrant demo_env (PyStr ''modern art in Europe'') ''Articles'' None None
                            (init demo_points))))"
    by (simp add: query_qdrant_unfold init_def demo_env_def vector_name_of_def top_k_of_def)
  have b: "fst (query_qdrant demo_env (PyStr ''modern art in Europe'') ''Articles'' None None
                 (init demo_points)) = Inr (map demo_hit demo_points)"
    by (simp add: query_qdrant_unfold init_def demo_env_def vector_name_of_def top_k_of_def
          demo_points_def)
  have c: "honours_limit demo_env"
    by (auto simp: honours_limit_def demo_env_def split: if_splits)
  from query_qdrant_search_request
         [of "''Articles''" "(''title'', PyList [PyFloat 1 (- 1), PyFloat 1 (- 2)])" 20 None
             demo_env "PyStr ''modern art in Europe''" "''Articles''" None None demo_points
             "map demo_hit demo_points"]
       a b c
  show ?thesis by blast
qed

section \<open>The upsert loop\<close>

lemma report_failure_eq:
  "report_failure k v e s = (Inr (), s\<lparr>trace := trace s @ failure_lines k v e\<rparr>)"
  by (simp add: report_failure_def failure_lines_def emit_def)

lemma try_row:
  "try_except (upsert_row env k v) (report_failure k v) s =
     ((case row_escapes env k v (world s) of None \<Rightarrow> Inr () | Some e \<Rightarrow> Inl e),
      \<lparr>world = row_world env k v (world s), trace = trace s @ row_events env k v (world s)\<rparr>)"
  by (cases "build_point env k v"; cases "upsert env ''Articles'' [projr (build_point env k v)] (world s)")
     (auto simp: try_except_def upsert_row_def bind_def lift_def call_def report_failure_eq
        row_escapes_def row_world_def row_events_def split: sum.splits)

lemma upsert_loop_Cons:
  "upsert_loop env ((k, v) # kvs) s =
     (case row_escapes env k v (world s) of
        None \<Rightarrow> upsert_loop env kvs
                  \<lparr>world = row_world env k v (world s), trace = trace s @ row_events env k v (world s)\<rparr>
      | Some e \<Rightarrow> (Inl e, \<lparr>world = row_world env k v (world s),
                            trace = trace s @ row_events env k v (world s)\<rparr>))"
  by (simp add: bind_def try_row split: option.splits)

lemma upsert_requests_append [simp]:
  "upsert_requests (xs @ ys) = upsert_requests xs @ upsert_requests ys"
  by (simp add: upsert_requests_def)

lemma upsert_requests_Nil [simp]: "upsert_requests [] = []"
  by (simp add: upsert_requests_def)

lemma upsert_requests_failure_lines [simp]: "upsert_requests (failure_lines k v e) = []"
  by (simp add: upsert_requests_def failure_lines_def)

lemma upsert_requests_Cons [simp]:
  "upsert_requests (ev # t) = upsert_request ev @ upsert_requests t"
  by (simp add: upsert_requests_def)

lemma mem_upsert_requests: "(c, ps) \<in> set (upsert_requests t) \<longleftrightarrow> EvUpsert c ps \<in> set t"
proof (induction t)
  case Nil
  show ?case by simp
next
  case (Cons ev t)
  then show ?case by (cases ev) auto
qed

lemma upsert_requests_row_events:
  "upsert_requests (row_events env k v w) = (if builds env (k, v) then [row_request env (k, v)] else [])"
  by (auto simp: row_events_def builds_def row_request_def split: sum.splits)

lemma upsert_loop_requests:
  "\<exists>new. trace (snd (upsert_loop env kvs s)) = trace s @ new \<and>
         subseq (upsert_requests new) (map (row_request env) (filter (builds env) kvs)) \<and>
         (fst (upsert_loop env kvs s) = Inr () \<longrightarrow>
            upsert_requests new = map (row_request env) (filter (builds env) kvs))"
proof (induction kvs arbitrary: s)
  case Nil
  show ?case by (simp add: ret_def)
next
  case (Cons kv kvs)
  obtain k v where kv: "kv = (k, v)" by (cases kv)
  let ?s' = "\<lparr>world = row_world env k v (world s), trace = trace s @ row_events env k v (world s)\<rparr>"
  show ?case
  proof (cases "row_escapes env k v (world s)")
    case None
    from Cons.IH [of ?s'] obtain new where new:
      "trace (snd (upsert_loop env kvs ?s')) = trace ?s' @ new"
      "subseq (upsert_requests new) (map (row_request env) (filter (builds env) kvs))"
      "fst (upsert_loop env kvs ?s') = Inr () \<longrightarrow>
         upsert_requests new = map (row_request env) (filter (builds env) kvs)"
      by blast
    have "trace (snd (upsert_loop env (kv # kvs) s)) = trace s @ (row_events env k v (world s) @ new)"
      using None new(1) by (simp add: kv upsert_loop_Cons del: upsert_loop.simps)
    moreover have "subseq (upsert_requests (row_events env k v (world s) @ new))
                     (map (row_request env) (filter (builds env) (kv # kvs)))"
      using new(2) by (simp add: kv upsert_requests_row_events)
    moreover have "fst (upsert_loop env (kv # kvs) s) = Inr () \<longrightarrow>
         upsert_requests (row_events env k v (world s) @ new) =
         map (row_request env) (filter (builds env) (kv # kvs))"
      using None new(3) by (simp add: kv upsert_loop_Cons upsert_requests_row_events del: upsert_loop.simps)
    ultimately show ?thesis by blast
  next
    case (Some e)
    have "trace (snd (upsert_loop env (kv # kvs) s)) = trace s @ row_events env k v (world s)"
      using Some by (simp add: kv upsert_loop_Cons del: upsert_loop.simps)
    moreover have "subseq (upsert_requests (row_events env k v (world s)))
                     (map (row_request env) (filter (builds env) (kv # kvs)))"
      by (simp add: kv upsert_requests_row_events)
    moreover have "fst (upsert_loop env (kv # kvs) s) \<noteq> Inr ()"
      using Some by (simp add: kv upsert_loop_Cons del: upsert_loop.simps)
    ultimately show ?thesis by blast
  qed
qed

lemma PointStruct_Inr:
  "PointStruct env k vec pl = Inr p \<Longrightarrow> p = \<lparr>point_id = k, vector = vec, payload = pl\<rparr>"
  by (auto simp: PointStruct_def Let_def split: option.splits)

lemma build_point_Inr:
  assumes "build_point env k v = Inr p"
  shows "\<exists>tv cv i t u.
           getitem v ''title_vector'' = Inr tv \<and> getitem v ''content_vector'' = Inr cv \<and>
           getitem v ''id'' = Inr i \<and> getitem v ''title'' = Inr t \<and> getitem v ''url'' = Inr u \<and>
           p = \<lparr>point_id = k, vector = [(''title'', tv), (''content'', cv)],
                payload = [(''id'', i), (''title'', t), (''url'', u)]\<rparr>"
  using assms
  by (auto simp: build_point_def bindE_def split: sum.splits dest: PointStruct_Inr)

lemma iterrows_eq: "iterrows df = map (\<lambda>k. (int k, rows df ! k)) [0..<length (rows df)]"
  by (auto simp: iterrows_def enumerate_eq_zip intro!: nth_equalityI)

lemma iterrows_mem:
  "kv \<in> set (iterrows df) \<longleftrightarrow> (\<exists>k < length (rows df). kv = (int k, rows df ! k))"
  by (auto simp: iterrows_eq)

lemma cell_upsert_requests:
  "subseq (upsert_requests (trace (snd (cell_upsert env df (init w)))))
     (map (row_request env) (filter (builds env) (iterrows df)))"
  "fst (cell_upsert env df (init w)) = Inr () \<Longrightarrow>
     upsert_requests (trace (snd (cell_upsert env df (init w)))) =
     map (row_request env) (filter (builds env) (iterrows df))"
  using upsert_loop_requests [of env "iterrows df" "init w"]
  by (auto simp: cell_upsert_def init_def)

lemma cell_upsert_event:
  assumes "EvUpsert c ps \<in> set (trace (snd (cell_upsert env df (init w))))"
  shows "\<exists>k p. k < length (rows df) \<and> build_point env (int k) (rows df ! k) = Inr p \<and>
           c = ''Articles'' \<and> ps = [p]"
proof -
  from assms have "(c, ps) \<in> set (upsert_requests (trace (snd (cell_upsert env df (init w)))))"
    by (simp add: mem_upsert_requests)
  with cell_upsert_requests(1) [of env df w]
  obtain y where y: "y \<in> set (map (row_request env) (filter (builds env) (iterrows df)))"
      "(c, ps) = y"
    by (rule list_emb_set)
  then obtain kv where kv: "kv \<in> set (iterrows df)" "builds env kv" "(c, ps) = row_request env kv"
    by auto
  from kv(1) obtain k where k: "k < length (rows df)" "kv = (int k, rows df ! k)"
    by (auto simp: iterrows_mem)
  from kv(2) obtain p where "build_point env (int k) (rows df ! k) = Inr p"
    by (cases "build_point env (int k) (rows df ! k)") (auto simp: builds_def k(2))
  with kv(3) k show ?thesis
    by (auto simp: row_request_def)
qed

text \<open>
  C4. A point sent to the collection comes from one row of the frame. Its vectors are
  exactly \<^verbatim>\<open>'title'\<close> and \<^verbatim>\<open>'content'\<close>, the row's \<^verbatim>\<open>title_vector\<close> and
  \<^verbatim>\<open>content_vector\<close>, and these are the names configured when the collection is created.
  Its payload has exactly the keys \<^verbatim>\<open>'id'\<close>, \<^verbatim>\<open>'title'\<close> and \<^verbatim>\<open>'url'\<close>, with the
  row's values.
\<close>

theorem upserted_record_fields:
  assumes "EvUpsert c ps \<in> set (trace (snd (cell_upsert env df (init w))))"
  shows "\<exists>k p tv cv i t u.
           k < length (rows df) \<and> c = ''Articles'' \<and> ps = [p] \<and>
           getitem (rows df ! k) ''title_vector'' = Inr tv \<and>
           getitem (rows df ! k) ''content_vector'' = Inr cv \<and>
           getitem (rows df ! k) ''id'' = Inr i \<and>
           getitem (rows df ! k) ''title'' = Inr t \<and>
           getitem (rows df ! k) ''url'' = Inr u \<and>
           vector p = [(''title'', tv), (''content'', cv)] \<and>
           payload p = [(''id'', i), (''title'', t), (''url'', u)] \<and>
           (\<forall>c' cfg w'.
              EvRecreate c' cfg \<in> set (trace (snd (cell_recreate_collection env df (init w')))) \<longrightarrow>
              map fst cfg = map fst (vector p))"
proof -
  from cell_upsert_event [OF assms] obtain k p where
    k: "k < length (rows df)" "build_point env (int k) (rows df ! k) = Inr p"
       "c = ''Articles''" "ps = [p]"
    by blast
  from build_point_Inr [OF k(2)] obtain tv cv i t u where
    f: "getitem (rows df ! k) ''title_vector'' = Inr tv"
       "getitem (rows df ! k) ''content_vector'' = Inr cv"
       "getitem (rows df ! k) ''id'' = Inr i"
       "getitem (rows df ! k) ''title'' = Inr t"
       "getitem (rows df ! k) ''url'' = Inr u"
       "p = \<lparr>point_id = int k, vector = [(''title'', tv), (''content'', cv)],
             payload = [(''id'', i), (''title'', t), (''url'', u)]\<rparr>"
    by blast
  have "\<forall>c' cfg w'.
          EvRecreate c' cfg \<in> set (trace (snd (cell_recreate_collection env df (init w')))) \<longrightarrow>
          map fst cfg = map fst (vector p)"
  proof (intro allI impI)
    fix c' cfg w'
    assume ev: "EvRecreate c' cfg \<in> set (trace (snd (cell_recreate_collection env df (init w'))))"
    have "every (recreate_ok df) (trace (snd (cell_recreate_collection env df (init w'))))"
      by (rule hoareD [OF recreate_every]) (simp add: init_def)
    with ev have "recreate_ok df (EvRecreate c' cfg)"
      by (simp add: every_def)
    then show "map fst cfg = map fst (vector p)"
      by (auto simp: recreate_ok_def f(6))
  qed
  with k f show ?thesis
    by (intro exI [of _ k] exI [of _ p] exI [of _ tv] exI [of _ cv] exI [of _ i] exI [of _ t]
          exI [of _ u]) simp
qed

lemma bind_assoc: "bind (bind m f) g = bind m (\<lambda>x. bind (f x) g)"
  by (rule ext) (simp add: bind_def split: prod.splits sum.splits)

lemma upsert_loop_append:
  "upsert_loop env (xs @ ys) = bind (upsert_loop env xs) (\<lambda>_. upsert_loop env ys)"
proof (induction xs)
  case Nil
  show ?case by simp
next
  case (Cons kv xs)
  obtain k v where "kv = (k, v)" by (cases kv)
  with Cons show ?case by (simp add: bind_assoc)
qed

lemma point_id_row_request: "builds env kv \<Longrightarrow> map point_id (snd (row_request env kv)) = [fst kv]"
  by (cases "build_point env (fst kv) (snd kv)")
     (auto simp: builds_def row_request_def dest: build_point_Inr)

lemma request_ids_subseq:
  "subseq (map (\<lambda>r. map point_id (snd r)) (upsert_requests (trace (snd (cell_upsert env df (init w))))))
     (map (\<lambda>k. [int k]) [0..<length (rows df)])"
proof -
  let ?f = "\<lambda>r. map point_id (snd r)"
  have "subseq (map ?f (upsert_requests (trace (snd (cell_upsert env df (init w))))))
          (map ?f (map (row_request env) (filter (builds env) (iterrows df))))"
    by (rule subseq_map) (rule cell_upsert_requests(1))
  also have "map ?f (map (row_request env) (filter (builds env) (iterrows df)))
             = map (\<lambda>kv. [fst kv]) (filter (builds env) (iterrows df))"
    by (simp add: point_id_row_request)
  also have "subseq \<dots> (map (\<lambda>kv. [fst kv]) (iterrows df))"
    by (rule subseq_map) simp
  also have "map (\<lambda>kv. [fst kv]) (iterrows df) = map (\<lambda>k. [int k]) [0..<length (rows df)]"
    by (simp add: iterrows_eq comp_def)
  finally show ?thesis .
qed

text \<open>
  C5. The upsert requests of the loop, read as lists of point ids, are singletons
  \<open>[k]\<close> that follow the order of the rows, no row twice: one point per request, no
  batching. The loop over rows \<open>xs @ ys\<close> is the loop over \<open>xs\<close> run to its end, then the
  loop over \<open>ys\<close> from the state that left: a request is sent when the calls for the
  rows before it have returned.
\<close>

theorem upserts_one_point_each_in_row_order:
  shows "subseq (map (\<lambda>r. map point_id (snd r))
                   (upsert_requests (trace (snd (cell_upsert env df (init w))))))
           (map (\<lambda>k. [int k]) [0..<length (rows df)]) \<and>
         (\<forall>r\<in>set (upsert_requests (trace (snd (cell_upsert env df (init w))))). length (snd r) = 1) \<and>
         upsert_loop env (xs @ ys) = bind (upsert_loop env xs) (\<lambda>_. upsert_loop env ys)"
proof (intro conjI ballI)
  show "subseq (map (\<lambda>r. map point_id (snd r))
                   (upsert_requests (trace (snd (cell_upsert env df (init w))))))
           (map (\<lambda>k. [int k]) [0..<length (rows df)])"
    by (rule request_ids_subseq)
next
  fix r
  assume "r \<in> set (upsert_requests (trace (snd (cell_upsert env df (init w)))))"
  then have "(fst r, snd r) \<in> set (upsert_requests (trace (snd (cell_upsert env df (init w)))))"
    by simp
  then have "EvUpsert (fst r) (snd r) \<in> set (trace (snd (cell_upsert env df (init w))))"
    by (simp only: mem_upsert_requests)
  from cell_upsert_event [OF this] show "length (snd r) = 1"
    by auto
next
  show "upsert_loop env (xs @ ys) = bind (upsert_loop env xs) (\<lambda>_. upsert_loop env ys)"
    by (rule upsert_loop_append)
qed

section \<open>The small world, run\<close>

lemma demo_upsert:
  "cell_upsert demo_env demo_df (init []) =
     (Inr (), \<lparr>world = demo_points,
               trace = [EvUpsert ''Articles'' [demo_points ! 0], EvUpsert ''Articles'' [demo_points ! 1]]\<rparr>)"
  by (simp add: cell_upsert_def upsert_row_def build_point_def PointStruct_def
        prog_defs frame_defs demo_defs)

lemma demo_recreate:
  "cell_recreate_collection demo_env demo_df (init w) =
     (Inr (), \<lparr>world = [],
               trace = [EvRecreate ''Articles''
                          [(''title'', \<lparr>vp_distance = COSINE, vp_size = 2\<rparr>),
                           (''content'', \<lparr>vp_distance = COSINE, vp_size = 2\<rparr>)],
                        EvDisplay (ShBool True)]\<rparr>)"
  by (simp add: cell_recreate_collection_def vector_size_def VectorParams_def
        prog_defs frame_defs demo_defs)

lemma demo_builds:
  "build_point demo_env 0 (rows demo_df ! 0) = Inr (demo_points ! 0)"
  "build_point demo_env 1 (rows demo_df ! 1) = Inr (demo_points ! 1)"
  by (simp_all add: build_point_def PointStruct_def prog_defs frame_defs demo_defs)

text \<open>
  C7, at a concrete input. With title vectors of length 3 and content vectors of length 2, both fields are created
  with size 2, which is not the length of a title vector; putting anything else in
  \<^verbatim>\<open>title_vector\<close> leaves the cell as it is.
\<close>

theorem collection_size_from_first_content_vector_witness:
  "EvRecreate ''Articles''
     [(''title'', \<lparr>vp_distance = COSINE, vp_size = 2\<rparr>),
      (''content'', \<lparr>vp_distance = COSINE, vp_size = 2\<rparr>)]
     \<in> set (trace (snd (cell_recreate_collection demo_env long_titles_df (init [])))) \<and>
   getitem (hd (rows long_titles_df)) ''content_vector'' = Inr (PyList [PyFloat 1 (- 2), PyFloat 1 (- 1)]) \<and>
   py_len (PyList [PyFloat 1 (- 2), PyFloat 1 (- 1)]) = Inr 2 \<and>
   rows long_titles_df ! 1 \<in> set (rows long_titles_df) \<and>
   getitem (rows long_titles_df ! 1) ''title_vector''
     = Inr (PyList [PyFloat 1 0, PyFloat 1 0, PyFloat 1 0]) \<and>
   py_len (PyList [PyFloat 1 0, PyFloat 1 0, PyFloat 1 0]) = Inr 3 \<and>
   map_of [(''title'', \<lparr>vp_distance = COSINE, vp_size = 2\<rparr>),
           (''content'', \<lparr>vp_distance = COSINE, vp_size = 2\<rparr>)] ''title''
     = Some \<lparr>vp_distance = COSINE, vp_size = 2\<rparr> \<and>
   vp_size \<lparr>vp_distance = COSINE, vp_size = 2\<rparr> \<noteq> 3 \<and>
   length (rows demo_df) = length (rows long_titles_df) \<and>
   cell_recreate_collection demo_env
     (set_column long_titles_df ''title_vector'' (map (\<lambda>v. PyNone) (rows demo_df))) =
   cell_recreate_collection demo_env long_titles_df"
proof -
  let ?cfg = "[(''title'', \<lparr>vp_distance = COSINE, vp_size = 2\<rparr>),
               (''content'', \<lparr>vp_distance = COSINE, vp_size = 2\<rparr>)]"
  have h: "EvRecreate ''Articles'' ?cfg
     \<in> set (trace (snd (cell_recreate_collection demo_env long_titles_df (init []))))"
    by (simp add: cell_recreate_collection_def vector_size_def VectorParams_def long_titles_df_def
          prog_defs frame_defs demo_defs)
  have r: "rows long_titles_df ! 1 \<in> set (rows long_titles_df)"
    "getitem (rows long_titles_df ! 1) ''title_vector''
       = Inr (PyList [PyFloat 1 0, PyFloat 1 0, PyFloat 1 0])"
    "py_len (PyList [PyFloat 1 0, PyFloat 1 0, PyFloat 1 0]) = Inr 3"
    "getitem (hd (rows long_titles_df)) ''content_vector'' = Inr (PyList [PyFloat 1 (- 2), PyFloat 1 (- 1)])"
    "py_len (PyList [PyFloat 1 (- 2), PyFloat 1 (- 1)]) = Inr 2"
    "length (rows demo_df) = length (rows long_titles_df)"
    by (simp_all add: long_titles_df_def frame_defs demo_defs)
  from collection_size_from_first_content_vector [OF h] obtain n where
    n: "?cfg = [(''title'', \<lparr>vp_distance = COSINE, vp_size = n\<rparr>),
                (''content'', \<lparr>vp_distance = COSINE, vp_size = n\<rparr>)]"
    and same: "\<forall>ys. length ys = length (rows long_titles_df) \<longrightarrow>
              cell_recreate_collection demo_env (set_column long_titles_df ''title_vector'' ys) =
              cell_recreate_collection demo_env long_titles_df"
    and differ: "\<forall>u\<in>set (rows long_titles_df). \<forall>tv m.
              getitem u ''title_vector'' = Inr tv \<and> py_len tv = Inr m \<and> m \<noteq> n \<longrightarrow>
              (\<forall>p. map_of ?cfg ''title'' = Some p \<longrightarrow> vp_size p \<noteq> m)"
    by blast
  from n have "n = 2" by simp
  with differ r(1-3) have "vp_size \<lparr>vp_distance = COSINE, vp_size = 2\<rparr> \<noteq> 3"
    by fastforce
  moreover from same r(6) have "cell_recreate_collection demo_env
     (set_column long_titles_df ''title_vector'' (map (\<lambda>v. PyNone) (rows demo_df))) =
     cell_recreate_collection demo_env long_titles_df"
    by simp
  ultimately show ?thesis
    using h r by simp
qed

text \<open>C4, at a concrete input. The point sent for the second article of the small frame.\<close>

theorem upserted_record_fields_witness:
  "EvUpsert ''Articles'' [demo_points ! 1]
     \<in> set (trace (snd (cell_upsert demo_env demo_df (init [])))) \<and>
   EvRecreate ''Articles''
     [(''title'', \<lparr>vp_distance = COSINE, vp_size = 2\<rparr>),
      (''content'', \<lparr>vp_distance = COSINE, vp_size = 2\<rparr>)]
     \<in> set (trace (snd (cell_recreate_collection demo_env demo_df (init [])))) \<and>
   map fst [(''title'', \<lparr>vp_distance = COSINE, vp_size = 2\<rparr>),
            (''content'', \<lparr>vp_distance = COSINE, vp_size = 2\<rparr>)]
     = map fst (vector (demo_points ! 1)) \<and>
   (\<exists>k tv cv i t u.
      k < length (rows demo_df) \<and>
      getitem (rows demo_df ! k) ''title_vector'' = Inr tv \<and>
      getitem (rows demo_df ! k) ''content_vector'' = Inr cv \<and>
      getitem (rows demo_df ! k) ''id'' = Inr i \<and>
      getitem (rows demo_df ! k) ''title'' = Inr t \<and>
      getitem (rows demo_df ! k) ''url'' = Inr u \<and>
      vector (demo_points ! 1) = [(''title'', tv), (''content'', cv)] \<and>
      payload (demo_points ! 1) = [(''id'', i), (''title'', t), (''url'', u)])"
proof -
  let ?cfg = "[(''title'', \<lparr>vp_distance = COSINE, vp_size = 2\<rparr>),
               (''content'', \<lparr>vp_distance = COSINE, vp_size = 2\<rparr>)]"
  have h: "EvUpsert ''Articles'' [demo_points ! 1]
     \<in> set (trace (snd (cell_upsert demo_env demo_df (init []))))"
    by (simp add: demo_upsert)
  have g: "EvRecreate ''Articles'' ?cfg
     \<in> set (trace (snd (cell_recreate_collection demo_env demo_df (init []))))"
    by (simp add: demo_recreate)
  from upserted_record_fields [OF h] obtain k p tv cv i t u where
    k: "k < length (rows demo_df)" "[demo_points ! 1] = [p]"
       "getitem (rows demo_df ! k) ''title_vector'' = Inr tv"
       "getitem (rows demo_df ! k) ''content_vector'' = Inr cv"
       "getitem (rows demo_df ! k) ''id'' = Inr i"
       "getitem (rows demo_df ! k) ''title'' = Inr t"
       "getitem (rows demo_df ! k) ''url'' = Inr u"
       "vector p = [(''title'', tv), (''content'', cv)]"
       "payload p = [(''id'', i), (''title'', t), (''url'', u)]"
    and names: "\<forall>c' cfg w'.
        EvRecreate c' cfg \<in> set (trace (snd (cell_recreate_collection demo_env demo_df (init w')))) \<longrightarrow>
        map fst cfg = map fst (vector p)"
    by blast
  from k(2) have p: "p = demo_points ! 1" by simp
  from names g have "map fst ?cfg = map fst (vector p)"
    by blast
  with h g k show ?thesis
    unfolding p by blast
qed

text \<open>C5, at a concrete input. The two requests of the small frame carry the ids 0 and 1, one each.\<close>

theorem upserts_one_point_each_in_row_order_witness:
  "(''Articles'', [demo_points ! 0])
     \<in> set (upsert_requests (trace (snd (cell_upsert demo_env demo_df (init []))))) \<and>
   length (snd (''Articles'', [demo_points ! 0])) = 1 \<and>
   subseq (map (\<lambda>r. map point_id (snd r))
             (upsert_requests (trace (snd (cell_upsert demo_env demo_df (init []))))))
     (map (\<lambda>k. [int k]) [0..<length (rows demo_df)]) \<and>
   map (\<lambda>r. map point_id (snd r))
     (upsert_requests (trace (snd (cell_upsert demo_env demo_df (init []))))) = [[0], [1]]"
proof -
  have h: "(''Articles'', [demo_points ! 0])
     \<in> set (upsert_requests (trace (snd (cell_upsert demo_env demo_df (init [])))))"
    by (simp add: demo_upsert)
  have e: "map (\<lambda>r. map point_id (snd r))
     (upsert_requests (trace (snd (cell_upsert demo_env demo_df (init []))))) = [[0], [1]]"
    by (simp add: demo_upsert demo_points_def)
  from upserts_one_point_each_in_row_order [of demo_env demo_df "[]" "[]" "[]"] h e
  show ?thesis
    by blast
qed

section \<open>Exceptions\<close>

lemma row_escapes_not_Exception: "row_escapes env k v w = Some e \<Longrightarrow> \<not> is_Exception e"
  by (auto simp: row_escapes_def split: sum.splits if_splits)

lemma upsert_loop_escape: "fst (upsert_loop env kvs s) = Inl e \<Longrightarrow> \<not> is_Exception e"
proof (induction kvs arbitrary: s)
  case Nil
  then show ?case by (simp add: ret_def)
next
  case (Cons kv kvs)
  obtain k v where kv: "kv = (k, v)" by (cases kv)
  show ?case
  proof (cases "row_escapes env k v (world s)")
    case None
    with Cons.prems have "fst (upsert_loop env kvs
        \<lparr>world = row_world env k v (world s), trace = trace s @ row_events env k v (world s)\<rparr>) = Inl e"
      by (simp add: kv upsert_loop_Cons del: upsert_loop.simps)
    then show ?thesis by (rule Cons.IH)
  next
    case (Some x)
    with Cons.prems have "x = e"
      by (simp add: kv upsert_loop_Cons del: upsert_loop.simps)
    with Some show ?thesis by (simp add: row_escapes_not_Exception)
  qed
qed

lemma upsert_loop_caught:
  assumes "fst (upsert_row env k v s) = Inl e" and "is_Exception e"
  shows "upsert_loop env ((k, v) # kvs) s =
           upsert_loop env kvs
             ((snd (upsert_row env k v s))
                \<lparr>trace := trace (snd (upsert_row env k v s)) @
                   [EvPrint [Lit ''Failed to upsert row '', ArgInt k, Lit '': '', ArgRow v],
                    EvPrint [Lit ''Exception: '', ArgExn e]]\<rparr>)"
  using assms
  by (cases "upsert_row env k v s")
     (simp add: bind_def try_except_def report_failure_eq failure_lines_def)

lemma upsert_loop_uncaught:
  assumes "fst (upsert_row env k v s) = Inl e" and "\<not> is_Exception e"
  shows "upsert_loop env ((k, v) # kvs) s = (Inl e, snd (upsert_row env k v s))"
  using assms
  by (cases "upsert_row env k v s") (simp add: bind_def try_except_def)

lemma fst_call [simp]: "fst (call ev f s) = fst (f (world s))"
  by (simp add: call_def split: prod.splits)

lemma world_call [simp]: "world (snd (call ev f s)) = snd (f (world s))"
  by (simp add: call_def split: prod.splits)

lemma cell_recreate_raises:
  assumes "vector_size df = Inr n"
    and "validate_params env \<lparr>vp_distance = COSINE, vp_size = n\<rparr> = None"
    and "fst (recreate_collection env ''Articles''
               [(''title'', \<lparr>vp_distance = COSINE, vp_size = n\<rparr>),
                (''content'', \<lparr>vp_distance = COSINE, vp_size = n\<rparr>)] (world s)) = Inl e"
  shows "fst (cell_recreate_collection env df s) = Inl e"
  using assms
  by (simp add: cell_recreate_collection_def VectorParams_def bind_raises)

lemma query_qdrant_raises:
  assumes "fst (embeddings_create env q EMBEDDING_MODEL (world s)) = Inr (d # ds)"
    and "fst (search env cn (vector_name_of vn, d) (top_k_of k) None
               (snd (embeddings_create env q EMBEDDING_MODEL (world s)))) = Inl e"
  shows "fst (query_qdrant env q cn vn k s) = Inl e"
  using assms
  by (cases "embeddings_create env q EMBEDDING_MODEL (world s)")
     (auto simp: query_qdrant_unfold split: prod.splits)

lemma loading_sites:
  "fst (download env embeddings_url (world s)) = Inl e1 \<Longrightarrow> fst (cell_download env s) = Inl e1"
  "fst (extractall env ''vector_database_wikipedia_articles_embedded.zip'' ''../data'' (world s)) = Inl e2
     \<Longrightarrow> fst (cell_extract env s) = Inl e2"
  "fst (read_csv env ''../data/vector_database_wikipedia_articles_embedded.csv'' (world s)) = Inl e3
     \<Longrightarrow> fst (cell_read_csv env s) = Inl e3"
  by (simp_all add: cell_download_def cell_extract_def cell_read_csv_def bind_raises)

lemma bind_raises_fst: "fst (m s) = Inl e \<Longrightarrow> fst (bind m f s) = Inl e"
  by (simp add: bind_raises)

lemma cell_parse_sites:
  "get_column (Exn ''AttributeError'') pa ''title_vector'' = Inl e1 \<Longrightarrow>
     fst (cell_parse env pa s) = Inl e1"
  "get_column (Exn ''AttributeError'') pb ''title_vector'' = Inr xb \<Longrightarrow>
   mapM (literal_eval env) xb = Inl e2 \<Longrightarrow>
     fst (cell_parse env pb s) = Inl e2"
  "get_column (Exn ''AttributeError'') pc ''title_vector'' = Inr xc \<Longrightarrow>
   mapM (literal_eval env) xc = Inr yc \<Longrightarrow>
   get_column (Exn ''AttributeError'') (set_column pc ''title_vector'' yc) ''content_vector'' = Inl e3 \<Longrightarrow>
     fst (cell_parse env pc s) = Inl e3"
  "get_column (Exn ''AttributeError'') pd ''title_vector'' = Inr xd \<Longrightarrow>
   mapM (literal_eval env) xd = Inr yd \<Longrightarrow>
   get_column (Exn ''AttributeError'') (set_column pd ''title_vector'' yd) ''content_vector'' = Inr xd' \<Longrightarrow>
   mapM (literal_eval env) xd' = Inl e4 \<Longrightarrow>
     fst (cell_parse env pd s) = Inl e4"
  "get_column (Exn ''AttributeError'') pe ''title_vector'' = Inr xe \<Longrightarrow>
   mapM (literal_eval env) xe = Inr ye \<Longrightarrow>
   get_column (Exn ''AttributeError'') (set_column pe ''title_vector'' ye) ''content_vector'' = Inr xe' \<Longrightarrow>
   mapM (literal_eval env) xe' = Inr ye' \<Longrightarrow>
   get_column (Exn ''KeyError'')
     (set_column (set_column pe ''title_vector'' ye) ''content_vector'' ye') ''vector_id'' = Inl e5 \<Longrightarrow>
     fst (cell_parse env pe s) = Inl e5"
  by (simp_all add: cell_parse_def apply_column_def bind_def lift_def emit_def ret_def)

lemma cell_recreate_sites:
  "vector_size da = Inl e6 \<Longrightarrow> fst (cell_recreate_collection env da s) = Inl e6"
  "vector_size db = Inr nb \<Longrightarrow>
   validate_params env \<lparr>vp_distance = COSINE, vp_size = nb\<rparr> = Some e7 \<Longrightarrow>
     fst (cell_recreate_collection env db s) = Inl e7"
  by (simp_all add: cell_recreate_collection_def VectorParams_def)

lemma query_qdrant_sites:
  "fst (embeddings_create env qa EMBEDDING_MODEL (world s)) = Inl e8 \<Longrightarrow>
     fst (query_qdrant env qa cn vn top_k s) = Inl e8"
  "fst (embeddings_create env qb EMBEDDING_MODEL (world s)) = Inr [] \<Longrightarrow>
     fst (query_qdrant env qb cn vn top_k s) = Inl (Exn ''IndexError'')"
  by (cases "embeddings_create env qa EMBEDDING_MODEL (world s)";
      cases "embeddings_create env qb EMBEDDING_MODEL (world s)";
      simp add: query_qdrant_unfold)+

lemma print_results_later:
  assumes "list_all (\<lambda>a. \<not> isl (payload_get a ''title'') \<and> \<not> isl (payload_get a ''url'')) pre"
    and "payload_get h ''title'' = Inl e \<or>
         (\<not> isl (payload_get h ''title'') \<and> payload_get h ''url'' = Inl e)"
  shows "fst (print_results i (pre @ h # rest) s) = Inl e"
  using assms(1)
proof (induction pre arbitrary: i s)
  case Nil
  from assms(2) show ?case
  proof
    assume "payload_get h ''title'' = Inl e"
    then show ?thesis
      by simp
  next
    assume a: "\<not> isl (payload_get h ''title'') \<and> payload_get h ''url'' = Inl e"
    then obtain t where "payload_get h ''title'' = Inr t"
      by (cases "payload_get h ''title''") simp_all
    with a show ?thesis
      by simp
  qed
next
  case (Cons a pre)
  from Cons.prems obtain t u where
    "payload_get a ''title'' = Inr t" "payload_get a ''url'' = Inr u"
    by (cases "payload_get a ''title''"; cases "payload_get a ''url''") simp_all
  moreover from Cons.prems have
    "list_all (\<lambda>a. \<not> isl (payload_get a ''title'') \<and> \<not> isl (payload_get a ''url'')) pre"
    by simp
  ultimately show ?case
    using Cons.IH by simp
qed

lemma print_results_sites:
  "list_all (\<lambda>a. \<not> isl (payload_get a ''title'') \<and> \<not> isl (payload_get a ''url'')) pre \<Longrightarrow>
   payload_get a ''title'' = Inl e9 \<Longrightarrow> fst (print_results i (pre @ a # rest) s) = Inl e9"
  "list_all (\<lambda>a. \<not> isl (payload_get a ''title'') \<and> \<not> isl (payload_get a ''url'')) pre \<Longrightarrow>
   payload_get b ''title'' = Inr t \<Longrightarrow> payload_get b ''url'' = Inl e10 \<Longrightarrow>
     fst (print_results i (pre @ b # rest) s) = Inl e10"
  by (simp_all add: print_results_later)

lemma other_cell_sites:
  "fst (qdrant_client env ''localhost'' 6333 (world s)) = Inl e11 \<Longrightarrow>
     fst (cell_client env s) = Inl e11"
  "fst (get_collections env (world s)) = Inl e12 \<Longrightarrow> fst (cell_get_collections env s) = Inl e12"
  "fst (count_points env ''Articles'' (world s)) = Inl e13 \<Longrightarrow> fst (cell_count env s) = Inl e13"
  "fst (query_qdrant env (PyStr qc) ''Articles'' (Some vc) None s) = Inl e14 \<Longrightarrow>
     fst (cell_query env qc vc s) = Inl e14"
  "fst (query_qdrant env (PyStr qd) ''Articles'' (Some vd) None s) = Inr rs \<Longrightarrow>
   fst (print_results 0 rs (snd (query_qdrant env (PyStr qd) ''Articles'' (Some vd) None s))) = Inl e15 \<Longrightarrow>
     fst (cell_query env qd vd s) = Inl e15"
  by (simp_all add: cell_client_def cell_get_collections_def cell_count_def cell_query_def
        bind_raises bind_returns)

text \<open>
  C1 (amended). The body of the upsert loop is wrapped in \<^verbatim>\<open>except Exception\<close>. When
  the upsert of a row raises an instance of \<^verbatim>\<open>Exception\<close>, the exception is caught, the
  row and the exception are printed and the loop goes on with the rows that remain; an
  exception that is not an instance of \<^verbatim>\<open>Exception\<close> leaves the loop at once, and
  nothing else ever leaves it. No other cell has a handler. Whatever raises in it is the
  result of the cell: the download, the extraction, reading the CSV; in the parsing cell
  a missing column or a failing \<^verbatim>\<open>literal_eval\<close>, for \<^verbatim>\<open>title_vector\<close>,
  \<^verbatim>\<open>content_vector\<close> and \<^verbatim>\<open>vector_id\<close> alike; the client and the listing of
  collections; in creating the collection the look-up of the first content vector, its
  length, the validation of the parameters and the request; the count; in a query the
  embeddings call, an empty embeddings response and the search; in printing the results
  a missing payload, title or url, at the first result or after printed ones. Cells
  run in sequence with no handler between them: what the first raises is the result of
  the sequence, and the second runs only on what the first returns.
\<close>

theorem upsert_handler_catches_Exception_only:
  shows "(fst (upsert_row env k_up v_up st) = Inl e_up \<and> is_Exception e_up \<longrightarrow>
         upsert_loop env ((k_up, v_up) # rest_up) st = upsert_loop env rest_up ((snd (upsert_row
         env k_up v_up st))\<lparr>trace := trace (snd (upsert_row env k_up v_up st)) @ [EvPrint
         [Lit ''Failed to upsert row '', ArgInt k_up, Lit '': '', ArgRow v_up], EvPrint [Lit
         ''Exception: '', ArgExn e_up]]\<rparr>)) \<and>
         (fst (upsert_row env k_base v_base st) = Inl e_base \<and> \<not> is_Exception e_base
         \<longrightarrow> upsert_loop env ((k_base, v_base) # rest_base) st = (Inl e_base, snd
         (upsert_row env k_base v_base st))) \<and>
         (fst (upsert_loop env rows_left st) = Inl e_out \<longrightarrow> \<not> is_Exception
         e_out) \<and>
         (fst (download env embeddings_url (world st)) = Inl e_dl \<longrightarrow> fst
         (cell_download env st) = Inl e_dl) \<and>
         (fst (extractall env ''vector_database_wikipedia_articles_embedded.zip'' ''../data''
         (world st)) = Inl e_zip \<longrightarrow> fst (cell_extract env st) = Inl e_zip) \<and>
         (fst (read_csv env ''../data/vector_database_wikipedia_articles_embedded.csv'' (world
         st)) = Inl e_csv \<longrightarrow> fst (cell_read_csv env st) = Inl e_csv) \<and>
         (get_column (Exn ''AttributeError'') pa ''title_vector'' = Inl e_pa \<longrightarrow> fst
         (cell_parse env pa st) = Inl e_pa) \<and>
         (get_column (Exn ''AttributeError'') pb ''title_vector'' = Inr xb \<and> mapM
         (literal_eval env) xb = Inl e_pb \<longrightarrow> fst (cell_parse env pb st) = Inl e_pb) \<and>
         (get_column (Exn ''AttributeError'') pc ''title_vector'' = Inr xc \<and> mapM
         (literal_eval env) xc = Inr yc \<and> get_column (Exn ''AttributeError'') (set_column pc
         ''title_vector'' yc) ''content_vector'' = Inl e_pc \<longrightarrow> fst (cell_parse env
         pc st) = Inl e_pc) \<and>
         (get_column (Exn ''AttributeError'') pd ''title_vector'' = Inr xd \<and> mapM
         (literal_eval env) xd = Inr yd \<and> get_column (Exn ''AttributeError'') (set_column pd
         ''title_vector'' yd) ''content_vector'' = Inr xd' \<and> mapM (literal_eval env) xd' =
         Inl e_pd \<longrightarrow> fst (cell_parse env pd st) = Inl e_pd) \<and>
         (get_column (Exn ''AttributeError'') pe ''title_vector'' = Inr xe \<and> mapM
         (literal_eval env) xe = Inr ye \<and> get_column (Exn ''AttributeError'') (set_column pe
         ''title_vector'' ye) ''content_vector'' = Inr xe' \<and> mapM (literal_eval env) xe' =
         Inr ye' \<and> get_column (Exn ''KeyError'') (set_column (set_column pe ''title_vector''
         ye) ''content_vector'' ye') ''vector_id'' = Inl e_pe \<longrightarrow> fst (cell_parse
         env pe st) = Inl e_pe) \<and>
         (fst (qdrant_client env ''localhost'' 6333 (world st)) = Inl e_cl \<longrightarrow> fst
         (cell_client env st) = Inl e_cl) \<and>
         (fst (get_collections env (world st)) = Inl e_gc \<longrightarrow> fst
         (cell_get_collections env st) = Inl e_gc) \<and>
         (vector_size da = Inl e_da \<longrightarrow> fst (cell_recreate_collection env da st) =
         Inl e_da) \<and>
         (vector_size db = Inr nb \<and> validate_params env \<lparr>vp_distance = COSINE, vp_size
         = nb\<rparr> = Some e_db \<longrightarrow> fst (cell_recreate_collection env db st) = Inl
         e_db) \<and>
         (vector_size dc = Inr nc \<and> validate_params env \<lparr>vp_distance = COSINE, vp_size
         = nc\<rparr> = None \<and> fst (recreate_collection env ''Articles'' [(''title'',
         \<lparr>vp_distance = COSINE, vp_size = nc\<rparr>), (''content'', \<lparr>vp_distance =
         COSINE, vp_size = nc\<rparr>)] (world st)) = Inl e_dc \<longrightarrow> fst
         (cell_recreate_collection env dc st) = Inl e_dc) \<and>
         (fst (count_points env ''Articles'' (world st)) = Inl e_ct \<longrightarrow> fst
         (cell_count env st) = Inl e_ct) \<and>
         (fst (embeddings_create env qa EMBEDDING_MODEL (world st)) = Inl e_qa \<longrightarrow>
         fst (query_qdrant env qa cna vna ka st) = Inl e_qa) \<and>
         (fst (embeddings_create env qb EMBEDDING_MODEL (world st)) = Inr [] \<longrightarrow> fst
         (query_qdrant env qb cnb vnb kb st) = Inl (Exn ''IndexError'')) \<and>
         (fst (embeddings_create env qc EMBEDDING_MODEL (world st)) = Inr (d_qc # dcs) \<and> fst
         (search env cnc (vector_name_of vnc, d_qc) (top_k_of kc) None (snd (embeddings_create env
         qc EMBEDDING_MODEL (world st)))) = Inl e_qc \<longrightarrow> fst (query_qdrant env qc
         cnc vnc kc st) = Inl e_qc) \<and>
         (fst (query_qdrant env (PyStr qd) ''Articles'' (Some vd) None st) = Inl e_qd
         \<longrightarrow> fst (cell_query env qd vd st) = Inl e_qd) \<and>
         (fst (query_qdrant env (PyStr qe) ''Articles'' (Some ve) None st) = Inr rse \<and> fst
         (print_results 0 rse (snd (query_qdrant env (PyStr qe) ''Articles'' (Some ve) None st)))
         = Inl e_qe \<longrightarrow> fst (cell_query env qe ve st) = Inl e_qe) \<and>
         (list_all (\<lambda>a. \<not> isl (payload_get a ''title'') \<and> \<not> isl
         (payload_get a ''url'')) pre_a \<and> payload_get ha ''title'' = Inl e_ha
         \<longrightarrow> fst (print_results i_a (pre_a @ ha # rest_a) st) = Inl e_ha) \<and>
         (list_all (\<lambda>a. \<not> isl (payload_get a ''title'') \<and> \<not> isl
         (payload_get a ''url'')) pre_b \<and> payload_get hb ''title'' = Inr tb \<and>
         payload_get hb ''url'' = Inl e_hb \<longrightarrow> fst (print_results i_b (pre_b @ hb #
         rest_b) st) = Inl e_hb) \<and>
         (fst (prog st) = Inl e_seq \<longrightarrow> fst (bind prog cont st) = Inl e_seq) \<and>
         (fst (prog_r st) = Inr x_r \<longrightarrow> bind prog_r cont_r st = cont_r x_r (snd
         (prog_r st)))"
proof (intro conjI impI; (elim conjE)?)
  show "fst (upsert_row env k_up v_up st) = Inl e_up \<Longrightarrow> is_Exception e_up
  \<Longrightarrow> upsert_loop env ((k_up, v_up) # rest_up) st = upsert_loop env rest_up ((snd
  (upsert_row env k_up v_up st))\<lparr>trace := trace (snd (upsert_row env k_up v_up st)) @
  [EvPrint [Lit ''Failed to upsert row '', ArgInt k_up, Lit '': '', ArgRow v_up], EvPrint [Lit
  ''Exception: '', ArgExn e_up]]\<rparr>)"
    by (rule upsert_loop_caught)
  show "fst (upsert_row env k_base v_base st) = Inl e_base \<Longrightarrow> \<not> is_Exception
  e_base \<Longrightarrow> upsert_loop env ((k_base, v_base) # rest_base) st = (Inl e_base, snd
  (upsert_row env k_base v_base st))"
    by (rule upsert_loop_uncaught)
  show "fst (upsert_loop env rows_left st) = Inl e_out \<Longrightarrow> \<not> is_Exception
  e_out"
    by (rule upsert_loop_escape)
  show "fst (download env embeddings_url (world st)) = Inl e_dl \<Longrightarrow> fst
  (cell_download env st) = Inl e_dl"
    by (rule loading_sites(1))
  show "fst (extractall env ''vector_database_wikipedia_articles_embedded.zip'' ''../data'' (world
  st)) = Inl e_zip \<Longrightarrow> fst (cell_extract env st) = Inl e_zip"
    by (rule loading_sites(2))
  show "fst (read_csv env ''../data/vector_database_wikipedia_articles_embedded.csv'' (world st))
  = Inl e_csv \<Longrightarrow> fst (cell_read_csv env st) = Inl e_csv"
    by (rule loading_sites(3))
  show "get_column (Exn ''AttributeError'') pa ''title_vector'' = Inl e_pa \<Longrightarrow> fst
  (cell_parse env pa st) = Inl e_pa"
    by (rule cell_parse_sites(1))
  show "get_column (Exn ''AttributeError'') pb ''title_vector'' = Inr xb \<Longrightarrow> mapM
  (literal_eval env) xb = Inl e_pb \<Longrightarrow> fst (cell_parse env pb st) = Inl e_pb"
    by (rule cell_parse_sites(2))
  show "get_column (Exn ''AttributeError'') pc ''title_vector'' = Inr xc \<Longrightarrow> mapM
  (literal_eval env) xc = Inr yc \<Longrightarrow> get_column (Exn ''AttributeError'') (set_column
  pc ''title_vector'' yc) ''content_vector'' = Inl e_pc \<Longrightarrow> fst (cell_parse env pc
  st) = Inl e_pc"
    by (rule cell_parse_sites(3))
  show "get_column (Exn ''AttributeError'') pd ''title_vector'' = Inr xd \<Longrightarrow> mapM
  (literal_eval env) xd = Inr yd \<Longrightarrow> get_column (Exn ''AttributeError'') (set_column
  pd ''title_vector'' yd) ''content_vector'' = Inr xd' \<Longrightarrow> mapM (literal_eval env)
  xd' = Inl e_pd \<Longrightarrow> fst (cell_parse env pd st) = Inl e_pd"
    by (rule cell_parse_sites(4))
  show "get_column (Exn ''AttributeError'') pe ''title_vector'' = Inr xe \<Longrightarrow> mapM
  (literal_eval env) xe = Inr ye \<Longrightarrow> get_column (Exn ''AttributeError'') (set_column
  pe ''title_vector'' ye) ''content_vector'' = Inr xe' \<Longrightarrow> mapM (literal_eval env)
  xe' = Inr ye' \<Longrightarrow> get_column (Exn ''KeyError'') (set_column (set_column pe
  ''title_vector'' ye) ''content_vector'' ye') ''vector_id'' = Inl e_pe \<Longrightarrow> fst
  (cell_parse env pe st) = Inl e_pe"
    by (rule cell_parse_sites(5))
  show "fst (qdrant_client env ''localhost'' 6333 (world st)) = Inl e_cl \<Longrightarrow> fst
  (cell_client env st) = Inl e_cl"
    by (rule other_cell_sites(1))
  show "fst (get_collections env (world st)) = Inl e_gc \<Longrightarrow> fst
  (cell_get_collections env st) = Inl e_gc"
    by (rule other_cell_sites(2))
  show "vector_size da = Inl e_da \<Longrightarrow> fst (cell_recreate_collection env da st) = Inl
  e_da"
    by (rule cell_recreate_sites(1))
  show "vector_size db = Inr nb \<Longrightarrow> validate_params env \<lparr>vp_distance =
  COSINE, vp_size = nb\<rparr> = Some e_db \<Longrightarrow> fst (cell_recreate_collection env db
  st) = Inl e_db"
    by (rule cell_recreate_sites(2))
  show "vector_size dc = Inr nc \<Longrightarrow> validate_params env \<lparr>vp_distance =
  COSINE, vp_size = nc\<rparr> = None \<Longrightarrow> fst (recreate_collection env ''Articles''
  [(''title'', \<lparr>vp_distance = COSINE, vp_size = nc\<rparr>), (''content'',
  \<lparr>vp_distance = COSINE, vp_size = nc\<rparr>)] (world st)) = Inl e_dc \<Longrightarrow>
  fst (cell_recreate_collection env dc st) = Inl e_dc"
    by (rule cell_recreate_raises)
  show "fst (count_points env ''Articles'' (world st)) = Inl e_ct \<Longrightarrow> fst
  (cell_count env st) = Inl e_ct"
    by (rule other_cell_sites(3))
  show "fst (embeddings_create env qa EMBEDDING_MODEL (world st)) = Inl e_qa \<Longrightarrow> fst
  (query_qdrant env qa cna vna ka st) = Inl e_qa"
    by (rule query_qdrant_sites(1))
  show "fst (embeddings_create env qb EMBEDDING_MODEL (world st)) = Inr [] \<Longrightarrow> fst
  (query_qdrant env qb cnb vnb kb st) = Inl (Exn ''IndexError'')"
    by (rule query_qdrant_sites(2))
  show "fst (embeddings_create env qc EMBEDDING_MODEL (world st)) = Inr (d_qc # dcs)
  \<Longrightarrow> fst (search env cnc (vector_name_of vnc, d_qc) (top_k_of kc) None (snd
  (embeddings_create env qc EMBEDDING_MODEL (world st)))) = Inl e_qc \<Longrightarrow> fst
  (query_qdrant env qc cnc vnc kc st) = Inl e_qc"
    by (rule query_qdrant_raises)
  show "fst (query_qdrant env (PyStr qd) ''Articles'' (Some vd) None st) = Inl e_qd
  \<Longrightarrow> fst (cell_query env qd vd st) = Inl e_qd"
    by (rule other_cell_sites(4))
  show "fst (query_qdrant env (PyStr qe) ''Articles'' (Some ve) None st) = Inr rse
  \<Longrightarrow> fst (print_results 0 rse (snd (query_qdrant env (PyStr qe) ''Articles'' (Some
  ve) None st))) = Inl e_qe \<Longrightarrow> fst (cell_query env qe ve st) = Inl e_qe"
    by (rule other_cell_sites(5))
  show "list_all (\<lambda>a. \<not> isl (payload_get a ''title'') \<and> \<not> isl (payload_get
  a ''url'')) pre_a \<Longrightarrow> payload_get ha ''title'' = Inl e_ha \<Longrightarrow> fst
  (print_results i_a (pre_a @ ha # rest_a) st) = Inl e_ha"
    by (rule print_results_sites(1))
  show "list_all (\<lambda>a. \<not> isl (payload_get a ''title'') \<and> \<not> isl (payload_get
  a ''url'')) pre_b \<Longrightarrow> payload_get hb ''title'' = Inr tb \<Longrightarrow>
  payload_get hb ''url'' = Inl e_hb \<Longrightarrow> fst (print_results i_b (pre_b @ hb # rest_b)
  st) = Inl e_hb"
    by (rule print_results_sites(2))
  show "fst (prog st) = Inl e_seq \<Longrightarrow> fst (bind prog cont st) = Inl e_seq"
    by (rule bind_raises_fst)
  show "fst (prog_r st) = Inr x_r \<Longrightarrow> bind prog_r cont_r st = cont_r x_r (snd
  (prog_r st))"
    by (rule bind_returns)
qed

text \<open>
  C1 as stated fails: \<^verbatim>\<open>KeyboardInterrupt\<close> raised during the upsert of the first row is
  not caught. Nothing is printed and the second row is never sent.
\<close>

theorem interrupt_ends_upsert_loop:
  "fst (cell_upsert interrupted_env demo_df (init [])) = Inl (BaseExn ''KeyboardInterrupt'') \<and>
   trace (snd (cell_upsert interrupted_env demo_df (init []))) = [EvUpsert ''Articles'' [demo_points ! 0]]"
  by (simp add: cell_upsert_def upsert_row_def build_point_def PointStruct_def interrupted_env_def
        prog_defs frame_defs demo_defs)

lemmas witness_defs = upsert_row_def build_point_def PointStruct_def report_failure_def
  cell_download_def cell_extract_def cell_read_csv_def cell_parse_def apply_column_def
  cell_client_def cell_get_collections_def cell_recreate_collection_def vector_size_def
  VectorParams_def cell_count_def cell_query_def query_qdrant_def first_embedding_def
  vector_name_of_def top_k_of_def payload_get_def EMBEDDING_MODEL_def cell_install_def sh_def
  faulty_env_def one_row_def frame_no_title_def frame_bad_title_def frame_no_content_def
  frame_bad_content_def frame_no_vector_id_def frame_no_rows_def frame_empty_vector_def
  hit_no_payload_def hit_no_url_def prog_defs frame_defs demo_defs

text \<open>
  C1, at concrete inputs. In the world where every call fails, the first row's failure is
  caught and printed, the interrupt at the second row ends the loop, and each other cell
  ends with the exception raised at each of its calls and look-ups.
\<close>

theorem upsert_handler_catches_Exception_only_witness:
  "fst (upsert_row faulty_env 0 (rows demo_df ! 0) (init ([] :: point list))) = Inl (Exn
   ''UnexpectedResponse'') \<and>
   is_Exception (Exn ''UnexpectedResponse'') \<and>
   upsert_loop faulty_env ((0, (rows demo_df ! 0)) # [(1, rows demo_df ! 1)]) (init ([] :: point
   list)) = upsert_loop faulty_env [(1, rows demo_df ! 1)] ((snd (upsert_row faulty_env 0 (rows
   demo_df ! 0) (init ([] :: point list))))\<lparr>trace := trace (snd (upsert_row faulty_env 0
   (rows demo_df ! 0) (init ([] :: point list)))) @ [EvPrint [Lit ''Failed to upsert row '',
   ArgInt 0, Lit '': '', ArgRow (rows demo_df ! 0)], EvPrint [Lit ''Exception: '', ArgExn (Exn
   ''UnexpectedResponse'')]]\<rparr>) \<and>
   fst (upsert_row faulty_env 1 (rows demo_df ! 1) (init ([] :: point list))) = Inl (BaseExn
   ''KeyboardInterrupt'') \<and>
   \<not> is_Exception (BaseExn ''KeyboardInterrupt'') \<and>
   upsert_loop faulty_env ((1, (rows demo_df ! 1)) # []) (init ([] :: point list)) = (Inl (BaseExn
   ''KeyboardInterrupt''), snd (upsert_row faulty_env 1 (rows demo_df ! 1) (init ([] :: point
   list)))) \<and>
   fst (upsert_loop faulty_env (iterrows demo_df) (init ([] :: point list))) = Inl (BaseExn
   ''KeyboardInterrupt'') \<and>
   fst (download faulty_env embeddings_url (world (init ([] :: point list)))) = Inl (Exn
   ''HTTPError'') \<and>
   fst (cell_download faulty_env (init ([] :: point list))) = Inl (Exn ''HTTPError'') \<and>
   fst (extractall faulty_env ''vector_database_wikipedia_articles_embedded.zip'' ''../data''
   (world (init ([] :: point list)))) = Inl (Exn ''FileNotFoundError'') \<and>
   fst (cell_extract faulty_env (init ([] :: point list))) = Inl (Exn ''FileNotFoundError'') \<and>
   fst (read_csv faulty_env ''../data/vector_database_wikipedia_articles_embedded.csv'' (world
   (init ([] :: point list)))) = Inl (Exn ''FileNotFoundError'') \<and>
   fst (cell_read_csv faulty_env (init ([] :: point list))) = Inl (Exn ''FileNotFoundError'') \<and>
   get_column (Exn ''AttributeError'') frame_no_title ''title_vector'' = Inl (Exn
   ''AttributeError'') \<and>
   fst (cell_parse faulty_env frame_no_title (init ([] :: point list))) = Inl (Exn
   ''AttributeError'') \<and>
   get_column (Exn ''AttributeError'') frame_bad_title ''title_vector'' = Inr [PyStr ''foo''] \<and>
   mapM (literal_eval faulty_env) [PyStr ''foo''] = Inl (Exn ''ValueError'') \<and>
   fst (cell_parse faulty_env frame_bad_title (init ([] :: point list))) = Inl (Exn
   ''ValueError'') \<and>
   get_column (Exn ''AttributeError'') frame_no_content ''title_vector'' = Inr [PyStr
   ''[0.5, 0.25]''] \<and>
   mapM (literal_eval faulty_env) [PyStr ''[0.5, 0.25]''] = Inr [PyList [PyFloat 1 (- 1), PyFloat
   1 (- 2)]] \<and>
   get_column (Exn ''AttributeError'') (set_column frame_no_content ''title_vector'' [PyList
   [PyFloat 1 (- 1), PyFloat 1 (- 2)]]) ''content_vector'' = Inl (Exn ''AttributeError'') \<and>
   fst (cell_parse faulty_env frame_no_content (init ([] :: point list))) = Inl (Exn
   ''AttributeError'') \<and>
   get_column (Exn ''AttributeError'') frame_bad_content ''title_vector'' = Inr [PyStr
   ''[0.5, 0.25]''] \<and>
   get_column (Exn ''AttributeError'') (set_column frame_bad_content ''title_vector'' [PyList
   [PyFloat 1 (- 1), PyFloat 1 (- 2)]]) ''content_vector'' = Inr [PyStr ''foo''] \<and>
   fst (cell_parse faulty_env frame_bad_content (init ([] :: point list))) = Inl (Exn
   ''ValueError'') \<and>
   get_column (Exn ''AttributeError'') frame_no_vector_id ''title_vector'' = Inr [PyStr
   ''[0.5, 0.25]''] \<and>
   get_column (Exn ''AttributeError'') (set_column frame_no_vector_id ''title_vector'' [PyList
   [PyFloat 1 (- 1), PyFloat 1 (- 2)]]) ''content_vector'' = Inr [PyStr ''[0.25, 0.5]''] \<and>
   mapM (literal_eval faulty_env) [PyStr ''[0.25, 0.5]''] = Inr [PyList [PyFloat 1 (- 2), PyFloat
   1 (- 1)]] \<and>
   get_column (Exn ''KeyError'') (set_column (set_column frame_no_vector_id ''title_vector''
   [PyList [PyFloat 1 (- 1), PyFloat 1 (- 2)]]) ''content_vector'' [PyList [PyFloat 1 (- 2),
   PyFloat 1 (- 1)]]) ''vector_id'' = Inl (Exn ''KeyError'') \<and>
   fst (cell_parse faulty_env frame_no_vector_id (init ([] :: point list))) = Inl (Exn
   ''KeyError'') \<and>
   fst (qdrant_client faulty_env ''localhost'' 6333 (world (init ([] :: point list)))) = Inl (Exn
   ''ValueError'') \<and>
   fst (cell_client faulty_env (init ([] :: point list))) = Inl (Exn ''ValueError'') \<and>
   fst (get_collections faulty_env (world (init ([] :: point list)))) = Inl (Exn
   ''ResponseHandlingException'') \<and>
   fst (cell_get_collections faulty_env (init ([] :: point list))) = Inl (Exn
   ''ResponseHandlingException'') \<and>
   vector_size frame_no_rows = Inl (Exn ''KeyError'') \<and>
   fst (cell_recreate_collection faulty_env frame_no_rows (init ([] :: point list))) = Inl (Exn
   ''KeyError'') \<and>
   vector_size frame_empty_vector = Inr 0 \<and>
   validate_params faulty_env \<lparr>vp_distance = COSINE, vp_size = 0\<rparr> = Some (Exn
   ''ValidationError'') \<and>
   fst (cell_recreate_collection faulty_env frame_empty_vector (init ([] :: point list))) = Inl
   (Exn ''ValidationError'') \<and>
   vector_size demo_df = Inr 2 \<and>
   validate_params faulty_env \<lparr>vp_distance = COSINE, vp_size = 2\<rparr> = None \<and>
   fst (recreate_collection faulty_env ''Articles'' [(''title'', \<lparr>vp_distance = COSINE,
   vp_size = 2\<rparr>), (''content'', \<lparr>vp_distance = COSINE, vp_size = 2\<rparr>)] (world
   (init ([] :: point list)))) = Inl (Exn ''ResponseHandlingException'') \<and>
   fst (cell_recreate_collection faulty_env demo_df (init ([] :: point list))) = Inl (Exn
   ''ResponseHandlingException'') \<and>
   fst (count_points faulty_env ''Articles'' (world (init ([] :: point list)))) = Inl (Exn
   ''ResponseHandlingException'') \<and>
   fst (cell_count faulty_env (init ([] :: point list))) = Inl (Exn ''ResponseHandlingException'') \<and>
   fst (embeddings_create faulty_env (PyStr ''boom'') EMBEDDING_MODEL (world (init ([] :: point
   list)))) = Inl (Exn ''APIConnectionError'') \<and>
   fst (query_qdrant faulty_env (PyStr ''boom'') ''Articles'' None None (init ([] :: point list)))
   = Inl (Exn ''APIConnectionError'') \<and>
   fst (embeddings_create faulty_env (PyStr []) EMBEDDING_MODEL (world (init ([] :: point list))))
   = Inr [] \<and>
   fst (query_qdrant faulty_env (PyStr []) ''Articles'' None None (init ([] :: point list))) = Inl
   (Exn ''IndexError'') \<and>
   fst (embeddings_create faulty_env (PyStr ''modern art in Europe'') EMBEDDING_MODEL (world (init
   ([] :: point list)))) = Inr ((PyList [PyFloat 1 (- 1), PyFloat 1 (- 2)]) # []) \<and>
   fst (search faulty_env ''Articles'' (vector_name_of (Some ''title''), (PyList [PyFloat 1 (- 1),
   PyFloat 1 (- 2)])) (top_k_of None) None (snd (embeddings_create faulty_env (PyStr
   ''modern art in Europe'') EMBEDDING_MODEL (world (init ([] :: point list)))))) = Inl (Exn
   ''UnexpectedResponse'') \<and>
   fst (query_qdrant faulty_env (PyStr ''modern art in Europe'') ''Articles'' (Some ''title'')
   None (init ([] :: point list))) = Inl (Exn ''UnexpectedResponse'') \<and>
   fst (query_qdrant faulty_env (PyStr ''boom'') ''Articles'' (Some ''title'') None (init ([] ::
   point list))) = Inl (Exn ''APIConnectionError'') \<and>
   fst (cell_query faulty_env ''boom'' ''title'' (init ([] :: point list))) = Inl (Exn
   ''APIConnectionError'') \<and>
   fst (query_qdrant faulty_env (PyStr ''Famous battles in Scottish history'') ''Articles'' (Some
   ''content'') None (init ([] :: point list))) = Inr [hit_no_payload] \<and>
   fst (print_results 0 [hit_no_payload] (snd (query_qdrant faulty_env (PyStr
   ''Famous battles in Scottish history'') ''Articles'' (Some ''content'') None (init ([] :: point
   list))))) = Inl (Exn ''TypeError'') \<and>
   fst (cell_query faulty_env ''Famous battles in Scottish history'' ''content'' (init ([] ::
   point list))) = Inl (Exn ''TypeError'') \<and>
   list_all (\<lambda>a. \<not> isl (payload_get a ''title'') \<and> \<not> isl (payload_get a
   ''url'')) [demo_hit (demo_points ! 0)] \<and>
   payload_get hit_no_payload ''title'' = Inl (Exn ''TypeError'') \<and>
   fst (print_results 0 ([demo_hit (demo_points ! 0)] @ hit_no_payload # [hit_no_url]) (init ([]
   :: point list))) = Inl (Exn ''TypeError'') \<and>
   payload_get hit_no_url ''title'' = Inr (PyStr ''April'') \<and>
   payload_get hit_no_url ''url'' = Inl (Exn ''KeyError'') \<and>
   fst (print_results 0 ([demo_hit (demo_points ! 0)] @ hit_no_url # []) (init ([] :: point
   list))) = Inl (Exn ''KeyError'') \<and>
   fst (bind (cell_download faulty_env) (\<lambda>_. cell_extract faulty_env) (init ([] :: point
   list))) = Inl (Exn ''HTTPError'') \<and>
   fst (cell_install faulty_env (init ([] :: point list))) = Inr () \<and>
   bind (cell_install faulty_env) (\<lambda>_. cell_download faulty_env) (init ([] :: point list))
   = cell_download faulty_env (snd (cell_install faulty_env (init ([] :: point list))))"
proof -
  have p1: "fst (upsert_row faulty_env 0 (rows demo_df ! 0) (init ([] :: point list))) = Inl (Exn
  ''UnexpectedResponse'')"
    by (simp add: witness_defs)
  have p2: "is_Exception (Exn ''UnexpectedResponse'')"
    by (simp add: witness_defs)
  have p3: "fst (upsert_row faulty_env 1 (rows demo_df ! 1) (init ([] :: point list))) = Inl
  (BaseExn ''KeyboardInterrupt'')"
    by (simp add: witness_defs)
  have p4: "\<not> is_Exception (BaseExn ''KeyboardInterrupt'')"
    by (simp add: witness_defs)
  have p5: "fst (upsert_loop faulty_env (iterrows demo_df) (init ([] :: point list))) = Inl
  (BaseExn ''KeyboardInterrupt'')"
    by (simp add: witness_defs)
  have p6: "fst (download faulty_env embeddings_url (world (init ([] :: point list)))) = Inl (Exn
  ''HTTPError'')"
    by (simp add: witness_defs)
  have p7: "fst (extractall faulty_env ''vector_database_wikipedia_articles_embedded.zip''
  ''../data'' (world (init ([] :: point list)))) = Inl (Exn ''FileNotFoundError'')"
    by (simp add: witness_defs)
  have p8: "fst (read_csv faulty_env ''../data/vector_database_wikipedia_articles_embedded.csv''
  (world (init ([] :: point list)))) = Inl (Exn ''FileNotFoundError'')"
    by (simp add: witness_defs)
  have p9: "get_column (Exn ''AttributeError'') frame_no_title ''title_vector'' = Inl (Exn
  ''AttributeError'')"
    by (simp add: witness_defs)
  have p10: "get_column (Exn ''AttributeError'') frame_bad_title ''title_vector'' = Inr [PyStr
  ''foo'']"
    by (simp add: witness_defs)
  have p11: "mapM (literal_eval faulty_env) [PyStr ''foo''] = Inl (Exn ''ValueError'')"
    by (simp add: witness_defs)
  have p12: "get_column (Exn ''AttributeError'') frame_no_content ''title_vector'' = Inr [PyStr
  ''[0.5, 0.25]'']"
    by (simp add: witness_defs)
  have p13: "mapM (literal_eval faulty_env) [PyStr ''[0.5, 0.25]''] = Inr [PyList [PyFloat 1 (-
  1), PyFloat 1 (- 2)]]"
    by (simp add: witness_defs)
  have p14: "get_column (Exn ''AttributeError'') (set_column frame_no_content ''title_vector''
  [PyList [PyFloat 1 (- 1), PyFloat 1 (- 2)]]) ''content_vector'' = Inl (Exn ''AttributeError'')"
    by (simp add: witness_defs)
  have p15: "get_column (Exn ''AttributeError'') frame_bad_content ''title_vector'' = Inr [PyStr
  ''[0.5, 0.25]'']"
    by (simp add: witness_defs)
  have p17: "get_column (Exn ''AttributeError'') (set_column frame_bad_content ''title_vector''
  [PyList [PyFloat 1 (- 1), PyFloat 1 (- 2)]]) ''content_vector'' = Inr [PyStr ''foo'']"
    by (simp add: witness_defs)
  have p19: "get_column (Exn ''AttributeError'') frame_no_vector_id ''title_vector'' = Inr [PyStr
  ''[0.5, 0.25]'']"
    by (simp add: witness_defs)
  have p21: "get_column (Exn ''AttributeError'') (set_column frame_no_vector_id ''title_vector''
  [PyList [PyFloat 1 (- 1), PyFloat 1 (- 2)]]) ''content_vector'' = Inr [PyStr ''[0.25, 0.5]'']"
    by (simp add: witness_defs)
  have p22: "mapM (literal_eval faulty_env) [PyStr ''[0.25, 0.5]''] = Inr [PyList [PyFloat 1 (-
  2), PyFloat 1 (- 1)]]"
    by (simp add: witness_defs)
  have p23: "get_column (Exn ''KeyError'') (set_column (set_column frame_no_vector_id
  ''title_vector'' [PyList [PyFloat 1 (- 1), PyFloat 1 (- 2)]]) ''content_vector'' [PyList
  [PyFloat 1 (- 2), PyFloat 1 (- 1)]]) ''vector_id'' = Inl (Exn ''KeyError'')"
    by (simp add: witness_defs)
  have p24: "fst (qdrant_client faulty_env ''localhost'' 6333 (world (init ([] :: point list)))) =
  Inl (Exn ''ValueError'')"
    by (simp add: witness_defs)
  have p25: "fst (get_collections faulty_env (world (init ([] :: point list)))) = Inl (Exn
  ''ResponseHandlingException'')"
    by (simp add: witness_defs)
  have p26: "vector_size frame_no_rows = Inl (Exn ''KeyError'')"
    by (simp add: witness_defs)
  have p27: "vector_size frame_empty_vector = Inr 0"
    by (simp add: witness_defs)
  have p28: "validate_params faulty_env \<lparr>vp_distance = COSINE, vp_size = 0\<rparr> = Some
  (Exn ''ValidationError'')"
    by (simp add: witness_defs)
  have p29: "vector_size demo_df = Inr 2"
    by (simp add: witness_defs)
  have p30: "validate_params faulty_env \<lparr>vp_distance = COSINE, vp_size = 2\<rparr> = None"
    by (simp add: witness_defs)
  have p31: "fst (recreate_collection faulty_env ''Articles'' [(''title'', \<lparr>vp_distance =
  COSINE, vp_size = 2\<rparr>), (''content'', \<lparr>vp_distance = COSINE, vp_size = 2\<rparr>)]
  (world (init ([] :: point list)))) = Inl (Exn ''ResponseHandlingException'')"
    by (simp add: witness_defs)
  have p32: "fst (count_points faulty_env ''Articles'' (world (init ([] :: point list)))) = Inl
  (Exn ''ResponseHandlingException'')"
    by (simp add: witness_defs)
  have p33: "fst (embeddings_create faulty_env (PyStr ''boom'') EMBEDDING_MODEL (world (init ([]
  :: point list)))) = Inl (Exn ''APIConnectionError'')"
    by (simp add: witness_defs)
  have p34: "fst (embeddings_create faulty_env (PyStr []) EMBEDDING_MODEL (world (init ([] ::
  point list)))) = Inr []"
    by (simp add: witness_defs)
  have p35: "fst (embeddings_create faulty_env (PyStr ''modern art in Europe'') EMBEDDING_MODEL
  (world (init ([] :: point list)))) = Inr ((PyList [PyFloat 1 (- 1), PyFloat 1 (- 2)]) # [])"
    by (simp add: witness_defs)
  have p36: "fst (search faulty_env ''Articles'' (vector_name_of (Some ''title''), (PyList
  [PyFloat 1 (- 1), PyFloat 1 (- 2)])) (top_k_of None) None (snd (embeddings_create faulty_env
  (PyStr ''modern art in Europe'') EMBEDDING_MODEL (world (init ([] :: point list)))))) = Inl (Exn
  ''UnexpectedResponse'')"
    by (simp add: witness_defs)
  have p37: "fst (query_qdrant faulty_env (PyStr ''boom'') ''Articles'' (Some ''title'') None
  (init ([] :: point list))) = Inl (Exn ''APIConnectionError'')"
    by (simp add: witness_defs)
  have p38: "fst (query_qdrant faulty_env (PyStr ''Famous battles in Scottish history'')
  ''Articles'' (Some ''content'') None (init ([] :: point list))) = Inr [hit_no_payload]"
    by (simp add: witness_defs)
  have p39: "fst (print_results 0 [hit_no_payload] (snd (query_qdrant faulty_env (PyStr
  ''Famous battles in Scottish history'') ''Articles'' (Some ''content'') None (init ([] :: point
  list))))) = Inl (Exn ''TypeError'')"
    by (simp add: witness_defs)
  have p40: "list_all (\<lambda>a. \<not> isl (payload_get a ''title'') \<and> \<not> isl
  (payload_get a ''url'')) [demo_hit (demo_points ! 0)]"
    by (simp add: witness_defs)
  have p41: "payload_get hit_no_payload ''title'' = Inl (Exn ''TypeError'')"
    by (simp add: witness_defs)
  have p43: "payload_get hit_no_url ''title'' = Inr (PyStr ''April'')"
    by (simp add: witness_defs)
  have p44: "payload_get hit_no_url ''url'' = Inl (Exn ''KeyError'')"
    by (simp add: witness_defs)
  have p45: "fst (cell_download faulty_env (init ([] :: point list))) = Inl (Exn ''HTTPError'')"
    by (simp add: witness_defs)
  have p46: "fst (cell_install faulty_env (init ([] :: point list))) = Inr ()"
    by (simp add: witness_defs)
  note t = upsert_handler_catches_Exception_only
      [where env = "faulty_env"
         and st = "(init ([] :: point list))"
         and k_up = "0"
         and v_up = "(rows demo_df ! 0)"
         and rest_up = "[(1, rows demo_df ! 1)]"
         and e_up = "(Exn ''UnexpectedResponse'')"
         and k_base = "1"
         and v_base = "(rows demo_df ! 1)"
         and rest_base = "[]"
         and e_base = "(BaseExn ''KeyboardInterrupt'')"
         and rows_left = "(iterrows demo_df)"
         and e_out = "(BaseExn ''KeyboardInterrupt'')"
         and e_dl = "(Exn ''HTTPError'')"
         and e_zip = "(Exn ''FileNotFoundError'')"
         and e_csv = "(Exn ''FileNotFoundError'')"
         and pa = "frame_no_title"
         and e_pa = "(Exn ''AttributeError'')"
         and pb = "frame_bad_title"
         and xb = "[PyStr ''foo'']"
         and e_pb = "(Exn ''ValueError'')"
         and pc = "frame_no_content"
         and xc = "[PyStr ''[0.5, 0.25]'']"
         and yc = "[PyList [PyFloat 1 (- 1), PyFloat 1 (- 2)]]"
         and e_pc = "(Exn ''AttributeError'')"
         and pd = "frame_bad_content"
         and xd = "[PyStr ''[0.5, 0.25]'']"
         and yd = "[PyList [PyFloat 1 (- 1), PyFloat 1 (- 2)]]"
         and xd' = "[PyStr ''foo'']"
         and e_pd = "(Exn ''ValueError'')"
         and pe = "frame_no_vector_id"
         and xe = "[PyStr ''[0.5, 0.25]'']"
         and ye = "[PyList [PyFloat 1 (- 1), PyFloat 1 (- 2)]]"
         and xe' = "[PyStr ''[0.25, 0.5]'']"
         and ye' = "[PyList [PyFloat 1 (- 2), PyFloat 1 (- 1)]]"
         and e_pe = "(Exn ''KeyError'')"
         and e_cl = "(Exn ''ValueError'')"
         and e_gc = "(Exn ''ResponseHandlingException'')"
         and da = "frame_no_rows"
         and e_da = "(Exn ''KeyError'')"
         and db = "frame_empty_vector"
         and nb = "0"
         and e_db = "(Exn ''ValidationError'')"
         and dc = "demo_df"
         and nc = "2"
         and e_dc = "(Exn ''ResponseHandlingException'')"
         and e_ct = "(Exn ''ResponseHandlingException'')"
         and qa = "(PyStr ''boom'')"
         and cna = "''Articles''"
         and vna = "None"
         and ka = "None"
         and e_qa = "(Exn ''APIConnectionError'')"
         and qb = "(PyStr [])"
         and cnb = "''Articles''"
         and vnb = "None"
         and kb = "None"
         and qc = "(PyStr ''modern art in Europe'')"
         and cnc = "''Articles''"
         and vnc = "(Some ''title'')"
         and kc = "None"
         and d_qc = "(PyList [PyFloat 1 (- 1), PyFloat 1 (- 2)])"
         and dcs = "[]"
         and e_qc = "(Exn ''UnexpectedResponse'')"
         and qd = "''boom''"
         and vd = "''title''"
         and e_qd = "(Exn ''APIConnectionError'')"
         and qe = "''Famous battles in Scottish history''"
         and ve = "''content''"
         and rse = "[hit_no_payload]"
         and e_qe = "(Exn ''TypeError'')"
         and ha = "hit_no_payload"
         and i_a = "0"
         and rest_a = "[hit_no_url]"
         and e_ha = "(Exn ''TypeError'')"
         and hb = "hit_no_url"
         and tb = "(PyStr ''April'')"
         and i_b = "0"
         and rest_b = "[]"
         and e_hb = "(Exn ''KeyError'')"
         and pre_a = "[demo_hit (demo_points ! 0)]"
         and pre_b = "[demo_hit (demo_points ! 0)]"
         and prog_r = "(cell_install faulty_env)"
         and cont_r = "(\<lambda>_. cell_download faulty_env)"
         and x_r = "()"
         and prog = "(cell_download faulty_env)"
         and cont = "(\<lambda>_. cell_extract faulty_env)"
         and e_seq = "(Exn ''HTTPError'')"]
  note r1 = t [THEN conjunct2]
  note r2 = r1 [THEN conjunct2]
  note r3 = r2 [THEN conjunct2]
  note r4 = r3 [THEN conjunct2]
  note r5 = r4 [THEN conjunct2]
  note r6 = r5 [THEN conjunct2]
  note r7 = r6 [THEN conjunct2]
  note r8 = r7 [THEN conjunct2]
  note r9 = r8 [THEN conjunct2]
  note r10 = r9 [THEN conjunct2]
  note r11 = r10 [THEN conjunct2]
  note r12 = r11 [THEN conjunct2]
  note r13 = r12 [THEN conjunct2]
  note r14 = r13 [THEN conjunct2]
  note r15 = r14 [THEN conjunct2]
  note r16 = r15 [THEN conjunct2]
  note r17 = r16 [THEN conjunct2]
  note r18 = r17 [THEN conjunct2]
  note r19 = r18 [THEN conjunct2]
  note r20 = r19 [THEN conjunct2]
  note r21 = r20 [THEN conjunct2]
  note r22 = r21 [THEN conjunct2]
  note r23 = r22 [THEN conjunct2]
  note r24 = r23 [THEN conjunct2]
  note r25 = r24 [THEN conjunct2]
  have c1: "upsert_loop faulty_env ((0, (rows demo_df ! 0)) # [(1, rows demo_df ! 1)]) (init ([]
  :: point list)) = upsert_loop faulty_env [(1, rows demo_df ! 1)] ((snd (upsert_row faulty_env 0
  (rows demo_df ! 0) (init ([] :: point list))))\<lparr>trace := trace (snd (upsert_row faulty_env
  0 (rows demo_df ! 0) (init ([] :: point list)))) @ [EvPrint [Lit ''Failed to upsert row '',
  ArgInt 0, Lit '': '', ArgRow (rows demo_df ! 0)], EvPrint [Lit ''Exception: '', ArgExn (Exn
  ''UnexpectedResponse'')]]\<rparr>)"
    by (rule mp [OF t [THEN conjunct1]]) (intro conjI p1 p2)
  have c2: "upsert_loop faulty_env ((1, (rows demo_df ! 1)) # []) (init ([] :: point list)) = (Inl
  (BaseExn ''KeyboardInterrupt''), snd (upsert_row faulty_env 1 (rows demo_df ! 1) (init ([] ::
  point list))))"
    by (rule mp [OF r1 [THEN conjunct1]]) (intro conjI p3 p4)
  have c5: "fst (cell_extract faulty_env (init ([] :: point list))) = Inl (Exn
  ''FileNotFoundError'')"
    by (rule mp [OF r4 [THEN conjunct1]]) (intro conjI p7)
  have c6: "fst (cell_read_csv faulty_env (init ([] :: point list))) = Inl (Exn
  ''FileNotFoundError'')"
    by (rule mp [OF r5 [THEN conjunct1]]) (intro conjI p8)
  have c7: "fst (cell_parse faulty_env frame_no_title (init ([] :: point list))) = Inl (Exn
  ''AttributeError'')"
    by (rule mp [OF r6 [THEN conjunct1]]) (intro conjI p9)
  have c8: "fst (cell_parse faulty_env frame_bad_title (init ([] :: point list))) = Inl (Exn
  ''ValueError'')"
    by (rule mp [OF r7 [THEN conjunct1]]) (intro conjI p10 p11)
  have c9: "fst (cell_parse faulty_env frame_no_content (init ([] :: point list))) = Inl (Exn
  ''AttributeError'')"
    by (rule mp [OF r8 [THEN conjunct1]]) (intro conjI p12 p13 p14)
  have c10: "fst (cell_parse faulty_env frame_bad_content (init ([] :: point list))) = Inl (Exn
  ''ValueError'')"
    by (rule mp [OF r9 [THEN conjunct1]]) (intro conjI p15 p13 p17 p11)
  have c11: "fst (cell_parse faulty_env frame_no_vector_id (init ([] :: point list))) = Inl (Exn
  ''KeyError'')"
    by (rule mp [OF r10 [THEN conjunct1]]) (intro conjI p19 p13 p21 p22 p23)
  have c12: "fst (cell_client faulty_env (init ([] :: point list))) = Inl (Exn ''ValueError'')"
    by (rule mp [OF r11 [THEN conjunct1]]) (intro conjI p24)
  have c13: "fst (cell_get_collections faulty_env (init ([] :: point list))) = Inl (Exn
  ''ResponseHandlingException'')"
    by (rule mp [OF r12 [THEN conjunct1]]) (intro conjI p25)
  have c14: "fst (cell_recreate_collection faulty_env frame_no_rows (init ([] :: point list))) =
  Inl (Exn ''KeyError'')"
    by (rule mp [OF r13 [THEN conjunct1]]) (intro conjI p26)
  have c15: "fst (cell_recreate_collection faulty_env frame_empty_vector (init ([] :: point
  list))) = Inl (Exn ''ValidationError'')"
    by (rule mp [OF r14 [THEN conjunct1]]) (intro conjI p27 p28)
  have c16: "fst (cell_recreate_collection faulty_env demo_df (init ([] :: point list))) = Inl
  (Exn ''ResponseHandlingException'')"
    by (rule mp [OF r15 [THEN conjunct1]]) (intro conjI p29 p30 p31)
  have c17: "fst (cell_count faulty_env (init ([] :: point list))) = Inl (Exn
  ''ResponseHandlingException'')"
    by (rule mp [OF r16 [THEN conjunct1]]) (intro conjI p32)
  have c18: "fst (query_qdrant faulty_env (PyStr ''boom'') ''Articles'' None None (init ([] ::
  point list))) = Inl (Exn ''APIConnectionError'')"
    by (rule mp [OF r17 [THEN conjunct1]]) (intro conjI p33)
  have c19: "fst (query_qdrant faulty_env (PyStr []) ''Articles'' None None (init ([] :: point
  list))) = Inl (Exn ''IndexError'')"
    by (rule mp [OF r18 [THEN conjunct1]]) (intro conjI p34)
  have c20: "fst (query_qdrant faulty_env (PyStr ''modern art in Europe'') ''Articles'' (Some
  ''title'') None (init ([] :: point list))) = Inl (Exn ''UnexpectedResponse'')"
    by (rule mp [OF r19 [THEN conjunct1]]) (intro conjI p35 p36)
  have c21: "fst (cell_query faulty_env ''boom'' ''title'' (init ([] :: point list))) = Inl (Exn
  ''APIConnectionError'')"
    by (rule mp [OF r20 [THEN conjunct1]]) (intro conjI p37)
  have c22: "fst (cell_query faulty_env ''Famous battles in Scottish history'' ''content'' (init
  ([] :: point list))) = Inl (Exn ''TypeError'')"
    by (rule mp [OF r21 [THEN conjunct1]]) (intro conjI p38 p39)
  have c23: "fst (print_results 0 ([demo_hit (demo_points ! 0)] @ hit_no_payload # [hit_no_url])
  (init ([] :: point list))) = Inl (Exn ''TypeError'')"
    by (rule mp [OF r22 [THEN conjunct1]]) (intro conjI p40 p41)
  have c24: "fst (print_results 0 ([demo_hit (demo_points ! 0)] @ hit_no_url # []) (init ([] ::
  point list))) = Inl (Exn ''KeyError'')"
    by (rule mp [OF r23 [THEN conjunct1]]) (intro conjI p40 p43 p44)
  have c25: "fst (bind (cell_download faulty_env) (\<lambda>_. cell_extract faulty_env) (init ([]
  :: point list))) = Inl (Exn ''HTTPError'')"
    by (rule mp [OF r24 [THEN conjunct1]]) (intro conjI p45)
  have c26: "bind (cell_install faulty_env) (\<lambda>_. cell_download faulty_env) (init ([] ::
  point list)) = cell_download faulty_env (snd (cell_install faulty_env (init ([] :: point
  list))))"
    by (rule mp [OF r25]) (intro conjI p46)
  show ?thesis
    by (intro conjI p1 p2 p3 p4 p5 p6 p7 p8 p9 p10 p11 p12 p13 p14 p15 p17 p19 p21 p22 p23 p24 p25
    p26 p27 p28 p29 p30 p31 p32 p33 p34 p35 p36 p37 p38 p39 p40 p41 p43 p44 p45 p46 c1 c2 c5 c6 c7
    c8 c9 c10 c11 c12 c13 c14 c15 c16 c17 c18 c19 c20 c21 c22 c23 c24 c25 c26)
qed

section \<open>Which rows are pushed\<close>

lemma upsert_loop_world:
  "fst (upsert_loop env kvs s) = Inr () \<Longrightarrow>
   world (snd (upsert_loop env kvs s)) =
     foldl (\<lambda>w kv. row_world env (fst kv) (snd kv) w) (world s) kvs"
proof (induction kvs arbitrary: s)
  case Nil
  show ?case by (simp add: ret_def)
next
  case (Cons kv kvs)
  obtain k v where kv: "kv = (k, v)" by (cases kv)
  let ?s' = "\<lparr>world = row_world env k v (world s), trace = trace s @ row_events env k v (world s)\<rparr>"
  from Cons.prems have n: "row_escapes env k v (world s) = None"
    by (cases "row_escapes env k v (world s)")
       (simp_all add: kv upsert_loop_Cons del: upsert_loop.simps)
  with Cons.prems have "fst (upsert_loop env kvs ?s') = Inr ()"
    by (simp add: kv upsert_loop_Cons del: upsert_loop.simps)
  from Cons.IH [OF this] n show ?case
    by (simp add: kv upsert_loop_Cons del: upsert_loop.simps)
qed

lemma foldl_filter_if:
  "foldl (\<lambda>w x. if P x then g w x else w) w xs = foldl g w (filter P xs)"
  by (induction xs arbitrary: w) simp_all

lemma row_world_if:
  "row_world env k v w =
     (if builds env (k, v) then snd (upsert env ''Articles'' [projr (build_point env k v)] w) else w)"
  by (cases "build_point env k v") (simp_all add: row_world_def builds_def)

lemma foldl_row_world:
  "foldl (\<lambda>w kv. row_world env (fst kv) (snd kv) w) w kvs =
   foldl (\<lambda>w kv. snd (upsert env ''Articles'' [projr (build_point env (fst kv) (snd kv))] w)) w
     (filter (builds env) kvs)"
  by (simp add: row_world_if foldl_filter_if)

lemma upsert_loop_trace_mono: "set (trace s) \<subseteq> set (trace (snd (upsert_loop env kvs s)))"
  using upsert_loop_requests [of env kvs s] by auto

lemma upsert_loop_reports:
  assumes "fst (upsert_loop env kvs s) = Inr ()" and "(k, v) \<in> set kvs"
    and "build_point env k v = Inl e"
  shows "set (failure_lines k v e) \<subseteq> set (trace (snd (upsert_loop env kvs s)))"
  using assms
proof (induction kvs arbitrary: s)
  case Nil
  then show ?case by simp
next
  case (Cons kv' kvs)
  obtain k' v' where kv: "kv' = (k', v')" by (cases kv')
  let ?s' = "\<lparr>world = row_world env k' v' (world s),
              trace = trace s @ row_events env k' v' (world s)\<rparr>"
  from Cons.prems(1) have n: "row_escapes env k' v' (world s) = None"
    by (cases "row_escapes env k' v' (world s)")
       (simp_all add: kv upsert_loop_Cons del: upsert_loop.simps)
  with Cons.prems(1) have r: "fst (upsert_loop env kvs ?s') = Inr ()"
    by (simp add: kv upsert_loop_Cons del: upsert_loop.simps)
  have eq: "upsert_loop env (kv' # kvs) s = upsert_loop env kvs ?s'"
    using n by (simp add: kv upsert_loop_Cons del: upsert_loop.simps)
  show ?case
  proof (cases "(k, v) = (k', v')")
    case True
    with n Cons.prems(3) have "row_events env k' v' (world s) = failure_lines k v e"
      by (auto simp: row_escapes_def row_events_def split: if_splits)
    then have "set (failure_lines k v e) \<subseteq> set (trace ?s')"
      by simp
    also have "\<dots> \<subseteq> set (trace (snd (upsert_loop env kvs ?s')))"
      by (rule upsert_loop_trace_mono)
    finally show ?thesis
      unfolding eq .
  next
    case False
    with Cons.prems(2) have "(k, v) \<in> set kvs"
      by (auto simp: kv)
    from Cons.IH [OF r this Cons.prems(3)] show ?thesis
      unfolding eq .
  qed
qed

lemma row_escapes_source:
  assumes "row_escapes env k v w = Some e"
  shows "(\<exists>p. validate_point env p = Some e) \<or> (\<exists>c ps w'. fst (upsert env c ps w') = Inl e)"
proof (cases "build_point env k v")
  case (Inl x)
  with assms have x: "x = e" "\<not> is_Exception e"
    by (auto simp: row_escapes_def split: if_splits)
  from Inl have "\<exists>p. validate_point env p = Some x \<or> is_Exception x"
    by (auto simp: build_point_def bindE_def getitem_def PointStruct_def Let_def
          split: sum.splits option.splits)
  with x show ?thesis by auto
next
  case (Inr p)
  with assms have "fst (upsert env ''Articles'' [p] w) = Inl e"
    by (auto simp: row_escapes_def split: sum.splits if_splits)
  then show ?thesis by blast
qed

lemma upsert_loop_returns:
  assumes "\<And>c ps w' e. fst (upsert env c ps w') = Inl e \<Longrightarrow> is_Exception e"
    and "\<And>p e. validate_point env p = Some e \<Longrightarrow> is_Exception e"
  shows "fst (upsert_loop env kvs s) = Inr ()"
proof (induction kvs arbitrary: s)
  case Nil
  show ?case by (simp add: ret_def)
next
  case (Cons kv kvs)
  obtain k v where kv: "kv = (k, v)" by (cases kv)
  have "row_escapes env k v (world s) = None"
  proof (cases "row_escapes env k v (world s)")
    case (Some e)
    from row_escapes_source [OF Some] assms have "is_Exception e" by blast
    with row_escapes_not_Exception [OF Some] show ?thesis by simp
  qed simp
  with Cons show ?case
    by (simp add: kv upsert_loop_Cons del: upsert_loop.simps)
qed

lemma upsert_loop_passes:
  "\<exists>j\<le>length kvs.
     upsert_requests (trace (snd (upsert_loop env kvs s))) =
       upsert_requests (trace s) @ map (row_request env) (filter (builds env) (take j kvs)) \<and>
     world (snd (upsert_loop env kvs s)) =
       foldl (\<lambda>w kv. row_world env (fst kv) (snd kv) w) (world s) (take j kvs) \<and>
     (fst (upsert_loop env kvs s) = Inr () \<longrightarrow> j = length kvs) \<and>
     (isl (fst (upsert_loop env kvs s)) \<longrightarrow> 0 < j)"
proof (induction kvs arbitrary: s)
  case Nil
  show ?case by (simp add: ret_def)
next
  case (Cons kv kvs)
  obtain k v where kv: "kv = (k, v)" by (cases kv)
  let ?s' = "\<lparr>world = row_world env k v (world s), trace = trace s @ row_events env k v (world s)\<rparr>"
  show ?case
  proof (cases "row_escapes env k v (world s)")
    case None
    then have l: "upsert_loop env (kv # kvs) s = upsert_loop env kvs ?s'"
      by (simp add: kv upsert_loop_Cons del: upsert_loop.simps)
    from Cons [of ?s'] obtain j where j: "j \<le> length kvs"
      "upsert_requests (trace (snd (upsert_loop env kvs ?s'))) =
         upsert_requests (trace ?s') @ map (row_request env) (filter (builds env) (take j kvs))"
      "world (snd (upsert_loop env kvs ?s')) =
         foldl (\<lambda>w kv. row_world env (fst kv) (snd kv) w) (world ?s') (take j kvs)"
      "fst (upsert_loop env kvs ?s') = Inr () \<longrightarrow> j = length kvs"
      by blast
    show ?thesis
      using j unfolding l
      by (intro exI [of _ "Suc j"]) (simp add: kv upsert_requests_row_events)
  next
    case (Some e)
    then have l: "upsert_loop env (kv # kvs) s = (Inl e, ?s')"
      by (simp add: kv upsert_loop_Cons del: upsert_loop.simps)
    show ?thesis
      unfolding l
      by (intro exI [of _ "Suc 0"]) (simp add: kv upsert_requests_row_events)
  qed
qed


text \<open>
  C2 (amended). In every run of the upsert loop some number \<open>j\<close> of rows, from the first on,
  has been passed through, and exactly those among them that yield a point (the five
  columns exist and \<^verbatim>\<open>PointStruct\<close> accepts them) have been pushed to \<^verbatim>\<open>'Articles'\<close>,
  each by one call of the upsert of the service, in row order: the requests are these,
  and the world is what these calls make of it. When the loop runs to its end, \<open>j\<close> is
  the number of rows, and every row that yields no point has been reported. When an
  exception ends the loop, it is not an instance of \<^verbatim>\<open>Exception\<close> and the rows after
  the \<open>j\<close>-th are not pushed. The loop runs to its end whenever the service and the
  validation raise nothing but instances of \<^verbatim>\<open>Exception\<close>.
\<close>

theorem rows_that_yield_points_are_upserted:
  shows "(\<exists>j\<le>length (rows df).
            upsert_requests (trace (snd (cell_upsert env df (init w)))) =
              map (\<lambda>k. (''Articles'', [projr (build_point env (int k) (rows df ! k))]))
                (filter (\<lambda>k. \<not> isl (build_point env (int k) (rows df ! k))) [0..<j]) \<and>
            world (snd (cell_upsert env df (init w))) =
              foldl (\<lambda>w' k. snd (upsert env ''Articles''
                                   [projr (build_point env (int k) (rows df ! k))] w')) w
                (filter (\<lambda>k. \<not> isl (build_point env (int k) (rows df ! k))) [0..<j]) \<and>
            (fst (cell_upsert env df (init w)) = Inr () \<longrightarrow> j = length (rows df)) \<and>
            (\<forall>e. fst (cell_upsert env df (init w)) = Inl e \<longrightarrow> 0 < j \<and> \<not> is_Exception e)) \<and>
         (fst (cell_upsert env df (init w)) = Inr () \<longrightarrow>
            (\<forall>k<length (rows df). \<forall>e. build_point env (int k) (rows df ! k) = Inl e \<longrightarrow>
               EvPrint [Lit ''Failed to upsert row '', ArgInt (int k), Lit '': '', ArgRow (rows df ! k)]
                 \<in> set (trace (snd (cell_upsert env df (init w)))))) \<and>
         ((\<forall>c ps w' e. fst (upsert env c ps w') = Inl e \<longrightarrow> is_Exception e) \<and>
          (\<forall>p e. validate_point env p = Some e \<longrightarrow> is_Exception e) \<longrightarrow>
            fst (cell_upsert env df (init w)) = Inr ())"
proof (intro conjI impI allI)
  from upsert_loop_passes [of "iterrows df" env "init w"] obtain j where
    j: "j \<le> length (rows df)"
    and r: "upsert_requests (trace (snd (cell_upsert env df (init w)))) =
         map (row_request env) (filter (builds env) (take j (iterrows df)))"
    and u: "world (snd (cell_upsert env df (init w))) =
         foldl (\<lambda>w kv. row_world env (fst kv) (snd kv) w) w (take j (iterrows df))"
    and n: "fst (cell_upsert env df (init w)) = Inr () \<longrightarrow> j = length (rows df)"
    and p: "isl (fst (cell_upsert env df (init w))) \<longrightarrow> 0 < j"
    by (auto simp: cell_upsert_def init_def iterrows_eq)
  from j have t: "take j (iterrows df) = map (\<lambda>k. (int k, rows df ! k)) [0..<j]"
    by (simp add: iterrows_eq take_map)
  have f: "filter (builds env) (take j (iterrows df)) =
           map (\<lambda>k. (int k, rows df ! k))
             (filter (\<lambda>k. \<not> isl (build_point env (int k) (rows df ! k))) [0..<j])"
    by (simp add: t filter_map comp_def builds_def)
  have e: "\<forall>e. fst (cell_upsert env df (init w)) = Inl e \<longrightarrow> 0 < j \<and> \<not> is_Exception e"
    using p upsert_loop_escape [of env "iterrows df" "init w"] by (auto simp: cell_upsert_def)
  show "\<exists>j\<le>length (rows df).
            upsert_requests (trace (snd (cell_upsert env df (init w)))) =
              map (\<lambda>k. (''Articles'', [projr (build_point env (int k) (rows df ! k))]))
                (filter (\<lambda>k. \<not> isl (build_point env (int k) (rows df ! k))) [0..<j]) \<and>
            world (snd (cell_upsert env df (init w))) =
              foldl (\<lambda>w' k. snd (upsert env ''Articles''
                                   [projr (build_point env (int k) (rows df ! k))] w')) w
                (filter (\<lambda>k. \<not> isl (build_point env (int k) (rows df ! k))) [0..<j]) \<and>
            (fst (cell_upsert env df (init w)) = Inr () \<longrightarrow> j = length (rows df)) \<and>
            (\<forall>e. fst (cell_upsert env df (init w)) = Inl e \<longrightarrow> 0 < j \<and> \<not> is_Exception e)"
  proof (intro exI [of _ j] conjI)
    show "j \<le> length (rows df)"
      by (rule j)
    show "upsert_requests (trace (snd (cell_upsert env df (init w)))) =
              map (\<lambda>k. (''Articles'', [projr (build_point env (int k) (rows df ! k))]))
                (filter (\<lambda>k. \<not> isl (build_point env (int k) (rows df ! k))) [0..<j])"
      by (simp add: r f row_request_def comp_def)
    show "world (snd (cell_upsert env df (init w))) =
              foldl (\<lambda>w' k. snd (upsert env ''Articles''
                                   [projr (build_point env (int k) (rows df ! k))] w')) w
                (filter (\<lambda>k. \<not> isl (build_point env (int k) (rows df ! k))) [0..<j])"
      by (simp add: u foldl_row_world f foldl_map)
    show "fst (cell_upsert env df (init w)) = Inr () \<longrightarrow> j = length (rows df)"
      by (rule n)
    show "\<forall>e. fst (cell_upsert env df (init w)) = Inl e \<longrightarrow> 0 < j \<and> \<not> is_Exception e"
      by (rule e)
  qed
next
  fix k e
  assume r: "fst (cell_upsert env df (init w)) = Inr ()" and k: "k < length (rows df)"
    and b: "build_point env (int k) (rows df ! k) = Inl e"
  from r have 1: "fst (upsert_loop env (iterrows df) (init w)) = Inr ()"
    by (simp add: cell_upsert_def)
  from k have 2: "(int k, rows df ! k) \<in> set (iterrows df)"
    by (auto simp: iterrows_mem)
  from upsert_loop_reports [OF 1 2 b]
  show "EvPrint [Lit ''Failed to upsert row '', ArgInt (int k), Lit '': '', ArgRow (rows df ! k)]
          \<in> set (trace (snd (cell_upsert env df (init w))))"
    by (simp add: cell_upsert_def failure_lines_def)
next
  assume "(\<forall>c ps w' e. fst (upsert env c ps w') = Inl e \<longrightarrow> is_Exception e) \<and>
          (\<forall>p e. validate_point env p = Some e \<longrightarrow> is_Exception e)"
  then show "fst (cell_upsert env df (init w)) = Inr ()"
    unfolding cell_upsert_def by (intro upsert_loop_returns) blast+
qed

text \<open>
  C2 as stated fails: from a frame without the column \<^verbatim>\<open>url\<close> no row is pushed. Every
  pass raises \<^verbatim>\<open>KeyError\<close>, which the handler catches, and the loop ends normally
  with no request sent.
\<close>

theorem rows_without_url_are_not_upserted:
  "length (rows no_url_df) = 2 \<and>
   fst (cell_upsert demo_env no_url_df (init [])) = Inr () \<and>
   upsert_requests (trace (snd (cell_upsert demo_env no_url_df (init [])))) = [] \<and>
   world (snd (cell_upsert demo_env no_url_df (init []))) = []"
  by (simp add: cell_upsert_def upsert_row_def build_point_def PointStruct_def report_failure_def
        no_url_df_def prog_defs frame_defs demo_defs)

text \<open>
  C2, at concrete inputs. Of the frame with \<^verbatim>\<open>url\<close> missing in the second row, the first
  row is pushed and the second reported; of the frame of the small world both rows are
  pushed; where the service refuses every upsert the loop still runs to its end; and
  where the first upsert is interrupted, the second row is not pushed.
\<close>

theorem rows_that_yield_points_are_upserted_witness:
  "fst (cell_upsert demo_env half_df (init [])) = Inr () \<and>
   length (rows half_df) = 2 \<and>
   build_point demo_env 0 (rows half_df ! 0) = Inr (demo_points ! 0) \<and>
   build_point demo_env 1 (rows half_df ! 1) = Inl (Exn ''KeyError'') \<and>
   upsert_requests (trace (snd (cell_upsert demo_env half_df (init [])))) =
     [(''Articles'', [demo_points ! 0])] \<and>
   world (snd (cell_upsert demo_env half_df (init []))) = [demo_points ! 0] \<and>
   EvPrint [Lit ''Failed to upsert row '', ArgInt 1, Lit '': '', ArgRow (rows half_df ! 1)]
     \<in> set (trace (snd (cell_upsert demo_env half_df (init [])))) \<and>
   fst (cell_upsert demo_env demo_df (init [])) = Inr () \<and>
   upsert_requests (trace (snd (cell_upsert demo_env demo_df (init [])))) =
     [(''Articles'', [demo_points ! 0]), (''Articles'', [demo_points ! 1])] \<and>
   world (snd (cell_upsert demo_env demo_df (init []))) = demo_points \<and>
   fst (upsert refusing_env ''Articles'' [demo_points ! 0] []) = Inl (Exn ''UnexpectedResponse'') \<and>
   fst (cell_upsert refusing_env demo_df (init [])) = Inr () \<and>
   fst (cell_upsert interrupted_env demo_df (init [])) = Inl (BaseExn ''KeyboardInterrupt'') \<and>
   \<not> is_Exception (BaseExn ''KeyboardInterrupt'') \<and>
   upsert_requests (trace (snd (cell_upsert interrupted_env demo_df (init [])))) =
     [(''Articles'', [demo_points ! 0])]"
proof -
  have h: "fst (cell_upsert demo_env half_df (init [])) = Inr ()"
    by (simp add: cell_upsert_def upsert_row_def build_point_def PointStruct_def report_failure_def
          half_df_def prog_defs frame_defs demo_defs)
  have n: "length (rows half_df) = 2" "[0..<2] = [0, 1]"
    by (simp_all add: half_df_def upt_rec)
  have b: "build_point demo_env 0 (rows half_df ! 0) = Inr (demo_points ! 0)"
    "build_point demo_env 1 (rows half_df ! 1) = Inl (Exn ''KeyError'')"
    by (simp_all add: build_point_def PointStruct_def half_df_def prog_defs frame_defs demo_defs)
  have b': "build_point demo_env 1 (rows half_df ! Suc 0) = Inl (Exn ''KeyError'')"
    "build_point demo_env 1 (rows demo_df ! Suc 0) = Inr (demo_points ! 1)"
    using b(2) demo_builds(2) by simp_all
  have u: "snd (upsert demo_env ''Articles'' [demo_points ! 0] []) = [demo_points ! 0]"
    "snd (upsert demo_env ''Articles'' [demo_points ! 1] [demo_points ! 0]) = demo_points"
    "snd (upsert demo_env ''Articles'' [demo_points ! Suc 0] [demo_points ! 0]) = demo_points"
    by (simp_all add: demo_env_def demo_points_def)
  note t = rows_that_yield_points_are_upserted [of half_df demo_env "[]"]
  from t h n(1) obtain j where j: "j = 2"
    "upsert_requests (trace (snd (cell_upsert demo_env half_df (init [])))) =
       map (\<lambda>k. (''Articles'', [projr (build_point demo_env (int k) (rows half_df ! k))]))
         (filter (\<lambda>k. \<not> isl (build_point demo_env (int k) (rows half_df ! k))) [0..<j])"
    "world (snd (cell_upsert demo_env half_df (init []))) =
       foldl (\<lambda>w' k. snd (upsert demo_env ''Articles''
                            [projr (build_point demo_env (int k) (rows half_df ! k))] w')) []
         (filter (\<lambda>k. \<not> isl (build_point demo_env (int k) (rows half_df ! k))) [0..<j])"
    by auto
  from j(2) have req: "upsert_requests (trace (snd (cell_upsert demo_env half_df (init [])))) =
     [(''Articles'', [demo_points ! 0])]"
    by (simp add: j(1) n b b')
  from j(3) have wld: "world (snd (cell_upsert demo_env half_df (init []))) = [demo_points ! 0]"
    by (simp add: j(1) n b b' u)
  from t h have "\<forall>k<length (rows half_df). \<forall>e.
      build_point demo_env (int k) (rows half_df ! k) = Inl e \<longrightarrow>
      EvPrint [Lit ''Failed to upsert row '', ArgInt (int k), Lit '': '', ArgRow (rows half_df ! k)]
        \<in> set (trace (snd (cell_upsert demo_env half_df (init []))))"
    by blast
  from this [rule_format, of 1 "Exn ''KeyError''"] b(2) have rep:
    "EvPrint [Lit ''Failed to upsert row '', ArgInt 1, Lit '': '', ArgRow (rows half_df ! 1)]
       \<in> set (trace (snd (cell_upsert demo_env half_df (init []))))"
    by (simp add: n(1))
  have h': "fst (cell_upsert demo_env demo_df (init [])) = Inr ()"
    by (simp add: demo_upsert)
  have n': "length (rows demo_df) = 2"
    by (simp add: demo_df_def)
  note t' = rows_that_yield_points_are_upserted [of demo_df demo_env "[]"]
  from t' h' n' obtain j' where j': "j' = 2"
    "upsert_requests (trace (snd (cell_upsert demo_env demo_df (init [])))) =
       map (\<lambda>k. (''Articles'', [projr (build_point demo_env (int k) (rows demo_df ! k))]))
         (filter (\<lambda>k. \<not> isl (build_point demo_env (int k) (rows demo_df ! k))) [0..<j'])"
    "world (snd (cell_upsert demo_env demo_df (init []))) =
       foldl (\<lambda>w' k. snd (upsert demo_env ''Articles''
                            [projr (build_point demo_env (int k) (rows demo_df ! k))] w')) []
         (filter (\<lambda>k. \<not> isl (build_point demo_env (int k) (rows demo_df ! k))) [0..<j'])"
    by auto
  from j'(2) have req': "upsert_requests (trace (snd (cell_upsert demo_env demo_df (init [])))) =
     [(''Articles'', [demo_points ! 0]), (''Articles'', [demo_points ! 1])]"
    by (simp add: j'(1) n(2) demo_builds b')
  from j'(3) have wld': "world (snd (cell_upsert demo_env demo_df (init []))) = demo_points"
    by (simp add: j'(1) n(2) demo_builds b' u)
  have r1: "\<forall>c ps w' e. fst (upsert refusing_env c ps w') = Inl e \<longrightarrow> is_Exception e"
    by (simp add: refusing_env_def demo_env_def)
  have r2: "\<forall>p e. validate_point refusing_env p = Some e \<longrightarrow> is_Exception e"
    by (auto simp: refusing_env_def demo_env_def split: if_splits)
  have r3: "fst (upsert refusing_env ''Articles'' [demo_points ! 0] []) = Inl (Exn ''UnexpectedResponse'')"
    by (simp add: refusing_env_def demo_env_def)
  from rows_that_yield_points_are_upserted [of demo_df refusing_env "[]"] r1 r2
  have ret: "fst (cell_upsert refusing_env demo_df (init [])) = Inr ()"
    by blast
  have i: "fst (cell_upsert interrupted_env demo_df (init [])) = Inl (BaseExn ''KeyboardInterrupt'')"
    "upsert_requests (trace (snd (cell_upsert interrupted_env demo_df (init [])))) =
       [(''Articles'', [demo_points ! 0])]"
    by (simp_all add: cell_upsert_def upsert_row_def build_point_def PointStruct_def
          interrupted_env_def prog_defs frame_defs demo_defs upsert_requests_def)
  from rows_that_yield_points_are_upserted [of demo_df interrupted_env "[]"] i(1)
  have x: "\<not> is_Exception (BaseExn ''KeyboardInterrupt'')"
    by blast
  from h n(1) b req wld rep h' req' wld' r3 ret i x show ?thesis
    by simp
qed

section \<open>Point ids and the column \<^verbatim>\<open>vector_id\<close>\<close>

lemma build_point_ignores_vector_id:
  "build_point env k (AList.update ''vector_id'' x v) = build_point env k v"
  by (simp add: build_point_def getitem_update_other)

lemma requests_only_append [simp]:
  "requests_only (xs @ ys) = requests_only xs @ requests_only ys"
  by (simp add: requests_only_def)

lemma requests_only_failure_lines [simp]: "requests_only (failure_lines k v e) = []"
  by (simp add: requests_only_def failure_lines_def)

lemma requests_only_row_events:
  "requests_only (row_events env k (AList.update ''vector_id'' x v) w) =
   requests_only (row_events env k v w)"
  by (simp add: row_events_def build_point_ignores_vector_id requests_only_def
        failure_lines_def split: sum.splits)

lemma row_escapes_ignores_vector_id:
  "row_escapes env k (AList.update ''vector_id'' x v) w = row_escapes env k v w"
  by (simp add: row_escapes_def build_point_ignores_vector_id)

lemma row_world_ignores_vector_id:
  "row_world env k (AList.update ''vector_id'' x v) w = row_world env k v w"
  by (simp add: row_world_def build_point_ignores_vector_id)

lemma upsert_loop_ignores_vector_id:
  assumes "list_all2 same_but_vector_id kvs kvs'"
    and "world s' = world s" and "requests_only (trace s') = requests_only (trace s)"
  shows "fst (upsert_loop env kvs' s') = fst (upsert_loop env kvs s) \<and>
         world (snd (upsert_loop env kvs' s')) = world (snd (upsert_loop env kvs s)) \<and>
         requests_only (trace (snd (upsert_loop env kvs' s'))) =
         requests_only (trace (snd (upsert_loop env kvs s)))"
  using assms
proof (induction kvs kvs' arbitrary: s s' rule: list_all2_induct)
  case Nil
  then show ?case by (simp add: ret_def)
next
  case (Cons kv kvs kv' kvs')
  obtain k v where kv: "kv = (k, v)" by (cases kv)
  from Cons.hyps(1) obtain x where kv': "kv' = (k, AList.update ''vector_id'' x v)"
    by (cases kv') (auto simp: same_but_vector_id_def kv)
  let ?t = "\<lparr>world = row_world env k v (world s), trace = trace s @ row_events env k v (world s)\<rparr>"
  let ?t' = "\<lparr>world = row_world env k v (world s),
              trace = trace s' @ row_events env k (AList.update ''vector_id'' x v) (world s)\<rparr>"
  have step: "world ?t' = world ?t" "requests_only (trace ?t') = requests_only (trace ?t)"
    using Cons.prems by (simp_all add: requests_only_row_events)
  show ?case
  proof (cases "row_escapes env k v (world s)")
    case None
    from Cons.IH [OF step] None Cons.prems(1) show ?thesis
      by (simp add: kv kv' upsert_loop_Cons row_escapes_ignores_vector_id
            row_world_ignores_vector_id del: upsert_loop.simps)
  next
    case (Some e)
    with step Cons.prems(1) show ?thesis
      by (simp add: kv kv' upsert_loop_Cons row_escapes_ignores_vector_id
            row_world_ignores_vector_id del: upsert_loop.simps)
  qed
qed

lemma iterrows_set_column:
  assumes "length xs = length (rows df)"
  shows "list_all2 same_but_vector_id (iterrows df) (iterrows (set_column df ''vector_id'' xs))"
  using assms
  by (auto simp: list_all2_conv_all_nth iterrows_eq set_column_def same_but_vector_id_def)

lemma cell_upsert_ignores_vector_id:
  assumes "length xs = length (rows df)"
  shows "fst (cell_upsert env (set_column df ''vector_id'' xs) s) = fst (cell_upsert env df s) \<and>
         world (snd (cell_upsert env (set_column df ''vector_id'' xs) s)) =
         world (snd (cell_upsert env df s)) \<and>
         requests_only (trace (snd (cell_upsert env (set_column df ''vector_id'' xs) s))) =
         requests_only (trace (snd (cell_upsert env df s)))"
  unfolding cell_upsert_def
  by (rule upsert_loop_ignores_vector_id [OF iterrows_set_column [OF assms]]) simp_all

lemma vector_size_ignores_vector_id:
  "length xs = length (rows df) \<Longrightarrow>
   vector_size (set_column df ''vector_id'' xs) = vector_size df"
  by (simp add: vector_size_def get_column_set_column_other)

text \<open>
  C8 (amended). The id of a point sent to the collection is the label of its row, its
  position in the frame, whatever the columns \<^verbatim>\<open>id\<close> and \<^verbatim>\<open>vector_id\<close> hold. After
  parsing, \<^verbatim>\<open>vector_id\<close> is part of no request: with any other content of that column
  the collection is created by the same request, and the upsert loop ends the same way,
  leaves the same world and sends the same requests. The column is read only where a
  whole row or frame is shown to the user.
\<close>

theorem point_id_is_row_index:
  shows "(EvUpsert c ps \<in> set (trace (snd (cell_upsert env df (init w)))) \<longrightarrow>
            (\<exists>k p. k < length (rows df) \<and> ps = [p] \<and> point_id p = int k \<and>
                   build_point env (int k) (rows df ! k) = Inr p)) \<and>
         (build_point env i v = Inr q \<longrightarrow> point_id q = i) \<and>
         build_point env i (AList.update ''vector_id'' x v) = build_point env i v \<and>
         (length xs = length (rows df) \<longrightarrow>
            cell_recreate_collection env (set_column df ''vector_id'' xs) =
              cell_recreate_collection env df \<and>
            fst (cell_upsert env (set_column df ''vector_id'' xs) s) = fst (cell_upsert env df s) \<and>
            world (snd (cell_upsert env (set_column df ''vector_id'' xs) s)) =
              world (snd (cell_upsert env df s)) \<and>
            requests_only (trace (snd (cell_upsert env (set_column df ''vector_id'' xs) s))) =
              requests_only (trace (snd (cell_upsert env df s))))"
proof (intro conjI impI)
  assume "EvUpsert c ps \<in> set (trace (snd (cell_upsert env df (init w))))"
  from cell_upsert_event [OF this] obtain k p where
    k: "k < length (rows df)" "build_point env (int k) (rows df ! k) = Inr p" "ps = [p]"
    by blast
  from build_point_Inr [OF k(2)] have "point_id p = int k"
    by auto
  with k show "\<exists>k p. k < length (rows df) \<and> ps = [p] \<and> point_id p = int k \<and>
                   build_point env (int k) (rows df ! k) = Inr p"
    by blast
next
  assume "build_point env i v = Inr q"
  from build_point_Inr [OF this] show "point_id q = i"
    by auto
next
  show "build_point env i (AList.update ''vector_id'' x v) = build_point env i v"
    by (rule build_point_ignores_vector_id)
next
  assume "length xs = length (rows df)"
  then show "cell_recreate_collection env (set_column df ''vector_id'' xs) =
              cell_recreate_collection env df"
    by (simp add: cell_recreate_collection_def vector_size_ignores_vector_id)
next
  assume "length xs = length (rows df)"
  from cell_upsert_ignores_vector_id [OF this]
  show "fst (cell_upsert env (set_column df ''vector_id'' xs) s) = fst (cell_upsert env df s)"
    by blast
next
  assume "length xs = length (rows df)"
  from cell_upsert_ignores_vector_id [OF this]
  show "world (snd (cell_upsert env (set_column df ''vector_id'' xs) s)) =
              world (snd (cell_upsert env df s))"
    by blast
next
  assume "length xs = length (rows df)"
  from cell_upsert_ignores_vector_id [OF this]
  show "requests_only (trace (snd (cell_upsert env (set_column df ''vector_id'' xs) s))) =
              requests_only (trace (snd (cell_upsert env df s)))"
    by blast
qed

lemma refused_upsert:
  "trace (snd (cell_upsert refusing_env demo_df (init []))) =
     [EvUpsert ''Articles'' [demo_points ! 0],
      EvPrint [Lit ''Failed to upsert row '', ArgInt 0, Lit '': '', ArgRow (rows demo_df ! 0)],
      EvPrint [Lit ''Exception: '', ArgExn (Exn ''UnexpectedResponse'')],
      EvUpsert ''Articles'' [demo_points ! 1],
      EvPrint [Lit ''Failed to upsert row '', ArgInt 1, Lit '': '', ArgRow (rows demo_df ! 1)],
      EvPrint [Lit ''Exception: '', ArgExn (Exn ''UnexpectedResponse'')]]"
  by (simp add: cell_upsert_def upsert_row_def build_point_def PointStruct_def report_failure_def
        refusing_env_def prog_defs frame_defs demo_defs)

text \<open>
  C8 as stated fails: when the upsert of a row fails, the row is printed, and with it
  its \<^verbatim>\<open>vector_id\<close>; another \<^verbatim>\<open>vector_id\<close> gives another trace.
\<close>

theorem failure_message_shows_vector_id:
  "EvPrint [Lit ''Failed to upsert row '', ArgInt 0, Lit '': '', ArgRow (rows demo_df ! 0)]
     \<in> set (trace (snd (cell_upsert refusing_env demo_df (init [])))) \<and>
   map_of (rows demo_df ! 0) ''vector_id'' = Some (PyStr ''0'') \<and>
   trace (snd (cell_upsert refusing_env (set_column demo_df ''vector_id'' [PyStr ''7'', PyStr ''8''])
                 (init []))) \<noteq>
   trace (snd (cell_upsert refusing_env demo_df (init [])))"
  by (simp add: cell_upsert_def upsert_row_def build_point_def PointStruct_def report_failure_def
        refusing_env_def prog_defs frame_defs demo_defs)

text \<open>
  C8, at a concrete input. In the small world the first row has \<^verbatim>\<open>id\<close> 1 and \<^verbatim>\<open>vector_id\<close> \<^verbatim>\<open>'0'\<close>; its point
  has id 0, the label of the row.
\<close>

theorem point_id_is_row_index_witness:
  "EvUpsert ''Articles'' [demo_points ! 0]
     \<in> set (trace (snd (cell_upsert demo_env demo_df (init [])))) \<and>
   build_point demo_env 0 (rows demo_df ! 0) = Inr (demo_points ! 0) \<and>
   point_id (demo_points ! 0) = 0 \<and>
   getitem (rows demo_df ! 0) ''id'' = Inr (PyInt 1) \<and>
   getitem (rows demo_df ! 0) ''vector_id'' = Inr (PyStr ''0'') \<and>
   length [PyStr ''7'', PyStr ''8''] = length (rows demo_df) \<and>
   requests_only (trace (snd (cell_upsert demo_env
       (set_column demo_df ''vector_id'' [PyStr ''7'', PyStr ''8'']) (init [])))) =
   requests_only (trace (snd (cell_upsert demo_env demo_df (init []))))"
proof -
  have a: "EvUpsert ''Articles'' [demo_points ! 0]
     \<in> set (trace (snd (cell_upsert demo_env demo_df (init []))))"
    by (simp add: demo_upsert)
  have b: "build_point demo_env 0 (rows demo_df ! 0) = Inr (demo_points ! 0)"
    by (rule demo_builds)
  have c: "length [PyStr ''7'', PyStr ''8''] = length (rows demo_df)"
    by (simp add: demo_df_def)
  have d: "getitem (rows demo_df ! 0) ''id'' = Inr (PyInt 1)"
      "getitem (rows demo_df ! 0) ''vector_id'' = Inr (PyStr ''0'')"
    by (simp_all add: frame_defs demo_defs)
  from point_id_is_row_index
         [where env = demo_env and df = demo_df and w = "[]" and c = "''Articles''"
            and ps = "[demo_points ! 0]" and i = 0 and v = "rows demo_df ! 0"
            and q = "demo_points ! 0" and xs = "[PyStr ''7'', PyStr ''8'']" and s = "init []"]
       a b c d
  show ?thesis by simp
qed

section \<open>Parsing the vector columns\<close>

lemma mapM_Inr_map: "(\<And>x. x \<in> set xs \<Longrightarrow> f x = Inr (g x)) \<Longrightarrow> mapM f xs = Inr (map g xs)"
  by (induction xs) simp_all

lemma map2_same: "map (\<lambda>(v, x). F v x) (zip xs (map g xs)) = map (\<lambda>v. F v (g v)) xs"
  by (induction xs) simp_all

lemma apply_column_total:
  assumes "c \<in> set (columns df)"
    and "\<And>v. v \<in> set (rows df) \<Longrightarrow> \<exists>x y. getitem v c = Inr x \<and> f x = Inr y"
  shows "apply_column missing c fname f df s =
           (Inr \<lparr>columns = columns df,
                 rows = map (\<lambda>v. AList.update c (projr (f (projr (getitem v c)))) v) (rows df)\<rparr>,
            s\<lparr>trace := trace s @ [EvApply c fname]\<rparr>)"
proof -
  have 1: "getitem v c = Inr (projr (getitem v c))" if "v \<in> set (rows df)" for v
    using assms(2) [OF that] by auto
  have 2: "f (projr (getitem v c)) = Inr (projr (f (projr (getitem v c))))"
    if "v \<in> set (rows df)" for v
    using assms(2) [OF that] by auto
  have g: "get_column missing df c = Inr (map (\<lambda>v. projr (getitem v c)) (rows df))"
    unfolding get_column_def using assms(1) 1 by (simp add: mapM_Inr_map)
  have m: "mapM f (map (\<lambda>v. projr (getitem v c)) (rows df))
           = Inr (map (\<lambda>v. projr (f (projr (getitem v c)))) (rows df))"
    unfolding mapM_map using 2 by (rule mapM_Inr_map)
  show ?thesis
    using assms(1) by (simp add: apply_column_def g m set_column_def map2_same ret_def)
qed

lemma schema_row:
  assumes "loaded_schema env df" and "v \<in> set (rows df)"
  shows "map fst v = article_columns"
    and "\<exists>x y. getitem v ''title_vector'' = Inr x \<and> literal_eval env x = Inr y \<and> is_float_list y"
    and "\<exists>x y. getitem v ''content_vector'' = Inr x \<and> literal_eval env x = Inr y \<and> is_float_list y"
    and "\<exists>x. getitem v ''vector_id'' = Inr x"
proof -
  from assms have k: "map fst v = article_columns"
    and t: "vector_text env v ''title_vector''" and c: "vector_text env v ''content_vector''"
    by (auto simp: loaded_schema_def list_all_iff)
  show "map fst v = article_columns" by (rule k)
  from t show "\<exists>x y. getitem v ''title_vector'' = Inr x \<and> literal_eval env x = Inr y \<and> is_float_list y"
    by (auto simp: vector_text_def split: sum.splits)
  from c show "\<exists>x y. getitem v ''content_vector'' = Inr x \<and> literal_eval env x = Inr y \<and> is_float_list y"
    by (auto simp: vector_text_def split: sum.splits)
  have "''vector_id'' \<in> set (map fst v)"
    unfolding k by (simp add: article_columns_def)
  then have "''vector_id'' \<in> fst ` set v"
    by simp
  then show "\<exists>x. getitem v ''vector_id'' = Inr x"
    by (cases "map_of v ''vector_id''") (auto simp: getitem_def map_of_eq_None_iff)
qed

lemma cell_parse_total:
  assumes "loaded_schema env df"
  shows "cell_parse env df s =
           (Inr \<lparr>columns = columns df, rows = map (parsed_row env) (rows df)\<rparr>,
            s\<lparr>trace := trace s @ [EvApply ''title_vector'' ''literal_eval'',
                                   EvApply ''content_vector'' ''literal_eval'',
                                   EvApply ''vector_id'' ''str'']\<rparr>)"
proof -
  have cols: "columns df = article_columns"
    using assms by (simp add: loaded_schema_def)
  define u1 where "u1 = (\<lambda>v. AList.update ''title_vector''
                    (projr (literal_eval env (projr (getitem v ''title_vector'')))) v)"
  define u2 where "u2 = (\<lambda>v. AList.update ''content_vector''
                    (projr (literal_eval env (projr (getitem v ''content_vector'')))) v)"
  define u3 where "u3 = (\<lambda>v. AList.update ''vector_id''
                    (projr (Inr (PyStr (py_str env (projr (getitem v ''vector_id'')))) :: exn + pyval)) v)"
  define df1 where "df1 = \<lparr>columns = columns df, rows = map u1 (rows df)\<rparr>"
  define df2 where "df2 = \<lparr>columns = columns df, rows = map u2 (map u1 (rows df))\<rparr>"
  define df3 where "df3 = \<lparr>columns = columns df, rows = map u3 (map u2 (map u1 (rows df)))\<rparr>"
  have m1: "''title_vector'' \<in> set (columns df)"
    by (simp add: cols article_columns_def)
  have p1: "\<exists>x y. getitem v ''title_vector'' = Inr x \<and> literal_eval env x = Inr y"
    if "v \<in> set (rows df)" for v
    using schema_row(2) [OF assms that] by blast
  have a1: "apply_column (Exn ''AttributeError'') ''title_vector'' ''literal_eval'' (literal_eval env) df s'
            = (Inr df1, s'\<lparr>trace := trace s' @ [EvApply ''title_vector'' ''literal_eval'']\<rparr>)" for s'
    unfolding df1_def u1_def using m1 p1 by (rule apply_column_total)
  have m2: "''content_vector'' \<in> set (columns df1)"
    by (simp add: df1_def cols article_columns_def)
  have p2: "\<exists>x y. getitem v ''content_vector'' = Inr x \<and> literal_eval env x = Inr y"
    if "v \<in> set (rows df1)" for v
  proof -
    from that obtain v0 where v0: "v0 \<in> set (rows df)" "v = u1 v0"
      by (auto simp: df1_def)
    have "getitem v ''content_vector'' = getitem v0 ''content_vector''"
      by (simp add: v0(2) u1_def getitem_update_other)
    with schema_row(3) [OF assms v0(1)] show ?thesis by auto
  qed
  have a2: "apply_column (Exn ''AttributeError'') ''content_vector'' ''literal_eval'' (literal_eval env) df1 s'
            = (Inr df2, s'\<lparr>trace := trace s' @ [EvApply ''content_vector'' ''literal_eval'']\<rparr>)" for s'
  proof -
    have "df2 = \<lparr>columns = columns df1, rows = map u2 (rows df1)\<rparr>"
      by (simp add: df2_def df1_def)
    then show ?thesis
      unfolding u2_def using apply_column_total [OF m2 p2] by simp
  qed
  have m3: "''vector_id'' \<in> set (columns df2)"
    by (simp add: df2_def cols article_columns_def)
  have p3: "\<exists>x y. getitem v ''vector_id'' = Inr x \<and> (Inr (PyStr (py_str env x)) :: exn + pyval) = Inr y"
    if "v \<in> set (rows df2)" for v
  proof -
    from that obtain v0 where v0: "v0 \<in> set (rows df)" "v = u2 (u1 v0)"
      by (auto simp: df2_def)
    have "getitem v ''vector_id'' = getitem v0 ''vector_id''"
      by (simp add: v0(2) u1_def u2_def getitem_update_other)
    with schema_row(4) [OF assms v0(1)] show ?thesis by auto
  qed
  have a3: "apply_column (Exn ''KeyError'') ''vector_id'' ''str''
              (\<lambda>x. Inr (PyStr (py_str env x))) df2 s'
            = (Inr df3, s'\<lparr>trace := trace s' @ [EvApply ''vector_id'' ''str'']\<rparr>)" for s'
  proof -
    have "df3 = \<lparr>columns = columns df2, rows = map u3 (rows df2)\<rparr>"
      by (simp add: df3_def df2_def)
    then show ?thesis
      unfolding u3_def using apply_column_total [OF m3 p3] by simp
  qed
  have "u3 (u2 (u1 v)) = parsed_row env v" for v
    by (simp add: parsed_row_def u1_def u2_def u3_def getitem_update_other)
  then have rows: "df3 = \<lparr>columns = columns df, rows = map (parsed_row env) (rows df)\<rparr>"
    by (simp add: df3_def)
  show ?thesis
    unfolding cell_parse_def by (simp add: bind_def a1 a2 a3 rows)
qed

lemma parsed_row_keys:
  assumes "map fst v = article_columns"
  shows "map fst (parsed_row env v) = article_columns"
proof -
  have "''title_vector'' \<in> set (map fst v)" "''content_vector'' \<in> set (map fst v)"
       "''vector_id'' \<in> set (map fst v)"
    unfolding assms by (simp_all add: article_columns_def)
  then show ?thesis
    unfolding parsed_row_def by (simp add: update_keys assms)
qed

lemma parsed_row_cells:
  "getitem (parsed_row env v) ''title_vector''
     = Inr (projr (literal_eval env (projr (getitem v ''title_vector''))))"
  "getitem (parsed_row env v) ''content_vector''
     = Inr (projr (literal_eval env (projr (getitem v ''content_vector''))))"
  "getitem (parsed_row env v) ''vector_id'' = Inr (PyStr (py_str env (projr (getitem v ''vector_id''))))"
  "getitem (parsed_row env v) ''id'' = getitem v ''id''"
  "getitem (parsed_row env v) ''url'' = getitem v ''url''"
  "getitem (parsed_row env v) ''title'' = getitem v ''title''"
  "getitem (parsed_row env v) ''text'' = getitem v ''text''"
  by (simp_all add: parsed_row_def getitem_update_other getitem_update_same)

text \<open>
  C6. The data set as loaded has exactly the seven columns \<^verbatim>\<open>id\<close>, \<^verbatim>\<open>url\<close>,
  \<^verbatim>\<open>title\<close>, \<^verbatim>\<open>text\<close>, \<^verbatim>\<open>title_vector\<close>, \<^verbatim>\<open>content_vector\<close>, \<^verbatim>\<open>vector_id\<close>,
  the two vector columns holding the text of lists of floats. On such a frame the parsing
  cell returns: the frame it yields has the same seven columns and as many rows, and in
  every row the two vector columns hold the lists of floats \<^verbatim>\<open>literal_eval\<close> reads from
  the text, \<^verbatim>\<open>vector_id\<close> holds the string \<^verbatim>\<open>str\<close> makes of the old cell, and
  \<^verbatim>\<open>id\<close>, \<^verbatim>\<open>url\<close>, \<^verbatim>\<open>title\<close> and \<^verbatim>\<open>text\<close> are as before.
\<close>

theorem parsing_cell_converts_vector_columns:
  assumes "loaded_schema env df"
  shows "\<exists>df'. fst (cell_parse env df s) = Inr df' \<and>
           columns df' = article_columns \<and>
           length (rows df') = length (rows df) \<and>
           (\<forall>k<length (rows df).
              map fst (rows df' ! k) = article_columns \<and>
              (\<exists>x y. getitem (rows df ! k) ''title_vector'' = Inr x \<and> literal_eval env x = Inr y \<and>
                     getitem (rows df' ! k) ''title_vector'' = Inr y \<and> is_float_list y) \<and>
              (\<exists>x y. getitem (rows df ! k) ''content_vector'' = Inr x \<and> literal_eval env x = Inr y \<and>
                     getitem (rows df' ! k) ''content_vector'' = Inr y \<and> is_float_list y) \<and>
              (\<exists>x. getitem (rows df ! k) ''vector_id'' = Inr x \<and>
                   getitem (rows df' ! k) ''vector_id'' = Inr (PyStr (py_str env x))) \<and>
              getitem (rows df' ! k) ''id'' = getitem (rows df ! k) ''id'' \<and>
              getitem (rows df' ! k) ''url'' = getitem (rows df ! k) ''url'' \<and>
              getitem (rows df' ! k) ''title'' = getitem (rows df ! k) ''title'' \<and>
              getitem (rows df' ! k) ''text'' = getitem (rows df ! k) ''text'')"
proof -
  let ?df' = "\<lparr>columns = columns df, rows = map (parsed_row env) (rows df)\<rparr>"
  have r: "fst (cell_parse env df s) = Inr ?df'"
    by (simp add: cell_parse_total [OF assms])
  have c: "columns ?df' = article_columns"
    using assms by (simp add: loaded_schema_def)
  have row: "map fst (rows ?df' ! k) = article_columns \<and>
              (\<exists>x y. getitem (rows df ! k) ''title_vector'' = Inr x \<and> literal_eval env x = Inr y \<and>
                     getitem (rows ?df' ! k) ''title_vector'' = Inr y \<and> is_float_list y) \<and>
              (\<exists>x y. getitem (rows df ! k) ''content_vector'' = Inr x \<and> literal_eval env x = Inr y \<and>
                     getitem (rows ?df' ! k) ''content_vector'' = Inr y \<and> is_float_list y) \<and>
              (\<exists>x. getitem (rows df ! k) ''vector_id'' = Inr x \<and>
                   getitem (rows ?df' ! k) ''vector_id'' = Inr (PyStr (py_str env x))) \<and>
              getitem (rows ?df' ! k) ''id'' = getitem (rows df ! k) ''id'' \<and>
              getitem (rows ?df' ! k) ''url'' = getitem (rows df ! k) ''url'' \<and>
              getitem (rows ?df' ! k) ''title'' = getitem (rows df ! k) ''title'' \<and>
              getitem (rows ?df' ! k) ''text'' = getitem (rows df ! k) ''text''"
    if k: "k < length (rows df)" for k
  proof -
    have v: "rows df ! k \<in> set (rows df)"
      using k by simp
    have n: "rows ?df' ! k = parsed_row env (rows df ! k)"
      using k by simp
    from schema_row(2) [OF assms v] obtain x y where
      t: "getitem (rows df ! k) ''title_vector'' = Inr x" "literal_eval env x = Inr y" "is_float_list y"
      by blast
    from schema_row(3) [OF assms v] obtain x' y' where
      c: "getitem (rows df ! k) ''content_vector'' = Inr x'" "literal_eval env x' = Inr y'"
         "is_float_list y'"
      by blast
    from schema_row(4) [OF assms v] obtain z where
      z: "getitem (rows df ! k) ''vector_id'' = Inr z"
      by blast
    show ?thesis
      unfolding n
      by (simp add: parsed_row_keys [OF schema_row(1) [OF assms v]] parsed_row_cells t c z)
  qed
  show ?thesis
    by (rule exI [of _ ?df']) (use r c row in simp)
qed

lemma demo_schema: "loaded_schema demo_env demo_csv"
  by (simp add: loaded_schema_def vector_text_def frame_defs demo_defs)

text \<open>C6, at a concrete input. The small frame has the schema, and parsing it gives the frame of the small world.\<close>

theorem parsing_cell_converts_vector_columns_witness:
  "loaded_schema demo_env demo_csv \<and>
   fst (cell_parse demo_env demo_csv (init [])) = Inr demo_df \<and>
   (\<exists>df'. fst (cell_parse demo_env demo_csv (init [])) = Inr df' \<and>
      columns df' = article_columns \<and>
      getitem (rows df' ! 0) ''title_vector'' = Inr (PyList [PyFloat 1 (- 1), PyFloat 1 (- 2)]) \<and>
      getitem (rows df' ! 0) ''vector_id'' = Inr (PyStr ''0'') \<and>
      getitem (rows df' ! 0) ''text'' = getitem (rows demo_csv ! 0) ''text'')"
proof -
  have h: "loaded_schema demo_env demo_csv"
    by (simp add: loaded_schema_def vector_text_def frame_defs demo_defs)
  have n: "0 < length (rows demo_csv)"
    by (simp add: demo_csv_def)
  have cells: "getitem (rows demo_csv ! 0) ''title_vector'' = Inr (PyStr ''[0.5, 0.25]'')"
    "literal_eval demo_env (PyStr ''[0.5, 0.25]'') = Inr (PyList [PyFloat 1 (- 1), PyFloat 1 (- 2)])"
    "getitem (rows demo_csv ! 0) ''vector_id'' = Inr (PyInt 0)"
    "py_str demo_env (PyInt 0) = ''0''"
    by (simp_all add: frame_defs demo_defs)
  have e: "fst (cell_parse demo_env demo_csv (init [])) = Inr demo_df"
    by (simp add: cell_parse_def apply_column_def prog_defs frame_defs demo_defs)
  from parsing_cell_converts_vector_columns [OF h, of "init []"] obtain df' where
    d: "fst (cell_parse demo_env demo_csv (init [])) = Inr df'" "columns df' = article_columns"
    and r: "\<forall>k<length (rows demo_csv).
              map fst (rows df' ! k) = article_columns \<and>
              (\<exists>x y. getitem (rows demo_csv ! k) ''title_vector'' = Inr x \<and> literal_eval demo_env x = Inr y \<and>
                     getitem (rows df' ! k) ''title_vector'' = Inr y \<and> is_float_list y) \<and>
              (\<exists>x y. getitem (rows demo_csv ! k) ''content_vector'' = Inr x \<and> literal_eval demo_env x = Inr y \<and>
                     getitem (rows df' ! k) ''content_vector'' = Inr y \<and> is_float_list y) \<and>
              (\<exists>x. getitem (rows demo_csv ! k) ''vector_id'' = Inr x \<and>
                   getitem (rows df' ! k) ''vector_id'' = Inr (PyStr (py_str demo_env x))) \<and>
              getitem (rows df' ! k) ''id'' = getitem (rows demo_csv ! k) ''id'' \<and>
              getitem (rows df' ! k) ''url'' = getitem (rows demo_csv ! k) ''url'' \<and>
              getitem (rows df' ! k) ''title'' = getitem (rows demo_csv ! k) ''title'' \<and>
              getitem (rows df' ! k) ''text'' = getitem (rows demo_csv ! k) ''text''"
    by blast
  from r n cells have
    "getitem (rows df' ! 0) ''title_vector'' = Inr (PyList [PyFloat 1 (- 1), PyFloat 1 (- 2)])"
    "getitem (rows df' ! 0) ''vector_id'' = Inr (PyStr ''0'')"
    "getitem (rows df' ! 0) ''text'' = getitem (rows demo_csv ! 0) ''text''"
    by auto
  with h e d show ?thesis
    by blast
qed

section \<open>The order of the steps, proved\<close>

lemma remaining_append:
  "remaining ps (xs @ ys) = (case remaining ps xs of None \<Rightarrow> None | Some ps' \<Rightarrow> remaining ps' ys)"
  by (induction ps xs rule: remaining.induct) simp_all

lemma stages_snoc:
  "stages (t @ [ev]) = stages t @ (case stage_of ev of None \<Rightarrow> [] | Some k \<Rightarrow> [k])"
  by (simp add: stages_def map_filter_def split: option.splits)

lemma remaining_one:
  "j \<le> n \<Longrightarrow> n < length P \<Longrightarrow> \<exists>j'\<le>n. remaining (drop j P) [P ! n] = Some (drop j' P)"
proof (induction "n - j" arbitrary: j)
  case 0
  then have "j = n" by simp
  with 0 show ?case
    by (auto simp: Cons_nth_drop_Suc [symmetric] intro!: exI [of _ n])
next
  case (Suc d)
  then have j: "j < n" "j < length P" by simp_all
  have d: "drop j P = P ! j # drop (Suc j) P"
    using j(2) by (simp add: Cons_nth_drop_Suc)
  show ?case
  proof (cases "P ! n = P ! j")
    case True
    with d j show ?thesis
      by (auto intro!: exI [of _ j])
  next
    case False
    have "d = n - Suc j" "Suc j \<le> n"
      using Suc(2) j(1) by simp_all
    from Suc(1) [OF this Suc(4)] obtain j' where "j' \<le> n"
      "remaining (drop (Suc j) P) [P ! n] = Some (drop j' P)"
      by blast
    with False d show ?thesis
      by auto
  qed
qed

lemma upto_stage_snoc: "in_stage n ev \<Longrightarrow> upto_stage n t \<Longrightarrow> upto_stage n (t @ [ev])"
  unfolding upto_stage_def in_stage_def
  by (auto simp: stages_snoc remaining_append dest: remaining_one)

lemma upto_stage_mono: "n \<le> m \<Longrightarrow> upto_stage n t \<Longrightarrow> upto_stage m t"
  unfolding upto_stage_def by (meson le_trans)

lemma upto_stage_follows: "upto_stage n t \<Longrightarrow> follows actual_order (stages t)"
  by (auto simp: upto_stage_def follows_def)

lemma upto_stage_Nil: "upto_stage 0 []"
  by (simp add: upto_stage_def stages_def map_filter_def)

lemma stage_ret: "hoare (upto_stage n) (ret x) (upto_stage n)"
  by (rule hoare_ret)

lemma stage_lift: "hoare (upto_stage n) (lift r) (upto_stage n)"
  by (rule hoare_lift)

lemma stage_emit: "in_stage n ev \<Longrightarrow> hoare (upto_stage n) (emit ev) (upto_stage n)"
  by (rule hoare_emit) (rule upto_stage_snoc)

lemma stage_call: "in_stage n ev \<Longrightarrow> hoare (upto_stage n) (call ev f) (upto_stage n)"
  by (rule hoare_call) (rule upto_stage_snoc)

lemma stage_bind:
  "hoare (upto_stage n) m (upto_stage n) \<Longrightarrow> (\<And>x. hoare (upto_stage n) (f x) (upto_stage n)) \<Longrightarrow>
   hoare (upto_stage n) (bind m f) (upto_stage n)"
  by (rule hoare_bind)

lemma stage_try:
  "hoare (upto_stage n) m (upto_stage n) \<Longrightarrow> (\<And>e. hoare (upto_stage n) (h e) (upto_stage n)) \<Longrightarrow>
   hoare (upto_stage n) (try_except m h) (upto_stage n)"
  by (rule hoare_try)

lemma stage_enter:
  "hoare (upto_stage a) p (upto_stage b) \<Longrightarrow> a' \<le> a \<Longrightarrow> hoare (upto_stage a') p (upto_stage b)"
  by (erule hoare_weaken) (auto intro: upto_stage_mono)

lemma stage_seq:
  assumes "hoare (upto_stage a) m (upto_stage b)"
    and "\<And>x. hoare (upto_stage b) (f x) (upto_stage c)" and "b \<le> c"
  shows "hoare (upto_stage a) (bind m f) (upto_stage c)"
  using assms(1,2) by (rule hoare_bind) (rule upto_stage_mono [OF assms(3)])

lemmas stage_rules = stage_ret stage_lift stage_emit stage_call stage_bind stage_try

lemma sh_stage: "hoare (upto_stage n) (sh env cmd) (upto_stage n)"
  unfolding sh_def by (rule stage_call) (simp add: in_stage_def)

lemma cell_install_stage: "hoare (upto_stage n) (cell_install env) (upto_stage n)"
  unfolding cell_install_def by (rule sh_stage)

lemma cell_download_stage: "hoare (upto_stage 0) (cell_download env) (upto_stage 0)"
  unfolding cell_download_def
  by (intro stage_rules) (simp_all add: in_stage_def actual_order_def)

lemma cell_extract_stage: "hoare (upto_stage 1) (cell_extract env) (upto_stage 1)"
  unfolding cell_extract_def
  by (intro stage_rules) (simp_all add: in_stage_def actual_order_def)

lemma cell_read_csv_stage: "hoare (upto_stage 2) (cell_read_csv env) (upto_stage 2)"
  unfolding cell_read_csv_def
  by (intro stage_rules) (simp_all add: in_stage_def actual_order_def)

lemma cell_head_stage: "hoare (upto_stage n) (cell_head df) (upto_stage n)"
  unfolding cell_head_def
  by (intro stage_rules) (simp_all add: in_stage_def)

lemma apply_column_stage: "hoare (upto_stage 3) (apply_column missing c fname f df) (upto_stage 3)"
  unfolding apply_column_def
  by (intro stage_rules) (simp_all add: in_stage_def actual_order_def)

lemma cell_parse_stage: "hoare (upto_stage 3) (cell_parse env df) (upto_stage 3)"
  unfolding cell_parse_def
  by (intro stage_bind apply_column_stage)

lemma cell_info_stage: "hoare (upto_stage n) (cell_info df) (upto_stage n)"
  unfolding cell_info_def
  by (intro stage_rules) (simp_all add: in_stage_def)

lemma cell_docker_stage: "hoare (upto_stage n) (cell_docker env) (upto_stage n)"
  unfolding cell_docker_def by (rule sh_stage)

lemma cell_client_stage: "hoare (upto_stage n) (cell_client env) (upto_stage n)"
  unfolding cell_client_def
  by (intro stage_rules) (simp_all add: in_stage_def)

lemma cell_get_collections_stage: "hoare (upto_stage n) (cell_get_collections env) (upto_stage n)"
  unfolding cell_get_collections_def
  by (intro stage_rules) (simp_all add: in_stage_def)

lemma cell_recreate_collection_stage:
  "hoare (upto_stage 4) (cell_recreate_collection env df) (upto_stage 4)"
  unfolding cell_recreate_collection_def
  by (intro stage_rules) (simp_all add: in_stage_def actual_order_def)

lemma upsert_row_stage: "hoare (upto_stage 5) (upsert_row env k v) (upto_stage 5)"
  unfolding upsert_row_def
  by (intro stage_rules) (simp_all add: in_stage_def actual_order_def)

lemma report_failure_stage: "hoare (upto_stage n) (report_failure k v e) (upto_stage n)"
  unfolding report_failure_def
  by (intro stage_rules) (simp_all add: in_stage_def)

lemma upsert_loop_stage: "hoare (upto_stage 5) (upsert_loop env kvs) (upto_stage 5)"
proof (induction kvs)
  case Nil
  show ?case by (simp add: stage_ret)
next
  case (Cons kv kvs)
  obtain k v where "kv = (k, v)" by (cases kv)
  with Cons show ?case
    by (simp add: stage_bind stage_try upsert_row_stage report_failure_stage)
qed

lemma cell_upsert_stage: "hoare (upto_stage 5) (cell_upsert env df) (upto_stage 5)"
  unfolding cell_upsert_def by (rule upsert_loop_stage)

lemma cell_count_stage: "hoare (upto_stage n) (cell_count env) (upto_stage n)"
  unfolding cell_count_def
  by (intro stage_rules) (simp_all add: in_stage_def)

lemma query_qdrant_stage:
  assumes "n = 6 \<or> n = 8"
  shows "hoare (upto_stage n) (query_qdrant env q cn vn k) (upto_stage n)"
  unfolding query_qdrant_def Let_def
  using assms by (intro stage_rules) (auto simp: in_stage_def actual_order_def)

lemma print_results_stage:
  assumes "n = 7 \<or> n = 9"
  shows "hoare (upto_stage n) (print_results i rs) (upto_stage n)"
proof (induction rs arbitrary: i)
  case Nil
  show ?case by (simp add: stage_ret)
next
  case (Cons r rs)
  have "in_stage n (EvPrint [ArgInt (int i + 1), Lit ''. '', ArgVal t, Lit '', URL: '', ArgVal u,
                          Lit '' (Score: '', ArgRound (sp_score r) 3, Lit '')''])" for t u
    using assms by (auto simp: in_stage_def actual_order_def)
  with Cons show ?case
    by (simp add: stage_bind stage_lift stage_emit)
qed

lemma cell_query_stage:
  assumes "n = 6 \<or> n = 8"
  shows "hoare (upto_stage n) (cell_query env q vn) (upto_stage (Suc n))"
  unfolding cell_query_def
proof (rule stage_seq)
  show "hoare (upto_stage n) (query_qdrant env (PyStr q) ''Articles'' (Some vn) None) (upto_stage n)"
    by (rule query_qdrant_stage [OF assms])
  have "Suc n = 7 \<or> Suc n = 9"
    using assms by auto
  then have "hoare (upto_stage (Suc n)) (print_results 0 rs) (upto_stage (Suc n))" for rs
    by (rule print_results_stage)
  then show "hoare (upto_stage n) (print_results 0 rs) (upto_stage (Suc n))" for rs
    by (rule stage_enter) simp
  show "n \<le> Suc n" by simp
qed

lemma notebook_stage: "hoare (upto_stage 0) (notebook env) (upto_stage 9)"
proof -
  have q2: "hoare (upto_stage 7) (cell_query env q vn) (upto_stage 9)" for q vn
    using cell_query_stage [of 8 env q vn] by (auto intro: stage_enter)
  have q1: "hoare (upto_stage 5) (cell_query env q vn) (upto_stage 7)" for q vn
    using cell_query_stage [of 6 env q vn] by (auto intro: stage_enter)
  have up: "hoare (upto_stage 4) (cell_upsert env df) (upto_stage 5)" for df
    by (rule stage_enter [OF cell_upsert_stage]) simp
  have cr: "hoare (upto_stage 3) (cell_recreate_collection env df) (upto_stage 4)" for df
    by (rule stage_enter [OF cell_recreate_collection_stage]) simp
  have pa: "hoare (upto_stage 2) (cell_parse env df) (upto_stage 3)" for df
    by (rule stage_enter [OF cell_parse_stage]) simp
  have rd: "hoare (upto_stage 1) (cell_read_csv env) (upto_stage 2)"
    by (rule stage_enter [OF cell_read_csv_stage]) simp
  have ex: "hoare (upto_stage 0) (cell_extract env) (upto_stage 1)"
    by (rule stage_enter [OF cell_extract_stage]) simp
  show ?thesis
    unfolding notebook_def
    by (rule stage_seq [OF cell_install_stage] stage_seq [OF cell_download_stage]
          stage_seq [OF ex] stage_seq [OF rd] stage_seq [OF cell_head_stage]
          stage_seq [OF pa] stage_seq [OF cell_info_stage] stage_seq [OF cell_docker_stage]
          stage_seq [OF cell_client_stage] stage_seq [OF cell_get_collections_stage]
          stage_seq [OF cr] stage_seq [OF cell_recreate_collection_stage]
          stage_seq [OF up] stage_seq [OF cell_count_stage] stage_seq [OF q1] q2
        | simp)+
qed

lemma notebook_split:
  "notebook env =
     bind (before_queries env) (\<lambda>_.
     bind (cell_query env ''modern art in Europe'' ''title'') (\<lambda>_.
     cell_query env ''Famous battles in Scottish history'' ''content''))"
  by (simp add: notebook_def before_queries_def bind_assoc)

lemma print_results_trace:
  "trace (snd (print_results i rs s)) = trace s @ result_lines i rs \<and>
   world (snd (print_results i rs s)) = world s \<and>
   (fst (print_results i rs s) = Inr () \<longleftrightarrow> length (result_lines i rs) = length rs)"
proof (induction rs arbitrary: i s)
  case Nil
  show ?case by (simp add: ret_def)
next
  case (Cons a rs)
  show ?case
  proof (cases "payload_get a ''title''")
    case (Inl e)
    then show ?thesis by simp
  next
    case t: (Inr t)
    show ?thesis
    proof (cases "payload_get a ''url''")
      case (Inl e)
      with t show ?thesis by simp
    next
      case (Inr u)
      with t Cons [of "Suc i" "s\<lparr>trace := trace s @ [result_line i a t u]\<rparr>"]
      show ?thesis
        by (simp add: result_line_def)
    qed
  qed
qed

lemma cell_query_trace:
  "trace (snd (cell_query env q vn s)) = trace s @ query_events env q vn (world s)"
proof (cases "embeddings_create env (PyStr q) EMBEDDING_MODEL (world s)")
  case (Pair r w1)
  show ?thesis
  proof (cases r)
    case (Inl e)
    with Pair show ?thesis
      by (simp add: cell_query_def bind_def query_qdrant_unfold query_events_def)
  next
    case (Inr data)
    show ?thesis
    proof (cases data)
      case Nil
      with Pair Inr show ?thesis
        by (simp add: cell_query_def bind_def query_qdrant_unfold query_events_def)
    next
      case (Cons d ds)
      obtain r2 w2 where s2: "search env ''Articles'' (vn, d) 20 None w1 = (r2, w2)"
        by (cases "search env ''Articles'' (vn, d) 20 None w1")
      show ?thesis
      proof (cases r2)
        case (Inl e)
        with Pair Inr Cons s2 show ?thesis
          by (simp add: cell_query_def bind_def query_qdrant_unfold query_events_def
                vector_name_of_def top_k_of_def)
      next
        case rs: (Inr rs)
        with Pair Inr Cons s2 show ?thesis
          by (simp add: cell_query_def bind_def query_qdrant_unfold query_events_def
                vector_name_of_def top_k_of_def print_results_trace)
      qed
    qed
  qed
qed

lemma cell_query_returns:
  assumes "fst (cell_query env q vn s) = Inr ()"
  shows "\<exists>d ds w1 rs.
           embeddings_create env (PyStr q) EMBEDDING_MODEL (world s) = (Inr (d # ds), w1) \<and>
           fst (search env ''Articles'' (vn, d) 20 None w1) = Inr rs \<and>
           query_events env q vn (world s) =
             [EvEmbed (PyStr q) EMBEDDING_MODEL, EvSearch ''Articles'' (vn, d) 20 None] @
             result_lines 0 rs \<and>
           length (result_lines 0 rs) = length rs"
proof (cases "embeddings_create env (PyStr q) EMBEDDING_MODEL (world s)")
  case (Pair r w1)
  show ?thesis
  proof (cases r)
    case (Inl e)
    with Pair assms show ?thesis
      by (simp add: cell_query_def bind_def query_qdrant_unfold)
  next
    case (Inr data)
    show ?thesis
    proof (cases data)
      case Nil
      with Pair Inr assms show ?thesis
        by (simp add: cell_query_def bind_def query_qdrant_unfold)
    next
      case (Cons d ds)
      obtain r2 w2 where s2: "search env ''Articles'' (vn, d) 20 None w1 = (r2, w2)"
        by (cases "search env ''Articles'' (vn, d) 20 None w1")
      show ?thesis
      proof (cases r2)
        case (Inl e)
        with Pair Inr Cons s2 assms show ?thesis
          by (simp add: cell_query_def bind_def query_qdrant_unfold
                vector_name_of_def top_k_of_def)
      next
        case rs: (Inr rs)
        with Pair Inr Cons s2 assms have "length (result_lines 0 rs) = length rs"
          by (simp add: cell_query_def bind_def query_qdrant_unfold
                vector_name_of_def top_k_of_def print_results_trace)
        with Pair Inr Cons s2 rs show ?thesis
          by (simp add: query_events_def)
      qed
    qed
  qed
qed

lemma notebook_trace:
  "trace (snd (notebook env s)) =
     trace (snd (before_queries env s)) @
     (if fst (before_queries env s) = Inr () then
        query_events env ''modern art in Europe'' ''title'' (world (snd (before_queries env s))) @
        (if fst (cell_query env ''modern art in Europe'' ''title'' (snd (before_queries env s))) = Inr ()
         then query_events env ''Famous battles in Scottish history'' ''content''
                (world (snd (cell_query env ''modern art in Europe'' ''title''
                   (snd (before_queries env s)))))
         else [])
      else [])"
proof (cases "fst (before_queries env s)")
  case (Inl e)
  then show ?thesis
    by (simp add: notebook_split bind_raises)
next
  case (Inr u)
  let ?s0 = "snd (before_queries env s)"
  let ?c1 = "cell_query env ''modern art in Europe'' ''title''"
  have n: "notebook env s =
           bind ?c1 (\<lambda>_. cell_query env ''Famous battles in Scottish history'' ''content'') ?s0"
    using Inr by (simp add: notebook_split bind_returns)
  show ?thesis
  proof (cases "fst (?c1 ?s0)")
    case (Inl e)
    with Inr show ?thesis
      by (simp add: n bind_raises cell_query_trace)
  next
    case c: (Inr u')
    with Inr show ?thesis
      by (simp add: n bind_returns cell_query_trace)
  qed
qed

lemma stages_append: "stages (a @ b) = stages a @ stages b"
  by (simp add: stages_def map_filter_def)

lemma stages_Nil: "stages [] = []"
  by (simp add: stages_def map_filter_def)

lemma stages_single: "stages [ev] = (case stage_of ev of None \<Rightarrow> [] | Some k \<Rightarrow> [k])"
  by (simp add: stages_def map_filter_def split: option.splits)

lemma performs_ret: "performs (ret x) (exactly [])"
  by (simp add: performs_def exactly_def ret_def)

lemma performs_lift: "performs (lift r) (exactly [])"
  by (simp add: performs_def exactly_def lift_def)

lemma performs_emit: "performs (emit ev) (exactly (stages [ev]))"
  by (simp add: performs_def exactly_def emit_def stages_append)

lemma performs_call: "performs (call ev f) (exactly (stages [ev]))"
  by (auto simp: performs_def exactly_def call_def stages_append split: prod.splits)

lemma performs_weaken: "performs p S \<Longrightarrow> (\<And>L. S L \<Longrightarrow> T L) \<Longrightarrow> performs p T"
  unfolding performs_def by blast

lemma performs_bind:
  assumes m: "performs m S" and f: "\<And>x. performs (f x) T"
  shows "performs (bind m f) (then_steps S T)"
  unfolding performs_def
proof
  fix s
  from m obtain La ks1 where a: "S La"
    "stages (trace (snd (m s))) = stages (trace s) @ ks1"
    "if isl (fst (m s)) then prefix ks1 La else ks1 = La"
    unfolding performs_def by blast
  show "\<exists>L ks. then_steps S T L \<and> stages (trace (snd (bind m f s))) = stages (trace s) @ ks \<and>
          (if isl (fst (bind m f s)) then prefix ks L else ks = L)"
  proof (cases "fst (m s)")
    case (Inl e)
    from f [of undefined] obtain Lb where "T Lb"
      unfolding performs_def by blast
    with a have "then_steps S T (La @ Lb)"
      unfolding then_steps_def by blast
    moreover from Inl have "snd (bind m f s) = snd (m s) \<and> isl (fst (bind m f s))"
      by (cases "m s") (simp add: bind_def)
    moreover from Inl a have "prefix ks1 (La @ Lb)"
      by (simp add: prefix_prefix)
    ultimately show ?thesis
      using a Inl by (intro exI [of _ "La @ Lb"] exI [of _ ks1]) simp
  next
    case (Inr x)
    from f [of x] obtain Lb ks2 where b: "T Lb"
      "stages (trace (snd (f x (snd (m s))))) = stages (trace (snd (m s))) @ ks2"
      "if isl (fst (f x (snd (m s)))) then prefix ks2 Lb else ks2 = Lb"
      unfolding performs_def by blast
    from Inr have e: "bind m f s = f x (snd (m s))"
      by (cases "m s") (simp add: bind_def)
    from Inr a have k: "ks1 = La"
      by simp
    from a b have "then_steps S T (La @ Lb)"
      unfolding then_steps_def by blast
    then show ?thesis
      using a b e k by (intro exI [of _ "La @ Lb"] exI [of _ "La @ ks2"]) (simp split: if_splits)
  qed
qed

lemma then_steps_exactly: "then_steps (exactly a) (exactly b) = exactly (a @ b)"
  by (auto simp: then_steps_def exactly_def fun_eq_iff)

lemma then_steps_repeated: "then_steps (repeated k) (repeated k) L \<Longrightarrow> repeated k L"
  unfolding then_steps_def repeated_def by (metis replicate_add)

lemma exactly_Nil_repeated: "exactly [] L \<Longrightarrow> repeated k L"
  unfolding exactly_def repeated_def by (metis replicate_0)

lemma performs_exactly:
  "performs m (exactly a) \<Longrightarrow> (\<And>x. performs (f x) (exactly b)) \<Longrightarrow> performs (bind m f) (exactly (a @ b))"
  using performs_bind [of m "exactly a" f "exactly b"] by (simp add: then_steps_exactly)

lemma performs_repeated:
  "performs m (repeated k) \<Longrightarrow> (\<And>x. performs (f x) (repeated k)) \<Longrightarrow> performs (bind m f) (repeated k)"
  by (rule performs_weaken [OF performs_bind then_steps_repeated])

lemma performs_emit_none: "stage_of ev = None \<Longrightarrow> performs (emit ev) (exactly [])"
  using performs_emit [of ev] by (simp add: stages_single)

lemma performs_emit_stage: "stage_of ev = Some k \<Longrightarrow> performs (emit ev) (exactly [k])"
  using performs_emit [of ev] by (simp add: stages_single)

lemma performs_call_none: "stage_of ev = None \<Longrightarrow> performs (call ev f) (exactly [])"
  using performs_call [of ev f] by (simp add: stages_single)

lemma performs_call_stage: "stage_of ev = Some k \<Longrightarrow> performs (call ev f) (exactly [k])"
  using performs_call [of ev f] by (simp add: stages_single)

lemmas performs_rules = performs_bind performs_ret performs_lift performs_emit_none
  performs_call_none

lemma sh_performs: "performs (sh env cmd) (exactly [])"
  unfolding sh_def by (rule performs_call_none) simp

lemma cell_install_performs: "performs (cell_install env) (exactly [])"
  unfolding cell_install_def by (rule sh_performs)

lemma cell_download_performs: "performs (cell_download env) (exactly [Download])"
  unfolding cell_download_def
  by (rule performs_weaken)
     ((rule performs_rules performs_call_stage [where k = Download]
       | simp add: then_steps_def exactly_def)+)

lemma cell_extract_performs: "performs (cell_extract env) (exactly [Extract])"
  unfolding cell_extract_def by (rule performs_call_stage) simp

lemma cell_read_csv_performs: "performs (cell_read_csv env) (exactly [Load])"
  unfolding cell_read_csv_def by (rule performs_call_stage) simp

lemma cell_head_performs: "performs (cell_head df) (exactly [])"
  unfolding cell_head_def by (rule performs_emit_none) simp

lemma apply_column_performs: "performs (apply_column missing c fname f df) (exactly [Parse])"
  unfolding apply_column_def
  by (rule performs_weaken)
     ((rule performs_rules performs_emit_stage [where k = Parse]
       | simp add: then_steps_def exactly_def)+)

lemma cell_parse_performs: "performs (cell_parse env df) (exactly [Parse, Parse, Parse])"
  unfolding cell_parse_def
  by (rule performs_weaken)
     ((rule performs_bind apply_column_performs
       | simp add: then_steps_def exactly_def)+)

lemma cell_info_performs: "performs (cell_info df) (exactly [])"
  unfolding cell_info_def by (rule performs_emit_none) simp

lemma cell_docker_performs: "performs (cell_docker env) (exactly [])"
  unfolding cell_docker_def by (rule sh_performs)

lemma cell_client_performs: "performs (cell_client env) (exactly [])"
  unfolding cell_client_def by (rule performs_call_none) simp

lemma cell_get_collections_performs: "performs (cell_get_collections env) (exactly [])"
  unfolding cell_get_collections_def
  by (rule performs_weaken)
     ((rule performs_rules
       | simp add: then_steps_def exactly_def)+)

lemma cell_recreate_collection_performs:
  "performs (cell_recreate_collection env df) (exactly [Create])"
  unfolding cell_recreate_collection_def
  by (rule performs_weaken)
     ((rule performs_rules performs_call_stage [where k = Create]
       | simp add: then_steps_def exactly_def)+)

lemma upsert_pass_performs:
  "performs (try_except (upsert_row env k v) (report_failure k v)) (repeated Upsert)"
proof -
  have "\<exists>L ks. (L = [] \<or> L = [Upsert]) \<and>
          stages (trace (snd (try_except (upsert_row env k v) (report_failure k v) s))) =
            stages (trace s) @ ks \<and>
          (if isl (fst (try_except (upsert_row env k v) (report_failure k v) s))
           then prefix ks L else ks = L)" for s :: "'a state"
  proof (cases "build_point env k v")
    case (Inl e)
    then show ?thesis
      by (auto simp: upsert_row_def report_failure_def prog_defs stages_def map_filter_def)
  next
    case (Inr p)
    obtain r w' where u: "upsert env ''Articles'' [p] (world s) = (r, w')"
      by (cases "upsert env ''Articles'' [p] (world s)")
    show ?thesis
    proof (cases r)
      case (Inl e)
      with Inr u show ?thesis
        by (auto simp: upsert_row_def report_failure_def prog_defs stages_def map_filter_def)
    next
      case r: (Inr x)
      with Inr u show ?thesis
        by (auto simp: upsert_row_def report_failure_def prog_defs stages_def map_filter_def)
    qed
  qed
  then have "performs (try_except (upsert_row env k v) (report_failure k v))
               (\<lambda>L. L = [] \<or> L = [Upsert])"
    unfolding performs_def by blast
  then show ?thesis
  proof (rule performs_weaken)
    fix L :: "stage list"
    assume "L = [] \<or> L = [Upsert]"
    then have "L = replicate 0 Upsert \<or> L = replicate 1 Upsert"
      by simp
    then show "repeated Upsert L"
      unfolding repeated_def by blast
  qed
qed

lemma upsert_loop_performs: "performs (upsert_loop env kvs) (repeated Upsert)"
proof (induction kvs)
  case Nil
  show ?case
    by (simp add: performs_weaken [OF performs_ret exactly_Nil_repeated])
next
  case (Cons kv kvs)
  obtain k v where kv: "kv = (k, v)"
    by (cases kv)
  show ?case
    unfolding kv upsert_loop.simps
    by (rule performs_repeated [OF upsert_pass_performs Cons])
qed

lemma cell_upsert_performs: "performs (cell_upsert env df) (repeated Upsert)"
  unfolding cell_upsert_def by (rule upsert_loop_performs)

lemma cell_count_performs: "performs (cell_count env) (exactly [])"
  unfolding cell_count_def
  by (rule performs_weaken)
     ((rule performs_rules
       | simp add: then_steps_def exactly_def)+)

lemma before_queries_performs:
  "performs (before_queries env) (\<lambda>L. \<exists>n. L = indexing_steps n)"
  unfolding before_queries_def
  by (rule performs_weaken)
     ((rule performs_bind cell_install_performs cell_download_performs cell_extract_performs cell_read_csv_performs cell_head_performs cell_parse_performs cell_info_performs cell_docker_performs cell_client_performs cell_get_collections_performs cell_recreate_collection_performs cell_upsert_performs cell_count_performs
       | auto simp: then_steps_def exactly_def repeated_def indexing_steps_def)+)

lemma query_qdrant_performs: "performs (query_qdrant env q cn vn k) (exactly [Query, Query])"
  unfolding query_qdrant_def Let_def
  by (rule performs_weaken)
     ((rule performs_rules performs_call_stage [where k = Query]
       | simp add: then_steps_def exactly_def)+)

lemma print_results_performs: "performs (print_results i rs) (repeated PrintResults)"
proof (induction rs arbitrary: i)
  case Nil
  show ?case
    by (simp add: performs_weaken [OF performs_ret exactly_Nil_repeated])
next
  case (Cons a rs)
  have l: "performs (lift r) (repeated PrintResults)" for r :: "exn + pyval"
    by (rule performs_weaken [OF performs_lift exactly_Nil_repeated])
  have e: "performs (emit (EvPrint (ArgInt j # fs))) (repeated PrintResults)" for j fs
  proof (rule performs_weaken [OF performs_emit_stage [where k = PrintResults]])
    show "stage_of (EvPrint (ArgInt j # fs)) = Some PrintResults"
      by simp
    fix L
    assume "exactly [PrintResults] L"
    then have "L = replicate 1 PrintResults"
      by (simp add: exactly_def)
    then show "repeated PrintResults L"
      unfolding repeated_def by blast
  qed
  show ?case
    unfolding print_results.simps
    by (intro performs_repeated l e Cons)
qed

lemma cell_query_performs: "performs (cell_query env q vn) (\<lambda>L. \<exists>m. L = query_steps m)"
  unfolding cell_query_def
  by (rule performs_weaken)
     ((rule performs_bind query_qdrant_performs print_results_performs
       | auto simp: then_steps_def exactly_def repeated_def query_steps_def)+)

lemma notebook_performs:
  "performs (notebook env)
     (\<lambda>L. \<exists>n m k. L = indexing_steps n @ query_steps m @ query_steps k)"
  unfolding notebook_split
  by (rule performs_weaken)
     ((rule performs_bind before_queries_performs cell_query_performs
       | auto simp: then_steps_def)+)

text \<open>
  C3 (amended). The steps come in the order download, extract, load, parse, create the
  collection, upsert, first query, print its results, second query, print its results,
  and no step is followed by one that comes before it. Up to the count of the
  collection the steps of a run are download, extract, load, three times parse, twice
  create, then the upserts: all of these when the cells return, a prefix of them when
  one raises, and no query or result line among them. The run then goes on with the
  events of the first query cell and, only if that cell returns, with those of the
  second. The events of a query cell are the embeddings call for its query, the search
  in its vector and the result lines; a query cell that returns has printed one line
  for each result of its search. A complete run has every step: those before the
  queries, then two query calls and the lines of the first query, then two query calls
  and the lines of the second.
\<close>

theorem notebook_steps_in_order:
  "follows actual_order (stages (trace (snd (notebook env (init w))))) \<and>
   (\<exists>n. prefix (stages (trace (snd (before_queries env (init w))))) (indexing_steps n) \<and>
        (fst (before_queries env (init w)) = Inr () \<longrightarrow>
         stages (trace (snd (before_queries env (init w)))) = indexing_steps n)) \<and>
   trace (snd (notebook env (init w))) =
     trace (snd (before_queries env (init w))) @
     (if fst (before_queries env (init w)) = Inr () then
        query_events env ''modern art in Europe'' ''title''
          (world (snd (before_queries env (init w)))) @
        (if fst (cell_query env ''modern art in Europe'' ''title''
                   (snd (before_queries env (init w)))) = Inr ()
         then query_events env ''Famous battles in Scottish history'' ''content''
                (world (snd (cell_query env ''modern art in Europe'' ''title''
                   (snd (before_queries env (init w))))))
         else [])
      else []) \<and>
   trace (snd (cell_query env q vn s)) = trace s @ query_events env q vn (world s) \<and>
   (fst (cell_query env q vn s) = Inr () \<longrightarrow>
      (\<exists>d ds w1 rs.
         embeddings_create env (PyStr q) EMBEDDING_MODEL (world s) = (Inr (d # ds), w1) \<and>
         fst (search env ''Articles'' (vn, d) 20 None w1) = Inr rs \<and>
         query_events env q vn (world s) =
           [EvEmbed (PyStr q) EMBEDDING_MODEL, EvSearch ''Articles'' (vn, d) 20 None] @
           result_lines 0 rs \<and>
         length (result_lines 0 rs) = length rs)) \<and>
   (\<exists>n m k.
      prefix (stages (trace (snd (notebook env (init w)))))
        (indexing_steps n @ query_steps m @ query_steps k) \<and>
      (fst (notebook env (init w)) = Inr () \<longrightarrow>
       stages (trace (snd (notebook env (init w)))) =
         indexing_steps n @ query_steps m @ query_steps k))"
proof (intro conjI)
  have "upto_stage 0 (trace (init w))"
    by (simp add: init_def upto_stage_Nil)
  then have "upto_stage 9 (trace (snd (notebook env (init w))))"
    by (rule hoareD [OF notebook_stage])
  then show "follows actual_order (stages (trace (snd (notebook env (init w)))))"
    by (rule upto_stage_follows)
next
  have e: "stages (trace (init w)) = []"
    by (simp add: init_def stages_Nil)
  from before_queries_performs [of env] obtain L ks where
    "\<exists>n. L = indexing_steps n"
    "stages (trace (snd (before_queries env (init w)))) = stages (trace (init w)) @ ks"
    "if isl (fst (before_queries env (init w))) then prefix ks L else ks = L"
    unfolding performs_def by blast
  then show "\<exists>n. prefix (stages (trace (snd (before_queries env (init w))))) (indexing_steps n) \<and>
        (fst (before_queries env (init w)) = Inr () \<longrightarrow>
         stages (trace (snd (before_queries env (init w)))) = indexing_steps n)"
    by (auto simp: e split: if_splits)
next
  show "trace (snd (notebook env (init w))) =
     trace (snd (before_queries env (init w))) @
     (if fst (before_queries env (init w)) = Inr () then
        query_events env ''modern art in Europe'' ''title''
          (world (snd (before_queries env (init w)))) @
        (if fst (cell_query env ''modern art in Europe'' ''title''
                   (snd (before_queries env (init w)))) = Inr ()
         then query_events env ''Famous battles in Scottish history'' ''content''
                (world (snd (cell_query env ''modern art in Europe'' ''title''
                   (snd (before_queries env (init w))))))
         else [])
      else [])"
    by (rule notebook_trace)
next
  show "trace (snd (cell_query env q vn s)) = trace s @ query_events env q vn (world s)"
    by (rule cell_query_trace)
next
  show "fst (cell_query env q vn s) = Inr () \<longrightarrow>
      (\<exists>d ds w1 rs.
         embeddings_create env (PyStr q) EMBEDDING_MODEL (world s) = (Inr (d # ds), w1) \<and>
         fst (search env ''Articles'' (vn, d) 20 None w1) = Inr rs \<and>
         query_events env q vn (world s) =
           [EvEmbed (PyStr q) EMBEDDING_MODEL, EvSearch ''Articles'' (vn, d) 20 None] @
           result_lines 0 rs \<and>
         length (result_lines 0 rs) = length rs)"
    using cell_query_returns [of env q vn s] by blast
next
  have e: "stages (trace (init w)) = []"
    by (simp add: init_def stages_Nil)
  from notebook_performs [of env] obtain L ks where
    "\<exists>n m k. L = indexing_steps n @ query_steps m @ query_steps k"
    "stages (trace (snd (notebook env (init w)))) = stages (trace (init w)) @ ks"
    "if isl (fst (notebook env (init w))) then prefix ks L else ks = L"
    unfolding performs_def by blast
  then show "\<exists>n m k.
      prefix (stages (trace (snd (notebook env (init w)))))
        (indexing_steps n @ query_steps m @ query_steps k) \<and>
      (fst (notebook env (init w)) = Inr () \<longrightarrow>
       stages (trace (snd (notebook env (init w)))) =
         indexing_steps n @ query_steps m @ query_steps k)"
    by (auto simp: e split: if_splits)
qed

lemmas cell_defs = cell_install_def sh_def cell_download_def cell_extract_def cell_read_csv_def
  cell_head_def cell_parse_def apply_column_def cell_info_def cell_docker_def cell_client_def
  cell_get_collections_def cell_recreate_collection_def vector_size_def VectorParams_def
  cell_upsert_def upsert_row_def build_point_def PointStruct_def report_failure_def
  cell_count_def cell_query_def query_qdrant_def first_embedding_def vector_name_of_def
  top_k_of_def payload_get_def

lemma demo_stages:
  "stages (trace (snd (notebook demo_env (init [])))) =
     [Download, Extract, Load, Parse, Parse, Parse, Create, Create, Upsert, Upsert,
      Query, Query, PrintResults, PrintResults, Query, Query, PrintResults, PrintResults]"
  by (simp add: notebook_def cell_defs prog_defs frame_defs demo_defs stages_def map_filter_def
        EMBEDDING_MODEL_def embeddings_url_def)

text \<open>
  C3 as stated fails: the second query is issued after the results of the first have
  been printed, so a query follows a printed result.
\<close>

theorem second_query_follows_first_results:
  "stages (trace (snd (notebook demo_env (init [])))) =
     [Download, Extract, Load, Parse, Parse, Parse, Create, Create, Upsert, Upsert,
      Query, Query, PrintResults, PrintResults, Query, Query, PrintResults, PrintResults] \<and>
   \<not> follows claimed_order (stages (trace (snd (notebook demo_env (init [])))))"
  by (simp add: demo_stages follows_def claimed_order_def)

lemma demo_before_queries:
  "fst (before_queries demo_env (init [])) = Inr ()"
  "world (snd (before_queries demo_env (init []))) = demo_points"
  "stages (trace (snd (before_queries demo_env (init [])))) =
     [Download, Extract, Load, Parse, Parse, Parse, Create, Create, Upsert, Upsert]"
  by (simp_all add: before_queries_def cell_defs prog_defs frame_defs demo_defs stages_def
        map_filter_def embeddings_url_def demo_points_def)

lemma demo_cell_query:
  "world s = demo_points \<Longrightarrow> fst (cell_query demo_env q vn s) = Inr ()"
  "world s = demo_points \<Longrightarrow> world (snd (cell_query demo_env q vn s)) = demo_points"
  by (simp_all add: cell_defs prog_defs demo_env_def demo_points_def demo_hit_def getitem_def)

lemma demo_query_events:
  "query_events demo_env q vn demo_points =
     [EvEmbed (PyStr q) ''text-embedding-ada-002'',
      EvSearch ''Articles'' (vn, PyList [PyFloat 1 (- 1), PyFloat 1 (- 2)]) 20 None,
      EvPrint [ArgInt 1, Lit ''. '', ArgVal (PyStr ''April''), Lit '', URL: '',
               ArgVal (PyStr ''wiki/April''), Lit '' (Score: '', ArgRound (PyFloat 7 (- 3)) 3,
               Lit '')''],
      EvPrint [ArgInt 2, Lit ''. '', ArgVal (PyStr ''August''), Lit '', URL: '',
               ArgVal (PyStr ''wiki/August''), Lit '' (Score: '', ArgRound (PyFloat 7 (- 3)) 3,
               Lit '')'']]"
  by (simp add: query_events_def result_line_def demo_env_def demo_points_def demo_hit_def
        payload_get_def getitem_def EMBEDDING_MODEL_def)

text \<open>
  C3, at a concrete input. In the small world the cells before the queries return after
  two upserts; the first query cell returns, and the run is complete: it ends with the
  embeddings call, the search and the two result lines of the first query, then those
  of the second.
\<close>

theorem notebook_steps_in_order_witness:
  "follows actual_order (stages (trace (snd (notebook demo_env (init []))))) \<and>
   fst (before_queries demo_env (init [])) = Inr () \<and>
   stages (trace (snd (before_queries demo_env (init [])))) = indexing_steps 2 \<and>
   fst (cell_query demo_env ''modern art in Europe'' ''title''
          (snd (before_queries demo_env (init [])))) = Inr () \<and>
   trace (snd (notebook demo_env (init []))) =
     trace (snd (before_queries demo_env (init []))) @
     [EvEmbed (PyStr ''modern art in Europe'') ''text-embedding-ada-002'',
      EvSearch ''Articles'' (''title'', PyList [PyFloat 1 (- 1), PyFloat 1 (- 2)]) 20 None,
      EvPrint [ArgInt 1, Lit ''. '', ArgVal (PyStr ''April''), Lit '', URL: '',
               ArgVal (PyStr ''wiki/April''), Lit '' (Score: '', ArgRound (PyFloat 7 (- 3)) 3,
               Lit '')''],
      EvPrint [ArgInt 2, Lit ''. '', ArgVal (PyStr ''August''), Lit '', URL: '',
               ArgVal (PyStr ''wiki/August''), Lit '' (Score: '', ArgRound (PyFloat 7 (- 3)) 3,
               Lit '')''],
      EvEmbed (PyStr ''Famous battles in Scottish history'') ''text-embedding-ada-002'',
      EvSearch ''Articles'' (''content'', PyList [PyFloat 1 (- 1), PyFloat 1 (- 2)]) 20 None,
      EvPrint [ArgInt 1, Lit ''. '', ArgVal (PyStr ''April''), Lit '', URL: '',
               ArgVal (PyStr ''wiki/April''), Lit '' (Score: '', ArgRound (PyFloat 7 (- 3)) 3,
               Lit '')''],
      EvPrint [ArgInt 2, Lit ''. '', ArgVal (PyStr ''August''), Lit '', URL: '',
               ArgVal (PyStr ''wiki/August''), Lit '' (Score: '', ArgRound (PyFloat 7 (- 3)) 3,
               Lit '')'']] \<and>
   fst (notebook demo_env (init [])) = Inr () \<and>
   stages (trace (snd (notebook demo_env (init [])))) =
     indexing_steps 2 @ query_steps 2 @ query_steps 2"
proof -
  let ?s0 = "snd (before_queries demo_env (init []))"
  have c: "fst (cell_query demo_env ''modern art in Europe'' ''title'' ?s0) = Inr ()"
    "world (snd (cell_query demo_env ''modern art in Europe'' ''title'' ?s0)) = demo_points"
    by (simp_all add: demo_cell_query demo_before_queries)
  have i: "indexing_steps 2 =
             [Download, Extract, Load, Parse, Parse, Parse, Create, Create, Upsert, Upsert]"
    "query_steps 2 = [Query, Query, PrintResults, PrintResults]"
    by (simp_all add: indexing_steps_def query_steps_def numeral_2_eq_2)
  have "notebook demo_env (init []) =
          cell_query demo_env ''Famous battles in Scottish history'' ''content''
            (snd (cell_query demo_env ''modern art in Europe'' ''title'' ?s0))"
    using demo_before_queries(1) c(1)
    by (simp add: notebook_split
          bind_returns [where m = "before_queries demo_env" and s = "init []" and x = "()"]
          bind_returns [where m = "cell_query demo_env ''modern art in Europe'' ''title''"
            and s = "snd (before_queries demo_env (init []))" and x = "()"])
  then have nb: "fst (notebook demo_env (init [])) = Inr ()"
    by (simp add: demo_cell_query c)
  note t = notebook_steps_in_order [of demo_env "[]" "''modern art in Europe''" "''title''" ?s0]
  from t have "trace (snd (notebook demo_env (init []))) =
     trace ?s0 @ query_events demo_env ''modern art in Europe'' ''title'' demo_points @
       query_events demo_env ''Famous battles in Scottish history'' ''content'' demo_points"
    by (simp add: c demo_before_queries)
  moreover from this have "stages (trace (snd (notebook demo_env (init [])))) =
     indexing_steps 2 @ query_steps 2 @ query_steps 2"
    by (simp add: stages_append demo_before_queries demo_query_events i)
       (simp add: stages_def map_filter_def)
  moreover from t have "follows actual_order (stages (trace (snd (notebook demo_env (init [])))))"
    by (rule conjunct1)
  ultimately show ?thesis
    using c nb by (simp add: demo_before_queries demo_query_events i)
qed

end
